theory Spec2Isabelle
  imports Main "HOL-Library.AList"
begin

section \<open>Python values and errors\<close>

text \<open>
  The view generator of \<^verbatim>\<open>generator/views/metric_definitions_view.py\<close> builds LookML as
  nested Python dicts, lists and strings. They are modelled by one datatype; a dict is an
  association list in insertion order, read with \<open>map_of\<close> and written with
  \<open>AList.update\<close> (which replaces the value of an existing key in place and appends a
  new key at the end, as a Python dict does).
\<close>

datatype lkml = Str string | List "lkml list" | Dict "(string \<times> lkml) list"

datatype error =
    AttributeError
  | KeyError string
  | IndexError
  | TypeError
  | TemplateError
  | FormatError
  | TableViewError

text \<open>
  A raise is the value \<open>Inl e\<close>; \<open>bind\<close> sequences two steps and stops at the first raise.
  \<open>TemplateError\<close>, \<open>FormatError\<close> and \<open>TableViewError\<close> stand for what the template
  engine, \<^verbatim>\<open>str.format\<close> and the base view may raise.
\<close>

definition bind :: "error + 'a \<Rightarrow> ('a \<Rightarrow> error + 'b) \<Rightarrow> error + 'b" where
  "bind m f = (case m of Inl e \<Rightarrow> Inl e | Inr x \<Rightarrow> f x)"

text \<open>\<^verbatim>\<open>[f(x) for x in xs]\<close> where \<open>f\<close> may raise: the first raise ends the comprehension.\<close>

fun traverse :: "('a \<Rightarrow> error + 'b) \<Rightarrow> 'a list \<Rightarrow> error + 'b list" where
  "traverse f [] = Inr []"
| "traverse f (x # xs) = bind (f x) (\<lambda>y. bind (traverse f xs) (\<lambda>ys. Inr (y # ys)))"

text \<open>\<^verbatim>\<open>d[k]\<close>: a missing key of a dict raises KeyError, a string key on a list or a string
  raises TypeError.\<close>

fun getitem :: "lkml \<Rightarrow> string \<Rightarrow> error + lkml" where
  "getitem (Dict kvs) k = (case map_of kvs k of None \<Rightarrow> Inl (KeyError k) | Some v \<Rightarrow> Inr v)"
| "getitem (List xs) k = Inl TypeError"
| "getitem (Str s) k = Inl TypeError"

text \<open>\<^verbatim>\<open>x[0]\<close>. The dicts of this model have string keys only, so \<^verbatim>\<open>d[0]\<close> on a dict is a
  KeyError.\<close>

fun index0 :: "lkml \<Rightarrow> error + lkml" where
  "index0 (List []) = Inl IndexError"
| "index0 (List (x # xs)) = Inr x"
| "index0 (Str []) = Inl IndexError"
| "index0 (Str (c # cs)) = Inr (Str [c])"
| "index0 (Dict kvs) = Inl (KeyError ''0'')"

text \<open>\<^verbatim>\<open>for x in v\<close>: a list gives its elements, a dict its keys, a string its characters.\<close>

fun iter :: "lkml \<Rightarrow> lkml list" where
  "iter (List xs) = xs"
| "iter (Dict kvs) = map (\<lambda>kv. Str (fst kv)) kvs"
| "iter (Str s) = map (\<lambda>c. Str [c]) s"

text \<open>\<^verbatim>\<open>d[k] = v\<close>: only a dict takes a string key.\<close>

fun setitem :: "lkml \<Rightarrow> string \<Rightarrow> lkml \<Rightarrow> error + lkml" where
  "setitem (Dict kvs) k v = Inr (Dict (AList.update k v kvs))"
| "setitem (List xs) k v = Inl TypeError"
| "setitem (Str s) k v = Inl TypeError"

text \<open>
  The name and the label of a field descriptor are used as text (compared with slugs,
  passed to the registry, concatenated into SQL). Descriptors are typed
  \<^verbatim>\<open>Dict[str, Any]\<close> with string names and labels; a value of another kind there is
  outside that type and is reported as TypeError.
\<close>

definition get_str :: "lkml \<Rightarrow> string \<Rightarrow> error + string" where
  "get_str d k = bind (getitem d k) (\<lambda>v. case v of Str s \<Rightarrow> Inr s | _ \<Rightarrow> Inl TypeError)"

text \<open>Truth value of a Python object: empty strings, lists and dicts are false.\<close>

fun truthy :: "lkml \<Rightarrow> bool" where
  "truthy (Str s) = (s \<noteq> [])"
| "truthy (List xs) = (xs \<noteq> [])"
| "truthy (Dict kvs) = (kvs \<noteq> [])"

text \<open>Truth value of an \<^verbatim>\<open>Optional[str]\<close>: None and the empty string are false.\<close>

fun truthy_str :: "string option \<Rightarrow> bool" where
  "truthy_str None = False"
| "truthy_str (Some s) = (s \<noteq> [])"

text \<open>\<^verbatim>\<open>x or default\<close> for an \<^verbatim>\<open>Optional[str]\<close> \<open>x\<close>.\<close>

definition or_default :: "string option \<Rightarrow> string \<Rightarrow> string" where
  "or_default x d = (case x of None \<Rightarrow> d | Some s \<Rightarrow> if s \<noteq> [] then s else d)"

text \<open>\<^verbatim>\<open>sep.join(xs)\<close>.\<close>

fun join :: "string \<Rightarrow> string list \<Rightarrow> string" where
  "join sep [] = []"
| "join sep [x] = x"
| "join sep (x # y # ys) = x @ sep @ join sep (y # ys)"

section \<open>The registry and the other collaborators\<close>

text \<open>
  A metric definition and a data-source definition as the generator reads them:
  \<^verbatim>\<open>metric.select_expression\<close>, \<^verbatim>\<open>metric.data_source.name\<close> (the field \<open>metric_data_source_name\<close>), \<^verbatim>\<open>metric.type\<close>,
  \<^verbatim>\<open>metric.friendly_name\<close>, \<^verbatim>\<open>metric.description\<close>, \<^verbatim>\<open>metric.statistics\<close> (a dict from
  statistic slug to its parameters, or None).
\<close>

record metric =
  select_expression :: "string option"
  metric_data_source_name :: string
  type :: string
  friendly_name :: "string option"
  description :: "string option"
  statistics :: "(string \<times> lkml) list option"

record data_source_definition =
  submission_date_column :: "string option"
  client_id_column :: "string option"

text \<open>\<^verbatim>\<open>namespace_definitions.metrics.definitions\<close>: a dict from metric slug to metric.\<close>

record namespace_definitions =
  metrics_definitions :: "(string \<times> metric) list"

text \<open>
  \<^verbatim>\<open>MetricsConfigLoader.configs\<close>, the metric-hub registry, is not part of this module and is
  a parameter of the model. \<open>render\<close> stands for
  \<^verbatim>\<open>get_env().from_string(s).render()\<close>, which may raise.
\<close>

record configs =
  get_platform_definitions :: "string \<Rightarrow> namespace_definitions option"
  get_data_source_definition :: "string \<Rightarrow> string \<Rightarrow> data_source_definition option"
  get_data_source_sql :: "string \<Rightarrow> string \<Rightarrow> string"
  get_metric_definition :: "string \<Rightarrow> string \<Rightarrow> metric option"
  render :: "string \<Rightarrow> error + string"

text \<open>
  The other collaborators, parameters as well: \<^verbatim>\<open>lookml_utils.slug_to_title\<close>;
  \<^verbatim>\<open>TableView(namespace, name, tables).to_lookml(bq_client, v1_name)\<close>;
  and \<^verbatim>\<open>sql.format(dataset=namespace)\<close> of the Python runtime, which may raise.
\<close>

record 'bq externals =
  slug_to_title :: "string \<Rightarrow> string"
  table_view_to_lookml ::
    "string \<Rightarrow> string \<Rightarrow> (string \<times> string) list list \<Rightarrow> 'bq \<Rightarrow> string option \<Rightarrow> error + lkml"
  format_dataset :: "string \<Rightarrow> string \<Rightarrow> error + string"

text \<open>The attributes of a \<^verbatim>\<open>MetricDefinitionsView\<close> instance.\<close>

record view =
  namespace :: string
  name :: string
  tables :: "(string \<times> string) list list"

section \<open>The view generator\<close>

text \<open>\<^verbatim>\<open>re.sub("^metric_definitions_", "", self.name)\<close>: the prefix is removed once, at the
  start of the name only.\<close>

definition data_source_name_of :: "string \<Rightarrow> string" where
  "data_source_name_of n =
     (let prefix = ''metric_definitions_''
      in if take (length prefix) n = prefix then drop (length prefix) n else n)"

subsection \<open>Metric columns and the exclusion list (\<^verbatim>\<open>to_lookml\<close>, lines 60 to 90)\<close>

definition metric_definitions ::
  "configs \<Rightarrow> namespace_definitions \<Rightarrow> string \<Rightarrow> error + string list" where
  "metric_definitions cfg namespace_definitions data_source_name =
     traverse
       (\<lambda>(metric_slug, metric).
          bind (case select_expression metric of
                  None \<Rightarrow> Inl TypeError
                | Some e \<Rightarrow> render cfg e)
            (\<lambda>rendered. Inr (rendered @ '' AS '' @ metric_slug @ '',\<newline>'')))
       (filter
          (\<lambda>(metric_slug, metric).
             truthy_str (select_expression metric)
             \<and> metric_data_source_name metric = data_source_name
             \<and> type metric \<noteq> ''histogram'')
          (metrics_definitions namespace_definitions))"

definition ignore_base_fields :: "namespace_definitions \<Rightarrow> string \<Rightarrow> string list" where
  "ignore_base_fields namespace_definitions data_source_name =
     [''client_id'', ''submission_date'', ''submission'', ''first_run'']
     @ map (\<lambda>(metric_slug, metric). metric_slug)
         (filter
            (\<lambda>(metric_slug, metric).
               truthy_str (select_expression metric)
               \<and> metric_data_source_name metric = data_source_name
               \<and> type metric \<noteq> ''histogram'')
            (metrics_definitions namespace_definitions))"

subsection \<open>The base view (\<^verbatim>\<open>to_lookml\<close>, lines 91 to 121)\<close>

text \<open>\<^verbatim>\<open>lkml["views"][0][key]\<close>, as the source reads the base view's LookML.\<close>

definition views0_item :: "lkml \<Rightarrow> string \<Rightarrow> error + lkml" where
  "views0_item lkml key =
     bind (getitem lkml ''views'') (\<lambda>views.
     bind (index0 views) (\<lambda>v. getitem v key))"

text \<open>\<^verbatim>\<open>[f"{d['name']},\n" for d in ... if d["name"] not in ignore_base_fields]\<close>.\<close>

definition base_view_fields_of :: "string list \<Rightarrow> lkml \<Rightarrow> error + string list" where
  "base_view_fields_of ignore dims =
     bind (traverse
             (\<lambda>d. bind (getitem d ''name'') (\<lambda>v.
                if v \<notin> set (map Str ignore)
                then bind (get_str d ''name'') (\<lambda>n. Inr [n @ '',\<newline>''])
                else Inr []))
             (iter dims))
       (\<lambda>xss. Inr (concat xss))"

definition join_base_view_sql :: "string \<Rightarrow> data_source_definition \<Rightarrow> string" where
  "join_base_view_sql base_table data_source_definition =
     ''\<newline>'' @
     ''            INNER JOIN '' @ base_table @ '' base\<newline>'' @
     ''            ON\<newline>'' @
     ''                base.submission_date = m.'' @
       or_default (submission_date_column data_source_definition) ''submission_date'' @
       '' AND\<newline>'' @
     ''                base.client_id = m.'' @
       or_default (client_id_column data_source_definition) ''client_id'' @ ''\<newline>'' @
     ''            WHERE base.submission_date BETWEEN\<newline>'' @
     ''                SAFE_CAST(\<newline>'' @
     ''                    {% date_start '' @
       or_default (submission_date_column data_source_definition) ''submission_date'' @
       '' %} AS DATE\<newline>'' @
     ''                ) AND\<newline>'' @
     ''                SAFE_CAST(\<newline>'' @
     ''                    {% date_end '' @
       or_default (submission_date_column data_source_definition) ''submission_date'' @
       '' %} AS DATE\<newline>'' @
     ''                )\<newline>'' @
     ''            ''"

text \<open>
  The result is \<^verbatim>\<open>(base_view_fields, base_view_lkml, join_base_view)\<close>; with an empty table
  list these keep their initial values \<^verbatim>\<open>[]\<close>, \<^verbatim>\<open>None\<close> and \<^verbatim>\<open>""\<close>.
\<close>

definition base_view ::
  "'bq externals \<Rightarrow> view \<Rightarrow> 'bq \<Rightarrow> data_source_definition \<Rightarrow> string list
     \<Rightarrow> error + (string list \<times> lkml option \<times> string)" where
  "base_view ext self bq_client data_source_definition ignore =
     (case tables self of
        [] \<Rightarrow> Inr ([], None, [])
      | first_table # others \<Rightarrow>
          bind (case map_of first_table ''table'' of
                  None \<Rightarrow> Inl (KeyError ''table'')
                | Some t \<Rightarrow> Inr t) (\<lambda>base_table.
          bind (table_view_to_lookml ext (namespace self) ''base_view''
                  [[(''table'', base_table), (''channel'', ''release'')]] bq_client None)
            (\<lambda>base_view_lkml.
          bind (views0_item base_view_lkml ''dimensions'') (\<lambda>dims.
          bind (base_view_fields_of ignore dims) (\<lambda>base_view_fields.
          Inr (base_view_fields, Some base_view_lkml,
               join_base_view_sql base_table data_source_definition))))))"

subsection \<open>The derived-table SQL (\<^verbatim>\<open>to_lookml\<close>, lines 123 to 176)\<close>

text \<open>
  The f-string of the source is one text; it is cut here into the conditional that computes
  \<^verbatim>\<open>analysis_basis\<close> (lines 129 to 154), the date filter (lines 164 to 170) and the text
  around them. \<open>col\<close> is
  \<^verbatim>\<open>data_source_definition.submission_date_column or "submission_date"\<close>.
\<close>

definition analysis_basis_sql :: "string \<Rightarrow> string" where
  "analysis_basis_sql col =
     ''{% if aggregate_metrics_by._parameter_value == 'day' %}\<newline>'' @
     ''                m.'' @ col @ '' AS analysis_basis\<newline>'' @
     ''                {% elsif aggregate_metrics_by._parameter_value == 'week'  %}\<newline>'' @
     ''                (FORMAT_DATE(\<newline>'' @
     ''                    '%F',\<newline>'' @
     ''                    DATE_TRUNC(m.'' @ col @ '',\<newline>'' @
     ''                    WEEK(MONDAY)))\<newline>'' @
     ''                ) AS analysis_basis\<newline>'' @
     ''                {% elsif aggregate_metrics_by._parameter_value == 'month'  %}\<newline>'' @
     ''                (FORMAT_DATE(\<newline>'' @
     ''                    '%Y-%m',\<newline>'' @
     ''                    m.'' @ col @ '')\<newline>'' @
     ''                ) AS analysis_basis\<newline>'' @
     ''                {% elsif aggregate_metrics_by._parameter_value == 'quarter'  %}\<newline>'' @
     ''                (FORMAT_DATE(\<newline>'' @
     ''                    '%Y-%m',\<newline>'' @
     ''                    DATE_TRUNC(m.'' @ col @ '',\<newline>'' @
     ''                    QUARTER))\<newline>'' @
     ''                ) AS analysis_basis\<newline>'' @
     ''                {% elsif aggregate_metrics_by._parameter_value == 'year'  %}\<newline>'' @
     ''                (EXTRACT(\<newline>'' @
     ''                    YEAR FROM m.'' @ col @ '')\<newline>'' @
     ''                ) AS analysis_basis\<newline>'' @
     ''                {% else %}\<newline>'' @
     ''                NULL as analysis_basis\<newline>'' @
     ''                {% endif %}''"

definition date_filter_sql :: "string \<Rightarrow> data_source_definition \<Rightarrow> string" where
  "date_filter_sql join_base_view data_source_definition =
     (if join_base_view \<noteq> [] then ''AND'' else ''WHERE'') @
       '' m.submission_date BETWEEN\<newline>'' @
     ''                SAFE_CAST(\<newline>'' @
     ''                    {% date_start '' @
       or_default (submission_date_column data_source_definition) ''submission_date'' @
       '' %} AS DATE\<newline>'' @
     ''                ) AND\<newline>'' @
     ''                SAFE_CAST(\<newline>'' @
     ''                    {% date_end '' @
       or_default (submission_date_column data_source_definition) ''submission_date'' @
       '' %} AS DATE\<newline>'' @
     ''                )''"

definition derived_table_sql ::
  "data_source_definition \<Rightarrow> string list \<Rightarrow> string list \<Rightarrow> string \<Rightarrow> string \<Rightarrow> string" where
  "derived_table_sql data_source_definition metric_defs base_view_fields source_sql join_base_view =
     ''\<newline>'' @
     ''            SELECT\<newline>'' @
     ''                '' @ concat metric_defs @ ''\<newline>'' @
     ''                '' @ join ''base.'' base_view_fields @ ''\<newline>'' @
     ''                m.'' @ or_default (client_id_column data_source_definition) ''client_id'' @
       '' AS client_id,\<newline>'' @
     ''                '' @
       analysis_basis_sql
         (or_default (submission_date_column data_source_definition) ''submission_date'') @
       ''\<newline>'' @
     ''            FROM\<newline>'' @
     ''                '' @ source_sql @ ''\<newline>'' @
     ''            AS m\<newline>'' @
     ''            '' @ join_base_view @ ''\<newline>'' @
     ''            '' @ date_filter_sql join_base_view data_source_definition @ ''\<newline>'' @
     ''            GROUP BY\<newline>'' @
     ''                '' @ concat base_view_fields @ ''\<newline>'' @
     ''                client_id,\<newline>'' @
     ''                analysis_basis\<newline>'' @
     ''            ''"

subsection \<open>Dimensions, dimension groups, measures, sets and parameters\<close>

text \<open>
  \<^verbatim>\<open>get_dimensions\<close> looks the namespace up again and reads \<^verbatim>\<open>.metrics\<close> of the result
  with no test for None: on None that is an AttributeError.
\<close>

definition get_dimensions :: "configs \<Rightarrow> 'bq externals \<Rightarrow> view \<Rightarrow> error + lkml list" where
  "get_dimensions cfg ext self =
     (case get_platform_definitions cfg (namespace self) of
        None \<Rightarrow> Inl AttributeError
      | Some namespace_definitions \<Rightarrow>
          (let metric_defs = metrics_definitions namespace_definitions;
               data_source_name = data_source_name_of (name self)
           in Inr
             ([Dict [(''name'', Str ''client_id''),
                     (''type'', Str ''string''),
                     (''sql'', Str ''SAFE_CAST(${TABLE}.client_id AS STRING)''),
                     (''label'', Str ''Client ID''),
                     (''primary_key'', Str ''yes''),
                     (''group_label'', Str ''Base Fields''),
                     (''description'', Str ''Unique client identifier'')]]
              @ map (\<lambda>(metric_slug, metric).
                       Dict [(''name'', Str metric_slug),
                             (''group_label'', Str ''Metrics''),
                             (''label'', Str (or_default (friendly_name metric)
                                                (slug_to_title ext metric_slug))),
                             (''description'', Str (or_default (description metric) [])),
                             (''type'', Str ''number''),
                             (''sql'', Str (''${TABLE}.'' @ metric_slug))])
                  (filter
                     (\<lambda>(metric_slug, metric).
                        truthy_str (select_expression metric)
                        \<and> metric_data_source_name metric = data_source_name
                        \<and> type metric \<noteq> ''histogram'')
                     metric_defs))))"

definition get_dimension_groups :: "lkml list" where
  "get_dimension_groups =
     [Dict [(''name'', Str ''submission''),
            (''type'', Str ''time''),
            (''group_label'', Str ''Base Fields''),
            (''sql'', Str ''CAST(${TABLE}.analysis_basis AS TIMESTAMP)''),
            (''label'', Str ''Submission''),
            (''timeframes'',
               List [Str ''raw'', Str ''date'', Str ''week'', Str ''month'', Str ''quarter'',
                     Str ''year''])]]"

text \<open>The inner loop of \<^verbatim>\<open>get_measures\<close> over the statistic slugs of one dimension's metric.\<close>

fun statistic_measures :: "lkml \<Rightarrow> string list \<Rightarrow> error + lkml list" where
  "statistic_measures dimension [] = Inr []"
| "statistic_measures dimension (statistic_slug # rest) =
     (if statistic_slug = ''sum'' then
        bind (get_str dimension ''name'') (\<lambda>n.
        bind (get_str dimension ''label'') (\<lambda>l.
        bind (statistic_measures dimension rest) (\<lambda>ms.
        Inr (Dict [(''name'', Str (n @ ''_'' @ statistic_slug)),
                   (''type'', Str ''sum''),
                   (''sql'', Str (''${TABLE}.'' @ n)),
                   (''label'', Str (l @ '' Sum'')),
                   (''group_label'', Str ''Statistics''),
                   (''description'', Str (''Sum of '' @ l))] # ms))))
      else if statistic_slug = ''client_count'' then
        bind (get_str dimension ''name'') (\<lambda>n.
        bind (get_str dimension ''label'') (\<lambda>l.
        bind (statistic_measures dimension rest) (\<lambda>ms.
        Inr (Dict [(''name'', Str (n @ ''_'' @ statistic_slug)),
                   (''type'', Str ''count_distinct''),
                   (''label'', Str (l @ '' Client Count'')),
                   (''group_label'', Str ''Statistics''),
                   (''sql'', Str (''IF(SAFE_CAST(${TABLE}.'' @ (n @ '' AS BOOL), '')
                                  @ ''${TABLE}.client_id, SAFE_CAST(NULL AS STRING))'')),
                   (''description'', Str (''Number of clients with '' @ l))] # ms))))
      else statistic_measures dimension rest)"

definition get_measures :: "configs \<Rightarrow> view \<Rightarrow> lkml list \<Rightarrow> error + lkml list" where
  "get_measures cfg self dimensions =
     bind (traverse
             (\<lambda>dimension.
                bind (get_str dimension ''name'') (\<lambda>n.
                  case get_metric_definition cfg n (namespace self) of
                    None \<Rightarrow> Inr []
                  | Some metric \<Rightarrow>
                      (case statistics metric of
                         None \<Rightarrow> Inr []
                       | Some stats \<Rightarrow>
                           if stats \<noteq> [] then statistic_measures dimension (map fst stats)
                           else Inr [])))
             dimensions)
       (\<lambda>mss. Inr (concat mss))"

text \<open>\<^verbatim>\<open>_get_sets\<close>; an Isabelle name cannot start with an underscore.\<close>

definition get_sets :: "configs \<Rightarrow> 'bq externals \<Rightarrow> view \<Rightarrow> error + lkml list" where
  "get_sets cfg ext self =
     bind (get_dimensions cfg ext self) (\<lambda>dimensions.
     bind (get_measures cfg self dimensions) (\<lambda>measures.
     bind (traverse
             (\<lambda>dimension. bind (getitem dimension ''name'') (\<lambda>v.
                if v \<noteq> Str ''client_id''
                then bind (getitem dimension ''name'') (\<lambda>w. Inr [w])
                else Inr []))
             dimensions) (\<lambda>dimension_names.
     bind (traverse (\<lambda>measure. getitem measure ''name'') measures) (\<lambda>measure_names.
     Inr [Dict [(''name'', Str ''metrics''),
                (''fields'', List (concat dimension_names @ measure_names))]]))))"

text \<open>\<^verbatim>\<open>_get_parameters\<close>.\<close>

definition get_parameters :: "lkml list" where
  "get_parameters =
     [Dict [(''name'', Str ''aggregate_metrics_by''),
            (''label'', Str ''Aggregate Client Metrics Per''),
            (''type'', Str ''unquoted''),
            (''default_value'', Str ''day''),
            (''allowed_values'',
               List [Dict [(''label'', Str ''Per Day''), (''value'', Str ''day'')],
                     Dict [(''label'', Str ''Per Week''), (''value'', Str ''week'')],
                     Dict [(''label'', Str ''Per Month''), (''value'', Str ''month'')],
                     Dict [(''label'', Str ''Per Quarter''), (''value'', Str ''quarter'')],
                     Dict [(''label'', Str ''Per Year''), (''value'', Str ''year'')],
                     Dict [(''label'', Str ''Overall''), (''value'', Str ''overall'')]])]]"

subsection \<open>Merging the base view's fields (\<^verbatim>\<open>to_lookml\<close>, lines 181 to 190)\<close>

text \<open>
  Both loops have the same body: a field whose name is not on the exclusion list gets
  \<^verbatim>\<open>group_label = "Base Fields"\<close> and is appended to the list built so far.
\<close>

fun append_base_fields :: "string list \<Rightarrow> lkml list \<Rightarrow> lkml list \<Rightarrow> error + lkml list" where
  "append_base_fields ignore acc [] = Inr acc"
| "append_base_fields ignore acc (dimension # rest) =
     bind (getitem dimension ''name'') (\<lambda>v.
       if v \<notin> set (map Str ignore)
       then bind (setitem dimension ''group_label'' (Str ''Base Fields'')) (\<lambda>dimension'.
              append_base_fields ignore (acc @ [dimension']) rest)
       else append_base_fields ignore acc rest)"

definition merge_base_view ::
  "string list \<Rightarrow> lkml option \<Rightarrow> lkml list \<Rightarrow> lkml list \<Rightarrow> error + (lkml list \<times> lkml list)" where
  "merge_base_view ignore base_view_lkml dimensions dimension_groups =
     (case base_view_lkml of
        None \<Rightarrow> Inr (dimensions, dimension_groups)
      | Some lkml \<Rightarrow>
          if truthy lkml then
            bind (views0_item lkml ''dimensions'') (\<lambda>dims.
            bind (append_base_fields ignore dimensions (iter dims)) (\<lambda>dimensions'.
            bind (views0_item lkml ''dimension_groups'') (\<lambda>groups.
            bind (append_base_fields ignore dimension_groups (iter groups)) (\<lambda>dimension_groups'.
            Inr (dimensions', dimension_groups')))))
          else Inr (dimensions, dimension_groups))"

subsection \<open>\<^verbatim>\<open>to_lookml\<close>\<close>

text \<open>
  \<open>Dict []\<close> is the empty result \<^verbatim>\<open>{}\<close>. The argument \<^verbatim>\<open>v1_name\<close> is not used by the
  source.
\<close>

definition to_lookml ::
  "configs \<Rightarrow> 'bq externals \<Rightarrow> view \<Rightarrow> 'bq \<Rightarrow> string option \<Rightarrow> error + lkml" where
  "to_lookml cfg ext self bq_client v1_name =
     (case get_platform_definitions cfg (namespace self) of
        None \<Rightarrow> Inr (Dict [])
      | Some namespace_definitions \<Rightarrow>
          (let data_source_name = data_source_name_of (name self) in
           case get_data_source_definition cfg data_source_name (namespace self) of
             None \<Rightarrow> Inr (Dict [])
           | Some data_source_definition \<Rightarrow>
               bind (metric_definitions cfg namespace_definitions data_source_name)
                 (\<lambda>metric_defs.
               if metric_defs = [] then Inr (Dict [])
               else
                 (let ignore = ignore_base_fields namespace_definitions data_source_name in
                  bind (base_view ext self bq_client data_source_definition ignore)
                    (\<lambda>(base_view_fields, base_view_lkml, join_base_view).
                  bind (format_dataset ext
                          (get_data_source_sql cfg data_source_name (namespace self))
                          (namespace self)) (\<lambda>source_sql.
                  bind (get_dimensions cfg ext self) (\<lambda>dimensions.
                  bind (merge_base_view ignore base_view_lkml dimensions get_dimension_groups)
                    (\<lambda>(dimensions', dimension_groups').
                  bind (get_measures cfg self dimensions') (\<lambda>measures.
                  bind (get_sets cfg ext self) (\<lambda>sets.
                  Inr (Dict [(''views'', List [Dict
                    [(''name'', Str (name self)),
                     (''derived_table'', Dict [(''sql'', Str
                        (derived_table_sql data_source_definition metric_defs base_view_fields
                           source_sql join_base_view))]),
                     (''dimensions'', List dimensions'),
                     (''dimension_groups'', List dimension_groups'),
                     (''measures'', List measures),
                     (''sets'', List sets),
                     (''parameters'', List get_parameters)]])])))))))))))"

section \<open>The base view's descriptors as objects\<close>

text \<open>
  The two loops of lines 182 to 190 do not copy the descriptors of the base view: line 184
  and line 189 set \<^verbatim>\<open>group_label\<close> on the very dicts that
  \<^verbatim>\<open>TableView(...).to_lookml(...)\<close> returned, and append those dicts to the view. The
  functions above give the record that \<^verbatim>\<open>to_lookml\<close> returns; the functions of this
  section also give the state in which the call leaves the base view's LookML. The LookML is
  a tree of values, so that an element changed in place is written back along its path.
\<close>

text \<open>
  One loop: the list built so far, and the iterated list after the loop. A raise leaves
  the elements not yet visited as they were.
\<close>

fun append_base_fields_st ::
  "string list \<Rightarrow> lkml list \<Rightarrow> lkml list \<Rightarrow> (error + lkml list) \<times> lkml list" where
  "append_base_fields_st ignore acc [] = (Inr acc, [])"
| "append_base_fields_st ignore acc (dimension # rest) =
     (case getitem dimension ''name'' of
        Inl e \<Rightarrow> (Inl e, dimension # rest)
      | Inr v \<Rightarrow>
          if v \<notin> set (map Str ignore)
          then (case setitem dimension ''group_label'' (Str ''Base Fields'') of
                  Inl e \<Rightarrow> (Inl e, dimension # rest)
                | Inr dimension' \<Rightarrow>
                    (case append_base_fields_st ignore (acc @ [dimension']) rest of
                       (r, rest') \<Rightarrow> (r, dimension' # rest')))
          else (case append_base_fields_st ignore acc rest of
                  (r, rest') \<Rightarrow> (r, dimension # rest')))"

text \<open>
  The value iterated by a loop, with its elements as the loop left them: the elements of a
  list are the objects visited; the keys of a dict and the characters of a string are
  temporaries.
\<close>

definition with_items :: "lkml \<Rightarrow> lkml list \<Rightarrow> lkml" where
  "with_items v items = (case v of List xs \<Rightarrow> List items | _ \<Rightarrow> v)"

text \<open>The LookML with \<^verbatim>\<open>lkml["views"][0][key]\<close> replaced by \<open>v\<close>.\<close>

definition put_views0_item :: "lkml \<Rightarrow> string \<Rightarrow> lkml \<Rightarrow> lkml" where
  "put_views0_item lkml key v =
     (case lkml of
        Dict kvs \<Rightarrow>
          (case map_of kvs ''views'' of
             Some (List (Dict kvs0 # vs)) \<Rightarrow>
               Dict (AList.update ''views'' (List (Dict (AList.update key v kvs0) # vs)) kvs)
           | _ \<Rightarrow> lkml)
      | _ \<Rightarrow> lkml)"

text \<open>Lines 181 to 190, with the base view's LookML after them.\<close>

definition merge_base_view_st ::
  "string list \<Rightarrow> lkml option \<Rightarrow> lkml list \<Rightarrow> lkml list
     \<Rightarrow> (error + (lkml list \<times> lkml list)) \<times> lkml option" where
  "merge_base_view_st ignore base_view_lkml dimensions dimension_groups =
     (case base_view_lkml of
        None \<Rightarrow> (Inr (dimensions, dimension_groups), None)
      | Some lkml \<Rightarrow>
          if truthy lkml then
            (case views0_item lkml ''dimensions'' of
               Inl e \<Rightarrow> (Inl e, Some lkml)
             | Inr dims \<Rightarrow>
                 (case append_base_fields_st ignore dimensions (iter dims) of
                    (r1, dims_after) \<Rightarrow>
                      (let lkml1 = put_views0_item lkml ''dimensions'' (with_items dims dims_after)
                       in case r1 of
                            Inl e \<Rightarrow> (Inl e, Some lkml1)
                          | Inr dimensions' \<Rightarrow>
                              (case views0_item lkml1 ''dimension_groups'' of
                                 Inl e \<Rightarrow> (Inl e, Some lkml1)
                               | Inr groups \<Rightarrow>
                                   (case append_base_fields_st ignore dimension_groups
                                           (iter groups) of
                                      (r2, groups_after) \<Rightarrow>
                                        (bind r2 (\<lambda>dimension_groups'.
                                           Inr (dimensions', dimension_groups')),
                                         Some (put_views0_item lkml1 ''dimension_groups''
                                                 (with_items groups groups_after))))))))
          else (Inr (dimensions, dimension_groups), Some lkml))"

text \<open>
  The resolver after a call that left the base view's LookML as \<open>base_view_lkml\<close>, for a
  resolver that keeps the objects it hands out: the request of this call is answered with
  that object, every other request as before. Without a base view the resolver is as
  before.
\<close>

definition resolver_after ::
  "'bq externals \<Rightarrow> view \<Rightarrow> 'bq \<Rightarrow> lkml option
     \<Rightarrow> string \<Rightarrow> string \<Rightarrow> (string \<times> string) list list \<Rightarrow> 'bq \<Rightarrow> string option
     \<Rightarrow> error + lkml" where
  "resolver_after ext self bq_client base_view_lkml =
     (case base_view_lkml of
        None \<Rightarrow> table_view_to_lookml ext
      | Some lkml \<Rightarrow>
          (case tables self of
             [] \<Rightarrow> table_view_to_lookml ext
           | first_table # others \<Rightarrow>
               (case map_of first_table ''table'' of
                  None \<Rightarrow> table_view_to_lookml ext
                | Some base_table \<Rightarrow>
                    (\<lambda>ns n ts bq v1.
                       if ns = namespace self \<and> n = ''base_view''
                          \<and> ts = [[(''table'', base_table), (''channel'', ''release'')]]
                          \<and> bq = bq_client \<and> v1 = None
                       then Inr lkml
                       else table_view_to_lookml ext ns n ts bq v1))))"

text \<open>
  \<^verbatim>\<open>to_lookml\<close> with the resolver after the call. Nothing is changed in place before line
  184, so that every earlier return and raise leaves the resolver as it was.
\<close>

definition to_lookml_st ::
  "configs \<Rightarrow> 'bq externals \<Rightarrow> view \<Rightarrow> 'bq \<Rightarrow> string option
     \<Rightarrow> (error + lkml)
        \<times> (string \<Rightarrow> string \<Rightarrow> (string \<times> string) list list \<Rightarrow> 'bq \<Rightarrow> string option
             \<Rightarrow> error + lkml)" where
  "to_lookml_st cfg ext self bq_client v1_name =
     (case get_platform_definitions cfg (namespace self) of
        None \<Rightarrow> (Inr (Dict []), table_view_to_lookml ext)
      | Some namespace_definitions \<Rightarrow>
          (let data_source_name = data_source_name_of (name self) in
           case get_data_source_definition cfg data_source_name (namespace self) of
             None \<Rightarrow> (Inr (Dict []), table_view_to_lookml ext)
           | Some data_source_definition \<Rightarrow>
               (case metric_definitions cfg namespace_definitions data_source_name of
                  Inl e \<Rightarrow> (Inl e, table_view_to_lookml ext)
                | Inr metric_defs \<Rightarrow>
                    if metric_defs = [] then (Inr (Dict []), table_view_to_lookml ext)
                    else
                      (let ignore = ignore_base_fields namespace_definitions data_source_name in
                       case base_view ext self bq_client data_source_definition ignore of
                         Inl e \<Rightarrow> (Inl e, table_view_to_lookml ext)
                       | Inr (base_view_fields, base_view_lkml, join_base_view) \<Rightarrow>
                           (case format_dataset ext
                                   (get_data_source_sql cfg data_source_name (namespace self))
                                   (namespace self) of
                              Inl e \<Rightarrow> (Inl e, table_view_to_lookml ext)
                            | Inr source_sql \<Rightarrow>
                                (case get_dimensions cfg ext self of
                                   Inl e \<Rightarrow> (Inl e, table_view_to_lookml ext)
                                 | Inr dimensions \<Rightarrow>
                                     (case merge_base_view_st ignore base_view_lkml dimensions
                                             get_dimension_groups of
                                        (merged, base_view_lkml') \<Rightarrow>
     (bind merged (\<lambda>(dimensions', dimension_groups').
      bind (get_measures cfg self dimensions') (\<lambda>measures.
      bind (get_sets cfg ext self) (\<lambda>sets.
      Inr (Dict [(''views'', List [Dict
        [(''name'', Str (name self)),
         (''derived_table'', Dict [(''sql'', Str
            (derived_table_sql data_source_definition metric_defs base_view_fields
               source_sql join_base_view))]),
         (''dimensions'', List dimensions'),
         (''dimension_groups'', List dimension_groups'),
         (''measures'', List measures),
         (''sets'', List sets),
         (''parameters'', List get_parameters)]])])))),
      resolver_after ext self bq_client base_view_lkml'))))))))"

section \<open>Specification-level definitions\<close>

text \<open>
  The definitions of this section are not translations of the source. They say, in the
  words of the specification, what the claims compare the generator with.
\<close>

text \<open>
  The filter of the specification: a metric belongs to the view iff its select expression
  is non-empty, its data source is the one the view name stands for, and its type is not
  \<^verbatim>\<open>histogram\<close>.
\<close>

definition applicable :: "string \<Rightarrow> metric \<Rightarrow> bool" where
  "applicable data_source_id m \<longleftrightarrow>
     select_expression m \<noteq> None \<and> select_expression m \<noteq> Some []
     \<and> metric_data_source_name m = data_source_id
     \<and> type m \<noteq> ''histogram''"

text \<open>The metrics of a namespace that pass the filter, in the registry's order, and their slugs.\<close>

definition filtered_metrics :: "namespace_definitions \<Rightarrow> string \<Rightarrow> (string \<times> metric) list" where
  "filtered_metrics nsd data_source_id =
     filter (\<lambda>(slug, m). applicable data_source_id m) (metrics_definitions nsd)"

definition filtered_slugs :: "namespace_definitions \<Rightarrow> string \<Rightarrow> string list" where
  "filtered_slugs nsd data_source_id = map fst (filtered_metrics nsd data_source_id)"

text \<open>
  A base-view field as it is merged into the view: the same descriptor with
  \<^verbatim>\<open>group_label\<close> set to \<^verbatim>\<open>Base Fields\<close>.
\<close>

fun with_group_label :: "lkml \<Rightarrow> lkml" where
  "with_group_label (Dict kvs) = Dict (AList.update ''group_label'' (Str ''Base Fields'') kvs)"
| "with_group_label v = v"

text \<open>A field is kept when it has a name and the name is not on the list.\<close>

definition not_ignored :: "string list \<Rightarrow> lkml \<Rightarrow> bool" where
  "not_ignored ignore d =
     (case getitem d ''name'' of Inl e \<Rightarrow> False | Inr v \<Rightarrow> v \<notin> set (map Str ignore))"

text \<open>
  The exclusion of the specification: a base field is left out when its name is
  \<^verbatim>\<open>client_id\<close>, \<^verbatim>\<open>submission_date\<close>, \<^verbatim>\<open>submission\<close>, \<^verbatim>\<open>first_run\<close> or a filtered
  metric slug.
\<close>

definition excluded_base_field :: "namespace_definitions \<Rightarrow> string \<Rightarrow> lkml \<Rightarrow> bool" where
  "excluded_base_field nsd data_source_id d \<longleftrightarrow>
     (\<exists>n \<in> {''client_id'', ''submission_date'', ''submission'', ''first_run''}
             \<union> set (filtered_slugs nsd data_source_id).
        getitem d ''name'' = Inr (Str n))"

text \<open>
  The measures the specification expects for a metric slug: one per declared statistic
  that is \<^verbatim>\<open>sum\<close> or \<^verbatim>\<open>client_count\<close>, named \<^verbatim>\<open><slug>_<statistic>\<close>, of type \<^verbatim>\<open>sum\<close> or
  \<^verbatim>\<open>count_distinct\<close>.
\<close>

definition recognized_statistic :: "string \<Rightarrow> bool" where
  "recognized_statistic s \<longleftrightarrow> s = ''sum'' \<or> s = ''client_count''"

definition measure_type :: "string \<Rightarrow> string" where
  "measure_type s = (if s = ''sum'' then ''sum'' else ''count_distinct'')"

definition declared_statistics :: "configs \<Rightarrow> string \<Rightarrow> string \<Rightarrow> string list" where
  "declared_statistics cfg ns slug =
     (case get_metric_definition cfg slug ns of
        None \<Rightarrow> []
      | Some m \<Rightarrow> (case statistics m of None \<Rightarrow> [] | Some stats \<Rightarrow> map fst stats))"

definition expected_measures :: "configs \<Rightarrow> string \<Rightarrow> string \<Rightarrow> (string \<times> string) list" where
  "expected_measures cfg ns slug =
     map (\<lambda>s. (slug @ ''_'' @ s, measure_type s))
       (filter recognized_statistic (declared_statistics cfg ns slug))"

text \<open>The name and the type of a measure descriptor.\<close>

definition name_and_type :: "lkml \<Rightarrow> (error + string) \<times> (error + string)" where
  "name_and_type m = (get_str m ''name'', get_str m ''type'')"

text \<open>
  A dimension carries a label where \<^verbatim>\<open>get_measures\<close> reads one: when its metric declares a
  \<^verbatim>\<open>sum\<close> or \<^verbatim>\<open>client_count\<close> statistic.
\<close>

definition labelled_where_needed :: "configs \<Rightarrow> string \<Rightarrow> lkml \<Rightarrow> bool" where
  "labelled_where_needed cfg ns d =
     (case get_str d ''name'' of
        Inl e \<Rightarrow> True
      | Inr n \<Rightarrow> expected_measures cfg ns n = []
                \<or> (case get_str d ''label'' of Inl e \<Rightarrow> False | Inr l \<Rightarrow> True))"

text \<open>
  The text of a Liquid conditional that compares one variable with string values,
  \<^verbatim>\<open>{% if var == 'v1' %} b1 {% elsif var == 'v2' %} b2 ... {% else %} e {% endif %}\<close>, built
  from its branches (value, blanks before the closing \<^verbatim>\<open>%}\<close>, body), and the body it
  selects for a value of the variable.
\<close>

fun liquid_chain ::
  "string \<Rightarrow> string \<Rightarrow> (string \<times> string \<times> string) list \<Rightarrow> string \<Rightarrow> string" where
  "liquid_chain keyword var [] else_body = ''{% else %}'' @ else_body @ ''{% endif %}''"
| "liquid_chain keyword var ((v, pad, body) # rest) else_body =
     ''{% '' @ keyword @ '' '' @ var @ '' == '' @ [CHR 0x27] @ v @ [CHR 0x27] @ pad @ ''%}''
     @ body @ liquid_chain ''elsif'' var rest else_body"

fun liquid_select :: "(string \<times> string \<times> string) list \<Rightarrow> string \<Rightarrow> string \<Rightarrow> string" where
  "liquid_select [] else_body x = else_body"
| "liquid_select ((v, pad, body) # rest) else_body x =
     (if x = v then body else liquid_select rest else_body x)"

text \<open>
  The branches of the \<^verbatim>\<open>analysis_basis\<close> conditional as the specification lists them
  (day, week, month, quarter, year), with the SQL of lines 129 to 151 as bodies, and the
  else branch of lines 152 to 153.
\<close>

definition analysis_basis_branches :: "string \<Rightarrow> (string \<times> string \<times> string) list" where
  "analysis_basis_branches col =
     [(''day'', '' '',
         ''\<newline>                m.'' @ col @ '' AS analysis_basis\<newline>                ''),
      (''week'', ''  '',
         ''\<newline>                (FORMAT_DATE(\<newline>                    '%F',\<newline>                    DATE_TRUNC(m.''
         @ col @ '',\<newline>                    WEEK(MONDAY)))\<newline>                ) AS analysis_basis\<newline>                ''),
      (''month'', ''  '',
         ''\<newline>                (FORMAT_DATE(\<newline>                    '%Y-%m',\<newline>                    m.''
         @ col @ '')\<newline>                ) AS analysis_basis\<newline>                ''),
      (''quarter'', ''  '',
         ''\<newline>                (FORMAT_DATE(\<newline>                    '%Y-%m',\<newline>                    DATE_TRUNC(m.''
         @ col @ '',\<newline>                    QUARTER))\<newline>                ) AS analysis_basis\<newline>                ''),
      (''year'', ''  '',
         ''\<newline>                (EXTRACT(\<newline>                    YEAR FROM m.''
         @ col @ '')\<newline>                ) AS analysis_basis\<newline>                '')]"

definition analysis_basis_else :: string where
  "analysis_basis_else = ''\<newline>                NULL as analysis_basis\<newline>                ''"

text \<open>
  The names of a list of field descriptors, and the field list of the \<^verbatim>\<open>metrics\<close> set as
  the specification words it: every dimension name except \<^verbatim>\<open>client_id\<close>, then every
  measure name.
\<close>

definition field_names :: "lkml list \<Rightarrow> lkml list" where
  "field_names ds = concat (map (\<lambda>d. case getitem d ''name'' of Inl e \<Rightarrow> [] | Inr v \<Rightarrow> [v]) ds)"

definition metrics_set_fields :: "lkml list \<Rightarrow> lkml list \<Rightarrow> lkml list" where
  "metrics_set_fields dims ms =
     filter (\<lambda>v. v \<noteq> Str ''client_id'') (field_names dims) @ field_names ms"

text \<open>\<^verbatim>\<open>result["views"][0][key]\<close> of a result of \<^verbatim>\<open>to_lookml\<close>, when that is a list.\<close>

definition view_list :: "error + lkml \<Rightarrow> string \<Rightarrow> lkml list" where
  "view_list r key =
     (case r of
        Inl e \<Rightarrow> []
      | Inr out \<Rightarrow> (case views0_item out key of Inr (List xs) \<Rightarrow> xs | _ \<Rightarrow> []))"

text \<open>
  The condition under which the field list has no duplicates: \<^verbatim>\<open>client_id\<close> is not a metric
  slug, no metric declares a statistic twice, and no metric slug is the name of a measure.
\<close>

definition no_name_clash :: "configs \<Rightarrow> string \<Rightarrow> string list \<Rightarrow> bool" where
  "no_name_clash cfg ns slugs \<longleftrightarrow>
     ''client_id'' \<notin> set slugs
     \<and> (\<forall>n \<in> set (''client_id'' # slugs).
           distinct (declared_statistics cfg ns n)
           \<and> (\<forall>s \<in> set (declared_statistics cfg ns n).
                 recognized_statistic s \<longrightarrow> n @ ''_'' @ s \<notin> set slugs))"

section \<open>A sample registry and sample views\<close>

text \<open>
  A small registry, a base view and two views, on which the theorems below are
  instantiated.
\<close>

definition ex_hours :: metric where
  "ex_hours = \<lparr>select_expression = Some ''SUM(hours)'', metric_data_source_name = ''ds1'',
     type = ''scalar'', friendly_name = None, description = None, statistics = None\<rparr>"

definition ex_days :: metric where
  "ex_days = \<lparr>select_expression = Some ''COUNT(*)'', metric_data_source_name = ''ds1'',
     type = ''scalar'', friendly_name = Some ''Days'', description = Some ''Days of use'',
     statistics = Some [(''sum'', Dict []), (''median'', Dict []), (''client_count'', Dict [])]\<rparr>"

definition ex_histogram :: metric where
  "ex_histogram = \<lparr>select_expression = Some ''HIST(x)'', metric_data_source_name = ''ds1'',
     type = ''histogram'', friendly_name = None, description = None, statistics = None\<rparr>"

definition ex_other :: metric where
  "ex_other = \<lparr>select_expression = Some ''SUM(y)'', metric_data_source_name = ''ds2'',
     type = ''scalar'', friendly_name = None, description = None,
     statistics = Some [(''sum'', Dict [])]\<rparr>"

definition ex_metrics :: "(string \<times> metric) list" where
  "ex_metrics = [(''hours'', ex_hours), (''hist'', ex_histogram), (''days'', ex_days),
                 (''os'', ex_other)]"

definition ex_dsd :: data_source_definition where
  "ex_dsd = \<lparr>submission_date_column = Some ''activity_date'', client_id_column = None\<rparr>"

definition ex_cfg :: configs where
  "ex_cfg = \<lparr>
     get_platform_definitions =
       (\<lambda>ns. if ns = ''ns'' then Some \<lparr>metrics_definitions = ex_metrics\<rparr> else None),
     get_data_source_definition =
       (\<lambda>d ns. if ns = ''ns'' \<and> (d = ''ds1'' \<or> d = ''ds3'') then Some ex_dsd else None),
     get_data_source_sql = (\<lambda>d ns. ''mozdata.{dataset}.'' @ d),
     get_metric_definition = (\<lambda>slug ns. if ns = ''ns'' then map_of ex_metrics slug else None),
     render = Inr\<rparr>"

definition ex_base_lkml :: lkml where
  "ex_base_lkml = Dict [(''views'', List [Dict
     [(''name'', Str ''base_view''),
      (''dimensions'', List
         [Dict [(''name'', Str ''country''), (''label'', Str ''Country'')],
          Dict [(''name'', Str ''client_id''), (''label'', Str ''Client'')],
          Dict [(''name'', Str ''days''), (''label'', Str ''Days'')],
          Dict [(''name'', Str ''os''), (''label'', Str ''OS''), (''group_label'', Str ''System'')]]),
      (''dimension_groups'', List
         [Dict [(''name'', Str ''submission''), (''type'', Str ''time'')],
          Dict [(''name'', Str ''first_seen''), (''type'', Str ''time'')]])]])]"

definition ex_ext :: "unit externals" where
  "ex_ext = \<lparr>
     slug_to_title = (\<lambda>slug. slug),
     table_view_to_lookml =
       (\<lambda>ns n ts bq v1.
          if ts = [[(''table'', ''mozdata.base.clients''), (''channel'', ''release'')]]
          then Inr ex_base_lkml else Inl TableViewError),
     format_dataset = (\<lambda>sql dataset. Inr sql)\<rparr>"

definition ex_view :: view where
  "ex_view = \<lparr>namespace = ''ns'', name = ''metric_definitions_ds1'', tables = []\<rparr>"

definition ex_view_base :: view where
  "ex_view_base = \<lparr>namespace = ''ns'', name = ''metric_definitions_ds1'',
     tables = [[(''table'', ''mozdata.base.clients''), (''channel'', ''beta'')],
               [(''table'', ''mozdata.base.other''), (''channel'', ''nightly'')]]\<rparr>"

definition ex_client_id_dimension :: lkml where
  "ex_client_id_dimension =
     Dict [(''name'', Str ''client_id''), (''type'', Str ''string''),
           (''sql'', Str ''SAFE_CAST(${TABLE}.client_id AS STRING)''),
           (''label'', Str ''Client ID''), (''primary_key'', Str ''yes''),
           (''group_label'', Str ''Base Fields''),
           (''description'', Str ''Unique client identifier'')]"

definition ex_hours_dimension :: lkml where
  "ex_hours_dimension =
     Dict [(''name'', Str ''hours''), (''group_label'', Str ''Metrics''),
           (''label'', Str ''hours''), (''description'', Str []),
           (''type'', Str ''number''), (''sql'', Str ''${TABLE}.hours'')]"

definition ex_days_dimension :: lkml where
  "ex_days_dimension =
     Dict [(''name'', Str ''days''), (''group_label'', Str ''Metrics''),
           (''label'', Str ''Days''), (''description'', Str ''Days of use''),
           (''type'', Str ''number''), (''sql'', Str ''${TABLE}.days'')]"

definition ex_days_measures :: "lkml list" where
  "ex_days_measures =
     [Dict [(''name'', Str ''days_sum''), (''type'', Str ''sum''),
            (''sql'', Str ''${TABLE}.days''), (''label'', Str ''Days Sum''),
            (''group_label'', Str ''Statistics''),
            (''description'', Str ''Sum of Days'')],
      Dict [(''name'', Str ''days_client_count''), (''type'', Str ''count_distinct''),
            (''label'', Str ''Days Client Count''), (''group_label'', Str ''Statistics''),
            (''sql'', Str ''IF(SAFE_CAST(${TABLE}.days AS BOOL), ${TABLE}.client_id, SAFE_CAST(NULL AS STRING))''),
            (''description'', Str ''Number of clients with Days'')]]"

definition ex_sets :: "lkml list" where
  "ex_sets = [Dict [(''name'', Str ''metrics''),
                    (''fields'', List [Str ''hours'', Str ''days'', Str ''days_sum'',
                                       Str ''days_client_count''])]]"

definition ex_country_dimension :: lkml where
  "ex_country_dimension =
     Dict [(''name'', Str ''country''), (''label'', Str ''Country''),
           (''group_label'', Str ''Base Fields'')]"

definition ex_os_dimension :: lkml where
  "ex_os_dimension =
     Dict [(''name'', Str ''os''), (''label'', Str ''OS''),
           (''group_label'', Str ''Base Fields'')]"

definition ex_os_measure :: lkml where
  "ex_os_measure =
     Dict [(''name'', Str ''os_sum''), (''type'', Str ''sum''),
           (''sql'', Str ''${TABLE}.os''), (''label'', Str ''OS Sum''),
           (''group_label'', Str ''Statistics''),
           (''description'', Str ''Sum of OS'')]"

definition ex_first_seen_group :: lkml where
  "ex_first_seen_group =
     Dict [(''name'', Str ''first_seen''), (''type'', Str ''time''),
           (''group_label'', Str ''Base Fields'')]"

definition ex_p50 :: metric where
  "ex_p50 = \<lparr>select_expression = Some ''APPROX_QUANTILES(x, 2)[OFFSET(1)]'',
     metric_data_source_name = ''ds2'', type = ''scalar'', friendly_name = None,
     description = None, statistics = Some [(''median'', Dict [])]\<rparr>"

definition ex_p50_cfg :: configs where
  "ex_p50_cfg = ex_cfg\<lparr>
     get_metric_definition :=
       (\<lambda>slug ns. if slug = ''p50'' then Some ex_p50 else get_metric_definition ex_cfg slug ns)\<rparr>"

definition ex_ext2 :: "unit externals" where
  "ex_ext2 = ex_ext\<lparr>table_view_to_lookml := (\<lambda>ns n ts bq v1. Inr ex_base_lkml)\<rparr>"

definition ex_total :: metric where
  "ex_total = \<lparr>select_expression = Some ''SUM(x)'', metric_data_source_name = ''ds1'',
     type = ''scalar'', friendly_name = None, description = None,
     statistics = Some [(''sum'', Dict [])]\<rparr>"

definition ex_total_sum :: metric where
  "ex_total_sum = \<lparr>select_expression = Some ''SUM(y)'', metric_data_source_name = ''ds1'',
     type = ''scalar'', friendly_name = None, description = None, statistics = None\<rparr>"

definition ex_dup_cfg :: configs where
  "ex_dup_cfg = ex_cfg\<lparr>
     get_platform_definitions :=
       (\<lambda>ns. if ns = ''ns''
             then Some \<lparr>metrics_definitions = [(''total'', ex_total), (''total_sum'', ex_total_sum)]\<rparr>
             else None),
     get_metric_definition :=
       (\<lambda>slug ns. if ns = ''ns''
                  then map_of [(''total'', ex_total), (''total_sum'', ex_total_sum)] slug
                  else None)\<rparr>"

text \<open>The sample base view after a call of \<^verbatim>\<open>to_lookml\<close> on the sample view with a base table.\<close>

definition ex_base_lkml_after :: lkml where
  "ex_base_lkml_after = Dict [(''views'', List [Dict
     [(''name'', Str ''base_view''),
      (''dimensions'', List
         [Dict [(''name'', Str ''country''), (''label'', Str ''Country''),
                (''group_label'', Str ''Base Fields'')],
          Dict [(''name'', Str ''client_id''), (''label'', Str ''Client'')],
          Dict [(''name'', Str ''days''), (''label'', Str ''Days'')],
          Dict [(''name'', Str ''os''), (''label'', Str ''OS''),
                (''group_label'', Str ''Base Fields'')]]),
      (''dimension_groups'', List
         [Dict [(''name'', Str ''submission''), (''type'', Str ''time'')],
          Dict [(''name'', Str ''first_seen''), (''type'', Str ''time''),
                (''group_label'', Str ''Base Fields'')]])]])]"

section \<open>Properties of the building blocks\<close>

subsection \<open>Sequencing, the filter and the shape of a result\<close>

lemma bind_Inr_iff: "bind m f = Inr y \<longleftrightarrow> (\<exists>x. m = Inr x \<and> f x = Inr y)"
  by (cases m) (simp_all add: bind_def)

lemma bind_Inr [simp]: "bind (Inr x) f = f x"
  by (simp add: bind_def)

lemma bind_Inl [simp]: "bind (Inl e) f = Inl e"
  by (simp add: bind_def)

lemma truthy_str_iff: "truthy_str x \<longleftrightarrow> x \<noteq> None \<and> x \<noteq> Some []"
  by (cases x) simp_all

lemma source_filter_eq:
  "filter (\<lambda>(metric_slug, metric). truthy_str (select_expression metric)
             \<and> metric_data_source_name metric = dsn \<and> type metric \<noteq> ''histogram'')
     (metrics_definitions nsd) = filtered_metrics nsd dsn"
  unfolding filtered_metrics_def applicable_def truthy_str_iff
  by (rule filter_cong) auto

lemma traverse_length: "traverse f xs = Inr ys \<Longrightarrow> length ys = length xs"
  by (induction xs arbitrary: ys) (auto simp: bind_Inr_iff)

lemma traverse_nth:
  "traverse f xs = Inr ys \<Longrightarrow> i < length xs \<Longrightarrow> f (xs ! i) = Inr (ys ! i)"
proof (induction xs arbitrary: ys i)
  case Nil
  then show ?case by simp
next
  case (Cons x xs)
  then show ?case by (cases i) (auto simp: bind_Inr_iff)
qed

lemma traverse_Nil_iff: "traverse f xs = Inr [] \<longleftrightarrow> xs = []"
  by (cases xs) (auto simp: bind_Inr_iff)

lemma metric_definitions_empty:
  "filtered_slugs nsd dsn = [] \<Longrightarrow> metric_definitions cfg nsd dsn = Inr []"
  by (simp add: metric_definitions_def source_filter_eq filtered_slugs_def)

lemma to_lookml_cases:
  assumes "to_lookml cfg ext self bq_client v1_name = Inr out"
  shows "out = Dict [] \<or>
    (\<exists>nsd dsd cols bfields base_lkml join_sql source_sql dims dims' groups' measures sets.
       get_platform_definitions cfg (namespace self) = Some nsd
     \<and> get_data_source_definition cfg (data_source_name_of (name self)) (namespace self) = Some dsd
     \<and> metric_definitions cfg nsd (data_source_name_of (name self)) = Inr cols
     \<and> cols \<noteq> []
     \<and> base_view ext self bq_client dsd
          (ignore_base_fields nsd (data_source_name_of (name self)))
        = Inr (bfields, base_lkml, join_sql)
     \<and> format_dataset ext
          (get_data_source_sql cfg (data_source_name_of (name self)) (namespace self))
          (namespace self) = Inr source_sql
     \<and> get_dimensions cfg ext self = Inr dims
     \<and> merge_base_view (ignore_base_fields nsd (data_source_name_of (name self)))
          base_lkml dims get_dimension_groups = Inr (dims', groups')
     \<and> get_measures cfg self dims' = Inr measures
     \<and> get_sets cfg ext self = Inr sets
     \<and> out = Dict [(''views'', List [Dict
           [(''name'', Str (name self)),
            (''derived_table'', Dict [(''sql'', Str
               (derived_table_sql dsd cols bfields source_sql join_sql))]),
            (''dimensions'', List dims'),
            (''dimension_groups'', List groups'),
            (''measures'', List measures),
            (''sets'', List sets),
            (''parameters'', List get_parameters)]])])"
  using assms unfolding to_lookml_def Let_def
  by (auto simp: bind_Inr_iff split: option.splits if_splits prod.splits)

subsection \<open>Merging the base view\<close>

lemma getitem_Inr_Dict: "getitem d k = Inr v \<Longrightarrow> \<exists>kvs. d = Dict kvs \<and> map_of kvs k = Some v"
  by (cases d) (auto split: option.splits)

lemma append_base_fields_eq:
  "append_base_fields ignore acc xs = Inr r \<Longrightarrow>
     r = acc @ map with_group_label (filter (not_ignored ignore) xs)"
proof (induction xs arbitrary: acc r)
  case Nil
  then show ?case by simp
next
  case (Cons d xs)
  from Cons.prems obtain v where v: "getitem d ''name'' = Inr v"
    by (auto simp: bind_Inr_iff)
  then obtain kvs where d: "d = Dict kvs" by (auto dest: getitem_Inr_Dict)
  show ?case
  proof (cases "v \<in> set (map Str ignore)")
    case True
    with Cons.prems v have "append_base_fields ignore acc xs = Inr r" by simp
    from Cons.IH[OF this] True v show ?thesis by (simp add: not_ignored_def)
  next
    case False
    with Cons.prems v d
    have "append_base_fields ignore (acc @ [with_group_label d]) xs = Inr r" by simp
    from Cons.IH[OF this] False v show ?thesis by (simp add: not_ignored_def)
  qed
qed

lemma getitem_with_group_label_name:
  "getitem d ''name'' = Inr v \<Longrightarrow> getitem (with_group_label d) ''name'' = Inr v"
  by (cases d) (auto simp: update_conv' split: option.splits)

lemma getitem_with_group_label:
  "getitem d ''name'' = Inr v \<Longrightarrow>
     getitem (with_group_label d) ''group_label'' = Inr (Str ''Base Fields'')"
  by (cases d) (auto simp: update_conv' split: option.splits)

lemma merge_base_view_None:
  "merge_base_view ignore None dims groups = Inr (dims, groups)"
  by (simp add: merge_base_view_def)

lemma merge_base_view_eq:
  assumes "merge_base_view ignore (Some lkml) dims groups = Inr (dims', groups')"
    and "views0_item lkml ''dimensions'' = Inr bd"
  shows "dims' = dims @ map with_group_label (filter (not_ignored ignore) (iter bd))"
  using assms unfolding merge_base_view_def
  by (auto simp: bind_Inr_iff views0_item_def split: if_splits dest: append_base_fields_eq
      getitem_Inr_Dict)

subsection \<open>Columns, dimensions and the base view\<close>

lemma ignore_base_fields_eq:
  "ignore_base_fields nsd dsn =
     [''client_id'', ''submission_date'', ''submission'', ''first_run''] @ filtered_slugs nsd dsn"
  unfolding ignore_base_fields_def source_filter_eq filtered_slugs_def
  by (simp add: case_prod_unfold)

lemma get_dimensions_eq:
  assumes "get_platform_definitions cfg (namespace self) = Some nsd"
  shows "\<exists>cid mdims. get_dimensions cfg ext self = Inr (cid # mdims)
      \<and> getitem cid ''name'' = Inr (Str ''client_id'')
      \<and> map (\<lambda>d. getitem d ''name'') mdims
          = map (\<lambda>s. Inr (Str s)) (filtered_slugs nsd (data_source_name_of (name self)))"
  using assms unfolding get_dimensions_def Let_def source_filter_eq filtered_slugs_def
  by (simp add: case_prod_unfold comp_def)

lemma traverse_columns:
  "traverse (\<lambda>(slug, m). bind (g m) (\<lambda>r. Inr (h r slug))) xs = Inr cols \<Longrightarrow>
     \<exists>rs. length rs = length xs \<and> cols = map2 h rs (map fst xs)
        \<and> (\<forall>i < length xs. g (snd (xs ! i)) = Inr (rs ! i))"
proof (induction xs arbitrary: cols)
  case Nil
  then show ?case by simp
next
  case (Cons x xs)
  obtain slug m where x: "x = (slug, m)" by (cases x)
  from Cons.prems x obtain r cols' where
    r: "g m = Inr r" and cols': "traverse (\<lambda>(slug, m). bind (g m) (\<lambda>r. Inr (h r slug))) xs = Inr cols'"
    and cols: "cols = h r slug # cols'"
    by (auto simp: bind_Inr_iff)
  from Cons.IH[OF cols'] obtain rs where
    rs: "length rs = length xs" "cols' = map2 h rs (map fst xs)"
        "\<forall>i < length xs. g (snd (xs ! i)) = Inr (rs ! i)"
    by blast
  have "\<forall>i < length (x # xs). g (snd ((x # xs) ! i)) = Inr ((r # rs) ! i)"
    using rs(3) r x by (auto simp: nth_Cons split: nat.splits)
  with rs cols x show ?case
    by (intro exI[of _ "r # rs"]) simp
qed

lemma metric_definitions_eq:
  assumes "metric_definitions cfg nsd dsn = Inr cols"
  shows "\<exists>rendered. length rendered = length (filtered_slugs nsd dsn)
     \<and> map (\<lambda>(slug, m). case select_expression m of
                              None \<Rightarrow> Inl TypeError
                            | Some e \<Rightarrow> render cfg e) (filtered_metrics nsd dsn)
         = map Inr rendered
     \<and> cols = map2 (\<lambda>r s. r @ '' AS '' @ s @ '',\<newline>'') rendered (filtered_slugs nsd dsn)"
proof -
  let ?g = "\<lambda>m. case select_expression m of None \<Rightarrow> Inl TypeError | Some e \<Rightarrow> render cfg e"
  from traverse_columns[OF assms[unfolded metric_definitions_def source_filter_eq]]
  obtain rs where rs: "length rs = length (filtered_metrics nsd dsn)"
    "cols = map2 (\<lambda>r s. r @ '' AS '' @ s @ '',\<newline>'') rs (map fst (filtered_metrics nsd dsn))"
    "\<forall>i < length (filtered_metrics nsd dsn). ?g (snd (filtered_metrics nsd dsn ! i)) = Inr (rs ! i)"
    by blast
  have "map (\<lambda>(slug, m). ?g m) (filtered_metrics nsd dsn) = map Inr rs"
    using rs(1,3) by (intro nth_equalityI) (simp_all add: case_prod_unfold)
  with rs(1,2) show ?thesis
    unfolding filtered_slugs_def by (intro exI[of _ rs]) simp
qed

lemma base_view_Nil:
  "tables self = [] \<Longrightarrow> base_view ext self bq_client dsd ignore = Inr ([], None, [])"
  by (simp add: base_view_def)

lemma base_view_Cons:
  assumes "base_view ext self bq_client dsd ignore = Inr (bfields, base_lkml, join_sql)"
    and "tables self = t # ts"
  shows "\<exists>base_table lkml base_dims.
      map_of t ''table'' = Some base_table
    \<and> table_view_to_lookml ext (namespace self) ''base_view''
         [[(''table'', base_table), (''channel'', ''release'')]] bq_client None = Inr lkml
    \<and> views0_item lkml ''dimensions'' = Inr base_dims
    \<and> base_view_fields_of ignore base_dims = Inr bfields
    \<and> base_lkml = Some lkml
    \<and> join_sql = join_base_view_sql base_table dsd"
  using assms unfolding base_view_def
  by (auto simp: bind_Inr_iff split: option.splits)

subsection \<open>Reading a result\<close>

lemma views0_item_views:
  "views0_item (Dict [(''views'', List [Dict kvs])]) key = getitem (Dict kvs) key"
  by (simp add: views0_item_def)

subsection \<open>Base fields\<close>

lemma traverse_all_Inr: "traverse f xs = Inr ys \<Longrightarrow> x \<in> set xs \<Longrightarrow> \<exists>y. f x = Inr y"
  by (induction xs arbitrary: ys) (auto simp: bind_Inr_iff)

lemma base_view_fields_named:
  assumes "base_view_fields_of ignore dims = Inr bfields" and "d \<in> set (iter dims)"
  shows "\<exists>v. getitem d ''name'' = Inr v"
proof -
  from assms(1) obtain xss where
    "traverse (\<lambda>d. bind (getitem d ''name'') (\<lambda>v.
        if v \<notin> set (map Str ignore)
        then bind (get_str d ''name'') (\<lambda>n. Inr [n @ '',\<newline>''])
        else Inr [])) (iter dims) = Inr xss"
    by (auto simp: base_view_fields_of_def bind_Inr_iff)
  from traverse_all_Inr[OF this assms(2)] show ?thesis
    by (auto simp: bind_Inr_iff)
qed

lemma not_ignored_iff:
  assumes "getitem d ''name'' = Inr v"
  shows "not_ignored (ignore_base_fields nsd dsn) d \<longleftrightarrow> \<not> excluded_base_field nsd dsn d"
  using assms
  by (auto simp: not_ignored_def excluded_base_field_def ignore_base_fields_eq)

subsection \<open>Measures\<close>

lemma statistic_measures_eq:
  assumes "get_str d ''name'' = Inr n" and "get_str d ''label'' = Inr l"
  shows "\<exists>ms. statistic_measures d slugs = Inr ms
     \<and> map name_and_type ms
         = map (\<lambda>s. (Inr (n @ ''_'' @ s), Inr (measure_type s)))
             (filter recognized_statistic slugs)"
proof (induction slugs)
  case Nil
  then show ?case by simp
next
  case (Cons s slugs)
  then obtain ms where ms: "statistic_measures d slugs = Inr ms"
     "map name_and_type ms
         = map (\<lambda>s. (Inr (n @ ''_'' @ s), Inr (measure_type s)))
             (filter recognized_statistic slugs)"
    by blast
  have sum: "name_and_type (Dict [(''name'', Str (n @ ''_'' @ ''sum'')),
                   (''type'', Str ''sum''),
                   (''sql'', Str (''${TABLE}.'' @ n)),
                   (''label'', Str (l @ '' Sum'')),
                   (''group_label'', Str ''Statistics''),
                   (''description'', Str (''Sum of '' @ l))])
       = (Inr (n @ ''_'' @ ''sum''), Inr ''sum'')"
    by (simp add: name_and_type_def get_str_def)
  have cc: "name_and_type (Dict [(''name'', Str (n @ ''_'' @ ''client_count'')),
                   (''type'', Str ''count_distinct''),
                   (''label'', Str (l @ '' Client Count'')),
                   (''group_label'', Str ''Statistics''),
                   (''sql'', Str (''IF(SAFE_CAST(${TABLE}.'' @ (n @ '' AS BOOL), '')
                                  @ ''${TABLE}.client_id, SAFE_CAST(NULL AS STRING))'')),
                   (''description'', Str (''Number of clients with '' @ l))])
       = (Inr (n @ ''_'' @ ''client_count''), Inr ''count_distinct'')"
    by (simp add: name_and_type_def get_str_def)
  consider "s = ''sum''" | "s = ''client_count''" | "s \<noteq> ''sum''" "s \<noteq> ''client_count''"
    by blast
  then show ?case
  proof cases
    case 1
    then have "recognized_statistic s" by (simp add: recognized_statistic_def)
    with 1 show ?thesis
      using assms ms sum by (simp add: measure_type_def)
  next
    case 2
    then have "recognized_statistic s" by (simp add: recognized_statistic_def)
    with 2 show ?thesis
      using assms ms cc by (simp add: measure_type_def)
  next
    case 3
    then have "\<not> recognized_statistic s" by (simp add: recognized_statistic_def)
    with 3 show ?thesis
      using ms by simp
  qed
qed

lemma dimension_measures_eq:
  assumes "get_str d ''name'' = Inr n" and "get_str d ''label'' = Inr l"
  shows "\<exists>ms. (case get_metric_definition cfg n ns of
                    None \<Rightarrow> Inr []
                  | Some metric \<Rightarrow>
                      (case statistics metric of
                         None \<Rightarrow> Inr []
                       | Some stats \<Rightarrow>
                           if stats \<noteq> [] then statistic_measures d (map fst stats)
                           else Inr [])) = Inr ms
     \<and> map name_and_type ms = map (\<lambda>(n, t). (Inr n, Inr t)) (expected_measures cfg ns n)"
proof (cases "get_metric_definition cfg n ns")
  case None
  then show ?thesis by (simp add: expected_measures_def declared_statistics_def)
next
  case (Some metric)
  show ?thesis
  proof (cases "statistics metric")
    case None
    with Some show ?thesis by (simp add: expected_measures_def declared_statistics_def)
  next
    case (Some stats)
    from statistic_measures_eq[OF assms, of "map fst stats"] obtain ms where
      "statistic_measures d (map fst stats) = Inr ms"
      "map name_and_type ms = map (\<lambda>s. (Inr (n @ ''_'' @ s), Inr (measure_type s)))
             (filter recognized_statistic (map fst stats))"
      by blast
    with Some \<open>get_metric_definition cfg n ns = Some metric\<close> show ?thesis
      by (cases "stats = []")
         (simp_all add: expected_measures_def declared_statistics_def comp_def)
  qed
qed

lemma statistic_measures_unrecognized:
  "filter recognized_statistic slugs = [] \<Longrightarrow> statistic_measures d slugs = Inr []"
proof (induction slugs)
  case Nil
  then show ?case by simp
next
  case (Cons s slugs)
  from Cons.prems have n: "\<not> recognized_statistic s"
    and rest: "filter recognized_statistic slugs = []"
    by (auto split: if_splits)
  from n have s: "s \<noteq> ''sum''" "s \<noteq> ''client_count''"
    by (simp_all add: recognized_statistic_def)
  from Cons.IH[OF rest] s show ?case by simp
qed

lemma dimension_measures_where_labelled:
  assumes "get_str d ''name'' = Inr n" and "labelled_where_needed cfg ns d"
  shows "\<exists>ms. (case get_metric_definition cfg n ns of
                    None \<Rightarrow> Inr []
                  | Some metric \<Rightarrow>
                      (case statistics metric of
                         None \<Rightarrow> Inr []
                       | Some stats \<Rightarrow>
                           if stats \<noteq> [] then statistic_measures d (map fst stats)
                           else Inr [])) = Inr ms
     \<and> map name_and_type ms = map (\<lambda>(n, t). (Inr n, Inr t)) (expected_measures cfg ns n)"
proof (cases "expected_measures cfg ns n = []")
  case False
  with assms obtain l where "get_str d ''label'' = Inr l"
    by (auto simp: labelled_where_needed_def split: sum.splits)
  with assms(1) show ?thesis by (rule dimension_measures_eq)
next
  case True
  then have none: "filter recognized_statistic (declared_statistics cfg ns n) = []"
    by (simp add: expected_measures_def)
  have "(case get_metric_definition cfg n ns of
                    None \<Rightarrow> Inr []
                  | Some metric \<Rightarrow>
                      (case statistics metric of
                         None \<Rightarrow> Inr []
                       | Some stats \<Rightarrow>
                           if stats \<noteq> [] then statistic_measures d (map fst stats)
                           else Inr [])) = Inr []"
    using none
    by (auto simp: declared_statistics_def statistic_measures_unrecognized
        split: option.splits)
  with True show ?thesis by simp
qed

lemma get_measures_eq:
  assumes "map (\<lambda>d. get_str d ''name'') dimensions = map Inr names"
    and "\<forall>d \<in> set dimensions. labelled_where_needed cfg (namespace self) d"
  shows "\<exists>measures. get_measures cfg self dimensions = Inr measures
     \<and> map name_and_type measures
         = map (\<lambda>(n, t). (Inr n, Inr t))
             (concat (map (expected_measures cfg (namespace self)) names))"
  using assms
proof (induction dimensions arbitrary: names)
  case Nil
  then show ?case by (simp add: get_measures_def)
next
  case (Cons d dimensions)
  from Cons.prems(1) obtain n names' where names: "names = n # names'"
    and n: "get_str d ''name'' = Inr n"
    and rest: "map (\<lambda>d. get_str d ''name'') dimensions = map Inr names'"
    by (cases names) auto
  from Cons.prems(2) have l: "labelled_where_needed cfg (namespace self) d" by simp
  from Cons.IH[OF rest] Cons.prems(2) obtain ms' where
    ms': "get_measures cfg self dimensions = Inr ms'"
      "map name_and_type ms' = map (\<lambda>(n, t). (Inr n, Inr t))
             (concat (map (expected_measures cfg (namespace self)) names'))"
    by auto
  from dimension_measures_where_labelled[OF n l] obtain ms where
    ms: "(case get_metric_definition cfg n (namespace self) of
                    None \<Rightarrow> Inr []
                  | Some metric \<Rightarrow>
                      (case statistics metric of
                         None \<Rightarrow> Inr []
                       | Some stats \<Rightarrow>
                           if stats \<noteq> [] then statistic_measures d (map fst stats)
                           else Inr [])) = Inr ms"
      "map name_and_type ms
         = map (\<lambda>(n, t). (Inr n, Inr t)) (expected_measures cfg (namespace self) n)"
    by blast
  from ms' obtain mss where mss: "traverse
             (\<lambda>dimension.
                bind (get_str dimension ''name'') (\<lambda>n.
                  case get_metric_definition cfg n (namespace self) of
                    None \<Rightarrow> Inr []
                  | Some metric \<Rightarrow>
                      (case statistics metric of
                         None \<Rightarrow> Inr []
                       | Some stats \<Rightarrow>
                           if stats \<noteq> [] then statistic_measures dimension (map fst stats)
                           else Inr [])))
             dimensions = Inr mss" and cm: "ms' = concat mss"
    by (auto simp: get_measures_def bind_Inr_iff)
  have "get_measures cfg self (d # dimensions) = Inr (ms @ ms')"
    unfolding get_measures_def using n ms(1) mss cm by simp
  with ms(2) ms'(2) names show ?case by simp
qed

lemma get_measures_eq_labelled:
  assumes "map (\<lambda>d. get_str d ''name'') dimensions = map Inr names"
    and "\<forall>d \<in> set dimensions. \<exists>l. get_str d ''label'' = Inr l"
  shows "\<exists>measures. get_measures cfg self dimensions = Inr measures
     \<and> map name_and_type measures
         = map (\<lambda>(n, t). (Inr n, Inr t))
             (concat (map (expected_measures cfg (namespace self)) names))"
proof (rule get_measures_eq[OF assms(1)])
  show "\<forall>d \<in> set dimensions. labelled_where_needed cfg (namespace self) d"
    using assms(2) by (auto simp: labelled_where_needed_def split: sum.splits)
qed

subsection \<open>What the generator reads of the registry\<close>

lemma get_dimensions_frame:
  assumes "get_platform_definitions cfg (namespace self) = get_platform_definitions cfg' (namespace self')"
    and "name self = name self'"
    and "slug_to_title ext = slug_to_title ext'"
  shows "get_dimensions cfg ext self = get_dimensions cfg' ext' self'"
  using assms by (simp add: get_dimensions_def split: option.splits)

lemma get_measures_frame:
  assumes "\<forall>slug. get_metric_definition cfg slug (namespace self)
                 = get_metric_definition cfg' slug (namespace self')"
  shows "get_measures cfg self dims = get_measures cfg' self' dims"
  using assms by (simp add: get_measures_def)

lemma get_sets_frame:
  assumes "get_platform_definitions cfg (namespace self) = get_platform_definitions cfg' (namespace self')"
    and "name self = name self'"
    and "slug_to_title ext = slug_to_title ext'"
    and "\<forall>slug. get_metric_definition cfg slug (namespace self)
                 = get_metric_definition cfg' slug (namespace self')"
  shows "get_sets cfg ext self = get_sets cfg' ext' self'"
  unfolding get_sets_def get_dimensions_frame[OF assms(1,2,3)] get_measures_frame[OF assms(4)]
  by simp

subsection \<open>What the generator reads of the table list\<close>

lemma base_view_frame:
  assumes "namespace self = namespace self'"
    and "tables self = t # ts" and "tables self' = t' # ts'"
    and "map_of t ''table'' = Some base_table" and "map_of t' ''table'' = Some base_table"
    and "table_view_to_lookml ext (namespace self) ''base_view''
           [[(''table'', base_table), (''channel'', ''release'')]] bq_client None
         = table_view_to_lookml ext' (namespace self) ''base_view''
           [[(''table'', base_table), (''channel'', ''release'')]] bq_client None"
  shows "base_view ext self bq_client dsd ignore = base_view ext' self' bq_client dsd ignore"
  using assms by (simp add: base_view_def)

lemma to_lookml_first_table_only:
  assumes "namespace self = namespace self'" and "name self = name self'"
    and "tables self = t # ts" and "tables self' = t' # ts'"
    and "map_of t ''table'' = Some base_table" and "map_of t' ''table'' = Some base_table"
    and "table_view_to_lookml ext (namespace self) ''base_view''
           [[(''table'', base_table), (''channel'', ''release'')]] bq_client None
         = table_view_to_lookml ext' (namespace self) ''base_view''
           [[(''table'', base_table), (''channel'', ''release'')]] bq_client None"
    and "slug_to_title ext = slug_to_title ext'"
    and "format_dataset ext = format_dataset ext'"
  shows "to_lookml cfg ext self bq_client v1_name = to_lookml cfg ext' self' bq_client v1_name'"
proof -
  have gs: "get_sets cfg ext self = get_sets cfg ext' self'"
    by (rule get_sets_frame) (simp_all add: assms)
  have gd: "get_dimensions cfg ext self = get_dimensions cfg ext' self'"
    by (rule get_dimensions_frame) (simp_all add: assms)
  have gm: "get_measures cfg self = get_measures cfg self'"
    by (rule ext) (rule get_measures_frame, simp add: assms)
  have bv: "base_view ext self bq_client = base_view ext' self' bq_client"
    by (intro ext base_view_frame[OF assms(1,3,4,5,6,7)])
  show ?thesis
    unfolding to_lookml_def Let_def gs gd gm bv assms(9)
    unfolding assms(1,2)
    by (rule refl)
qed

subsection \<open>The SQL text\<close>

lemma analysis_basis_sql_chain:
  "analysis_basis_sql col =
     liquid_chain ''if'' ''aggregate_metrics_by._parameter_value''
       (analysis_basis_branches col) analysis_basis_else"
  by (simp add: analysis_basis_sql_def analysis_basis_branches_def analysis_basis_else_def)

lemma infix_here: "\<exists>pre post. x @ r = pre @ x @ (post::'a list)"
  by (rule exI[of _ "[]"]) simp

lemma infix_later:
  "\<exists>pre post. ys = pre @ x @ post \<Longrightarrow> \<exists>pre post. a @ ys = pre @ x @ (post::'a list)"
  by (metis append_assoc)

lemma derived_table_sql_analysis_basis:
  "\<exists>pre post. derived_table_sql dsd cols bfields source_sql join_sql
     = pre @ analysis_basis_sql (or_default (submission_date_column dsd) ''submission_date'')
       @ post"
  unfolding derived_table_sql_def
  by (intro infix_here infix_later)

lemma derived_table_sql_date_filter:
  "\<exists>pre post. derived_table_sql dsd cols bfields source_sql join_sql
     = pre @ date_filter_sql join_sql dsd @ post"
  unfolding derived_table_sql_def
  by (intro infix_here infix_later)

lemma get_parameters_values:
  "\<exists>allowed. get_parameters =
      [Dict [(''name'', Str ''aggregate_metrics_by''),
             (''label'', Str ''Aggregate Client Metrics Per''),
             (''type'', Str ''unquoted''),
             (''default_value'', Str ''day''),
             (''allowed_values'', List allowed)]]
    \<and> map (\<lambda>a. getitem a ''value'') allowed
        = map (\<lambda>v. Inr (Str v)) [''day'', ''week'', ''month'', ''quarter'', ''year'', ''overall'']"
  by (simp add: get_parameters_def)

subsection \<open>The metrics set\<close>

lemma traverse_names:
  "traverse (\<lambda>m. getitem m ''name'') ms = Inr ns \<Longrightarrow> ns = field_names ms"
  by (induction ms arbitrary: ns) (auto simp: bind_Inr_iff field_names_def)

lemma traverse_names_but_client_id:
  "traverse
     (\<lambda>dimension. bind (getitem dimension ''name'') (\<lambda>v.
        if v \<noteq> Str ''client_id''
        then bind (getitem dimension ''name'') (\<lambda>w. Inr [w])
        else Inr []))
     dims = Inr xss \<Longrightarrow>
   concat xss = filter (\<lambda>v. v \<noteq> Str ''client_id'') (field_names dims)"
  by (induction dims arbitrary: xss)
     (auto simp: bind_Inr_iff field_names_def split: if_splits)

lemma get_sets_eq:
  assumes "get_sets cfg ext self = Inr sets"
  shows "\<exists>dims ms. get_dimensions cfg ext self = Inr dims
     \<and> get_measures cfg self dims = Inr ms
     \<and> sets = [Dict [(''name'', Str ''metrics''),
                     (''fields'', List (metrics_set_fields dims ms))]]"
  using assms unfolding get_sets_def metrics_set_fields_def
  by (auto simp: bind_Inr_iff dest!: traverse_names traverse_names_but_client_id)

lemma get_str_Inr_iff: "get_str d k = Inr s \<longleftrightarrow> getitem d k = Inr (Str s)"
proof (cases "getitem d k")
  case (Inl e)
  then show ?thesis by (simp add: get_str_def)
next
  case (Inr v)
  then show ?thesis by (cases v) (simp_all add: get_str_def)
qed

lemma field_names_of_strs:
  "map (\<lambda>d. get_str d ''name'') ds = map Inr ns \<Longrightarrow> field_names ds = map Str ns"
proof (induction ds arbitrary: ns)
  case Nil
  then show ?case by (simp add: field_names_def)
next
  case (Cons d ds)
  then obtain n ns' where ns: "ns = n # ns'" and n: "get_str d ''name'' = Inr n"
    and rest: "map (\<lambda>d. get_str d ''name'') ds = map Inr ns'"
    by (cases ns) auto
  from Cons.IH[OF rest] n ns show ?case
    by (simp add: field_names_def get_str_Inr_iff)
qed

lemma field_names_of_name_and_type:
  assumes "map name_and_type ms = map (\<lambda>(n, t). (Inr n, Inr t)) xs"
  shows "field_names ms = map Str (map fst xs)"
proof -
  have "map (\<lambda>d. get_str d ''name'') ms = map fst (map name_and_type ms)"
    by (simp add: name_and_type_def)
  also have "\<dots> = map fst (map (\<lambda>(n, t). (Inr n :: error + string, Inr t :: error + string)) xs)"
    by (subst assms) (rule refl)
  also have "\<dots> = map Inr (map fst xs)"
    by (simp add: case_prod_unfold)
  finally have "map (\<lambda>d. get_str d ''name'') ms = map Inr (map fst xs)" .
  then show ?thesis by (rule field_names_of_strs)
qed

lemma measure_name_inj:
  assumes "recognized_statistic s" and "recognized_statistic s'"
    and "n @ ''_'' @ s = n' @ ''_'' @ s'"
  shows "n = n' \<and> s = s'"
proof (cases "s = s'")
  case True
  with assms(3) show ?thesis by simp
next
  case False
  from assms(3) have "last (n @ ''_'' @ s) = last (n' @ ''_'' @ s')" by simp
  with assms(1,2) False show ?thesis
    by (auto simp: recognized_statistic_def)
qed

lemma fst_expected_measures:
  "map fst (expected_measures cfg ns n)
     = map (\<lambda>s. n @ ''_'' @ s) (filter recognized_statistic (declared_statistics cfg ns n))"
  by (simp add: expected_measures_def comp_def)

lemma expected_measures_distinct:
  assumes "distinct (declared_statistics cfg ns n)"
  shows "distinct (map fst (expected_measures cfg ns n))"
  unfolding fst_expected_measures
  using assms by (auto simp: distinct_map inj_on_def)

lemma measure_names_distinct:
  assumes "distinct names" and "\<forall>n \<in> set names. distinct (declared_statistics cfg ns n)"
  shows "distinct (map fst (concat (map (expected_measures cfg ns) names)))"
  using assms
proof (induction names)
  case Nil
  then show ?case by simp
next
  case (Cons n names)
  have disj: "set (map fst (expected_measures cfg ns n))
      \<inter> set (map fst (concat (map (expected_measures cfg ns) names))) = {}"
  proof (rule ccontr)
    assume "\<not> ?thesis"
    then obtain x where x1: "x \<in> set (map fst (expected_measures cfg ns n))"
      and x2: "x \<in> set (map fst (concat (map (expected_measures cfg ns) names)))"
      by blast
    from x1 obtain s where s: "recognized_statistic s" "x = n @ ''_'' @ s"
      unfolding fst_expected_measures by auto
    from x2 obtain n' where n': "n' \<in> set names"
      and "x \<in> set (map fst (expected_measures cfg ns n'))"
      by auto
    then obtain s' where s': "recognized_statistic s'" "x = n' @ ''_'' @ s'"
      unfolding fst_expected_measures by auto
    from measure_name_inj[OF s(1) s'(1)] s(2) s'(2) have "n = n'" by simp
    with n' Cons.prems(1) show False by simp
  qed
  from Cons have "distinct (map fst (concat (map (expected_measures cfg ns) names)))"
    by simp
  moreover from Cons.prems(2) have "distinct (map fst (expected_measures cfg ns n))"
    by (simp add: expected_measures_distinct)
  ultimately show ?case using disj by simp
qed

lemma get_dimensions_names:
  assumes "get_platform_definitions cfg (namespace self) = Some nsd"
    and "get_dimensions cfg ext self = Inr dims"
  shows "map (\<lambda>d. get_str d ''name'') dims
           = map Inr (''client_id'' # filtered_slugs nsd (data_source_name_of (name self)))"
    and "\<forall>d \<in> set dims. \<exists>l. get_str d ''label'' = Inr l"
  using assms unfolding get_dimensions_def Let_def source_filter_eq filtered_slugs_def
  by (auto simp: get_str_def comp_def case_prod_unfold)

lemma metrics_set_fields_eq:
  assumes nsd: "get_platform_definitions cfg (namespace self) = Some nsd"
    and dims: "get_dimensions cfg ext self = Inr dims"
    and ms: "get_measures cfg self dims = Inr ms"
  shows "metrics_set_fields dims ms
     = map Str (filter (\<lambda>s. s \<noteq> ''client_id'')
                  (filtered_slugs nsd (data_source_name_of (name self))))
       @ map Str (map fst (concat (map (expected_measures cfg (namespace self))
           (''client_id'' # filtered_slugs nsd (data_source_name_of (name self))))))"
proof -
  let ?slugs = "filtered_slugs nsd (data_source_name_of (name self))"
  let ?ns = "namespace self"
  let ?mnames = "map fst (concat (map (expected_measures cfg ?ns) (''client_id'' # ?slugs)))"
  note names = get_dimensions_names[OF nsd dims]
  from get_measures_eq_labelled[OF names, of cfg self] ms
  have "map name_and_type ms = map (\<lambda>(n, t). (Inr n, Inr t))
             (concat (map (expected_measures cfg ?ns) (''client_id'' # ?slugs)))"
    by auto
  then have fm: "field_names ms = map Str ?mnames"
    by (rule field_names_of_name_and_type)
  have fd: "field_names dims = map Str (''client_id'' # ?slugs)"
    using names(1) by (rule field_names_of_strs)
  show ?thesis
    unfolding metrics_set_fields_def fd fm
    by (simp add: filter_map comp_def)
qed

lemma metrics_set_fields_distinct:
  assumes nsd: "get_platform_definitions cfg (namespace self) = Some nsd"
    and dims: "get_dimensions cfg ext self = Inr dims"
    and ms: "get_measures cfg self dims = Inr ms"
    and clash: "no_name_clash cfg (namespace self)
                  (filtered_slugs nsd (data_source_name_of (name self)))"
    and keys: "distinct (map fst (metrics_definitions nsd))"
  shows "distinct (metrics_set_fields dims ms)"
proof -
  let ?slugs = "filtered_slugs nsd (data_source_name_of (name self))"
  let ?ns = "namespace self"
  let ?mnames = "map fst (concat (map (expected_measures cfg ?ns) (''client_id'' # ?slugs)))"
  note names = get_dimensions_names[OF nsd dims]
  from get_measures_eq_labelled[OF names, of cfg self] ms
  have "map name_and_type ms = map (\<lambda>(n, t). (Inr n, Inr t))
             (concat (map (expected_measures cfg ?ns) (''client_id'' # ?slugs)))"
    by auto
  then have fm: "field_names ms = map Str ?mnames"
    by (rule field_names_of_name_and_type)
  have fd: "field_names dims = map Str (''client_id'' # ?slugs)"
    using names(1) by (rule field_names_of_strs)
  from clash have cid: "''client_id'' \<notin> set ?slugs"
    by (simp add: no_name_clash_def)
  have dslugs: "distinct ?slugs"
    unfolding filtered_slugs_def filtered_metrics_def using keys by (rule distinct_map_filter)
  have keep: "filter (\<lambda>x. x \<noteq> ''client_id'') ?slugs = ?slugs"
    using cid by (auto simp: filter_id_conv)
  have fields: "metrics_set_fields dims ms = map Str (?slugs @ ?mnames)"
    unfolding metrics_set_fields_def fd fm
    by (simp add: filter_map comp_def keep)
  have dm: "distinct ?mnames"
    by (rule measure_names_distinct)
       (use cid dslugs clash in \<open>auto simp: no_name_clash_def\<close>)
  have disj: "set ?slugs \<inter> set ?mnames = {}"
  proof (rule ccontr)
    assume "\<not> ?thesis"
    then obtain x where x: "x \<in> set ?slugs" "x \<in> set ?mnames" by blast
    from x(2) obtain n where n: "n \<in> set (''client_id'' # ?slugs)"
      and "x \<in> set (map fst (expected_measures cfg ?ns n))"
      by auto
    then obtain s where s: "s \<in> set (declared_statistics cfg ?ns n)"
      "recognized_statistic s" "x = n @ ''_'' @ s"
      unfolding fst_expected_measures by auto
    with clash n have "x \<notin> set ?slugs"
      unfolding no_name_clash_def by blast
    with x(1) show False by simp
  qed
  have inj: "distinct (map Str zs)" if "distinct zs" for zs :: "string list"
    using that by (simp add: distinct_map inj_on_def)
  from dslugs dm disj have "distinct (?slugs @ ?mnames)" by simp
  then show ?thesis unfolding fields by (rule inj)
qed

lemma to_lookml_sets:
  assumes "to_lookml cfg ext self bq_client v1_name = Inr out" and "out \<noteq> Dict []"
  shows "\<exists>nsd metric_dims metric_measures.
      get_platform_definitions cfg (namespace self) = Some nsd
    \<and> get_dimensions cfg ext self = Inr metric_dims
    \<and> get_measures cfg self metric_dims = Inr metric_measures
    \<and> views0_item out ''sets'' = Inr (List
         [Dict [(''name'', Str ''metrics''),
                (''fields'', List (metrics_set_fields metric_dims metric_measures))]])
    \<and> (tables self = [] \<longrightarrow>
          views0_item out ''dimensions'' = Inr (List metric_dims)
        \<and> views0_item out ''measures'' = Inr (List metric_measures))"
proof -
  let ?dsn = "data_source_name_of (name self)"
  from to_lookml_cases[OF assms(1)] assms(2)
  obtain nsd dsd cols bfields base_lkml join_sql source_sql dims dims' groups' ms sets
    where nsd: "get_platform_definitions cfg (namespace self) = Some nsd"
      and bv: "base_view ext self bq_client dsd (ignore_base_fields nsd ?dsn)
                 = Inr (bfields, base_lkml, join_sql)"
      and dims: "get_dimensions cfg ext self = Inr dims"
      and merge: "merge_base_view (ignore_base_fields nsd ?dsn) base_lkml dims
                    get_dimension_groups = Inr (dims', groups')"
      and ms: "get_measures cfg self dims' = Inr ms"
      and sets: "get_sets cfg ext self = Inr sets"
      and out: "out = Dict [(''views'', List [Dict
           [(''name'', Str (name self)),
            (''derived_table'', Dict [(''sql'', Str
               (derived_table_sql dsd cols bfields source_sql join_sql))]),
            (''dimensions'', List dims'),
            (''dimension_groups'', List groups'),
            (''measures'', List ms),
            (''sets'', List sets),
            (''parameters'', List get_parameters)]])]"
    by blast
  from get_sets_eq[OF sets] dims obtain mms where
    mms: "get_measures cfg self dims = Inr mms"
      "sets = [Dict [(''name'', Str ''metrics''),
                     (''fields'', List (metrics_set_fields dims mms))]]"
    by auto
  have s: "views0_item out ''sets'' = Inr (List
         [Dict [(''name'', Str ''metrics''),
                (''fields'', List (metrics_set_fields dims mms))]])"
    unfolding out views0_item_views mms(2) by simp
  have e: "tables self = [] \<longrightarrow>
          views0_item out ''dimensions'' = Inr (List dims)
        \<and> views0_item out ''measures'' = Inr (List mms)"
  proof
    assume "tables self = []"
    with bv have "base_lkml = None" by (simp add: base_view_Nil)
    with merge have "dims' = dims" by (simp add: merge_base_view_None)
    with ms mms(1) have "ms = mms" by simp
    with \<open>dims' = dims\<close> show "views0_item out ''dimensions'' = Inr (List dims)
        \<and> views0_item out ''measures'' = Inr (List mms)"
      unfolding out views0_item_views by simp
  qed
  from nsd dims mms(1) s e show ?thesis by blast
qed

subsection \<open>The base view in the output\<close>

lemma base_view_fields_names_aux:
  "traverse
     (\<lambda>d. bind (getitem d ''name'') (\<lambda>v.
        if v \<notin> set (map Str ignore)
        then bind (get_str d ''name'') (\<lambda>n. Inr [n @ '',\<newline>''])
        else Inr []))
     xs = Inr xss \<Longrightarrow>
   \<exists>ns. map (\<lambda>d. get_str d ''name'') (filter (not_ignored ignore) xs) = map Inr ns
      \<and> concat xss = map (\<lambda>n. n @ '',\<newline>'') ns"
proof (induction xs arbitrary: xss)
  case Nil
  then show ?case by simp
next
  case (Cons d xs)
  from Cons.prems obtain ys yss v where
    d: "getitem d ''name'' = Inr v"
      "(if v \<notin> set (map Str ignore)
        then bind (get_str d ''name'') (\<lambda>n. Inr [n @ '',\<newline>''])
        else Inr []) = Inr ys"
    and rest: "traverse
     (\<lambda>d. bind (getitem d ''name'') (\<lambda>v.
        if v \<notin> set (map Str ignore)
        then bind (get_str d ''name'') (\<lambda>n. Inr [n @ '',\<newline>''])
        else Inr []))
     xs = Inr yss"
    and xss: "xss = ys # yss"
    by (auto simp: bind_Inr_iff)
  from Cons.IH[OF rest] obtain ns where
    ns: "map (\<lambda>d. get_str d ''name'') (filter (not_ignored ignore) xs) = map Inr ns"
      "concat yss = map (\<lambda>n. n @ '',\<newline>'') ns"
    by blast
  show ?case
  proof (cases "v \<in> set (map Str ignore)")
    case True
    with d have "ys = []" and "\<not> not_ignored ignore d"
      by (simp_all add: not_ignored_def)
    with ns xss show ?thesis by simp
  next
    case False
    with d obtain n where n: "get_str d ''name'' = Inr n" "ys = [n @ '',\<newline>'']"
      by (auto simp: bind_Inr_iff)
    from False d(1) have "not_ignored ignore d" by (simp add: not_ignored_def)
    with n ns xss have
      "map (\<lambda>d. get_str d ''name'') (filter (not_ignored ignore) (d # xs)) = map Inr (n # ns)
       \<and> concat xss = map (\<lambda>n. n @ '',\<newline>'') (n # ns)"
      by simp
    then show ?thesis by blast
  qed
qed

lemma base_view_fields_names:
  assumes "base_view_fields_of ignore dims = Inr bfields"
  shows "\<exists>ns. map (\<lambda>d. get_str d ''name'') (filter (not_ignored ignore) (iter dims)) = map Inr ns
      \<and> bfields = map (\<lambda>n. n @ '',\<newline>'') ns"
proof -
  from assms obtain xss where
    t: "traverse
     (\<lambda>d. bind (getitem d ''name'') (\<lambda>v.
        if v \<notin> set (map Str ignore)
        then bind (get_str d ''name'') (\<lambda>n. Inr [n @ '',\<newline>''])
        else Inr []))
     (iter dims) = Inr xss" and b: "bfields = concat xss"
    unfolding base_view_fields_of_def by (auto simp: bind_Inr_iff)
  from base_view_fields_names_aux[OF t] b show ?thesis by simp
qed

lemma merge_base_view_groups_eq:
  assumes "merge_base_view ignore (Some lkml) dims groups = Inr (dims', groups')"
    and "views0_item lkml ''dimensions'' = Inr bd"
  shows "\<exists>bg. views0_item lkml ''dimension_groups'' = Inr bg
     \<and> groups' = groups @ map with_group_label (filter (not_ignored ignore) (iter bg))"
  using assms unfolding merge_base_view_def
  by (auto simp: bind_Inr_iff views0_item_def split: if_splits dest: append_base_fields_eq
      getitem_Inr_Dict)

lemma suffix_here: "\<exists>pre. y = pre @ (y::'a list)"
  by (rule exI[of _ "[]"]) simp

lemma suffix_later: "\<exists>pre. ys = pre @ y \<Longrightarrow> \<exists>pre. a @ ys = pre @ (y::'a list)"
  by (metis append_assoc)

lemma derived_table_sql_join_suffix:
  "\<exists>pre. derived_table_sql dsd cols bfields source_sql join_sql
     = pre @ join_sql @ ''\<newline>'' @
       ''            '' @ date_filter_sql join_sql dsd @ ''\<newline>'' @
       ''            GROUP BY\<newline>'' @
       ''                '' @ concat bfields @ ''\<newline>'' @
       ''                client_id,\<newline>'' @
       ''                analysis_basis\<newline>'' @
       ''            ''"
  unfolding derived_table_sql_def
  by (intro suffix_here suffix_later)

lemma join_base_view_sql_inner_join:
  "\<exists>rest. join_base_view_sql base_table dsd
     = ''\<newline>            INNER JOIN '' @ base_table @ '' base\<newline>'' @ rest"
  unfolding join_base_view_sql_def by simp

lemma derived_table_sql_base:
  "\<exists>pre mid. derived_table_sql dsd cols bfields source_sql (join_base_view_sql base_table dsd)
     = pre @ ''INNER JOIN '' @ base_table @ '' base\<newline>'' @ mid
       @ ''GROUP BY\<newline>                '' @ concat bfields
       @ ''\<newline>                client_id,\<newline>                analysis_basis\<newline>            ''"
proof -
  let ?J = "join_base_view_sql base_table dsd"
  obtain pre where p: "derived_table_sql dsd cols bfields source_sql ?J
     = pre @ ?J @ ''\<newline>'' @
       ''            '' @ date_filter_sql ?J dsd @ ''\<newline>'' @
       ''            GROUP BY\<newline>'' @
       ''                '' @ concat bfields @ ''\<newline>'' @
       ''                client_id,\<newline>'' @
       ''                analysis_basis\<newline>'' @
       ''            ''"
    using derived_table_sql_join_suffix by blast
  obtain rest where r: "?J = ''\<newline>            INNER JOIN '' @ base_table @ '' base\<newline>'' @ rest"
    using join_base_view_sql_inner_join by blast
  define filt where "filt = date_filter_sql ?J dsd"
  have "derived_table_sql dsd cols bfields source_sql ?J
     = (pre @ ''\<newline>            '') @ ''INNER JOIN '' @ base_table @ '' base\<newline>''
       @ (rest @ ''\<newline>            '' @ filt @ ''\<newline>            '')
       @ ''GROUP BY\<newline>                '' @ concat bfields
       @ ''\<newline>                client_id,\<newline>                analysis_basis\<newline>            ''"
    unfolding p filt_def[symmetric] by (subst r) simp
  then show ?thesis by blast
qed

lemma to_lookml_base_view:
  assumes "to_lookml cfg ext self bq_client v1_name = Inr out" and "out \<noteq> Dict []"
    and "tables self = t # ts"
  shows "\<exists>nsd base_table base_lkml base_dims base_groups base_names pre mid.
      get_platform_definitions cfg (namespace self) = Some nsd
    \<and> map_of t ''table'' = Some base_table
    \<and> table_view_to_lookml ext (namespace self) ''base_view''
         [[(''table'', base_table), (''channel'', ''release'')]] bq_client None = Inr base_lkml
    \<and> views0_item base_lkml ''dimensions'' = Inr base_dims
    \<and> views0_item base_lkml ''dimension_groups'' = Inr base_groups
    \<and> map (\<lambda>d. get_str d ''name'')
          (filter (not_ignored (ignore_base_fields nsd (data_source_name_of (name self))))
             (iter base_dims))
        = map Inr base_names
    \<and> views0_item out ''derived_table'' = Inr (Dict [(''sql'', Str
         (pre @ ''INNER JOIN '' @ base_table @ '' base\<newline>'' @ mid
          @ ''GROUP BY\<newline>                '' @ concat (map (\<lambda>n. n @ '',\<newline>'') base_names)
          @ ''\<newline>                client_id,\<newline>                analysis_basis\<newline>            ''))])
    \<and> (\<exists>metric_dims. get_dimensions cfg ext self = Inr metric_dims
          \<and> views0_item out ''dimensions'' = Inr (List (metric_dims @
               map with_group_label
                 (filter (not_ignored (ignore_base_fields nsd (data_source_name_of (name self))))
                    (iter base_dims)))))
    \<and> views0_item out ''dimension_groups'' = Inr (List (get_dimension_groups @
         map with_group_label
           (filter (not_ignored (ignore_base_fields nsd (data_source_name_of (name self))))
              (iter base_groups))))"
proof -
  let ?dsn = "data_source_name_of (name self)"
  from to_lookml_cases[OF assms(1)] assms(2)
  obtain nsd dsd cols bfields base_lkml join_sql source_sql dims dims' groups' ms sets
    where nsd: "get_platform_definitions cfg (namespace self) = Some nsd"
      and bv: "base_view ext self bq_client dsd (ignore_base_fields nsd ?dsn)
                 = Inr (bfields, base_lkml, join_sql)"
      and dims: "get_dimensions cfg ext self = Inr dims"
      and merge: "merge_base_view (ignore_base_fields nsd ?dsn) base_lkml dims
                    get_dimension_groups = Inr (dims', groups')"
      and out: "out = Dict [(''views'', List [Dict
           [(''name'', Str (name self)),
            (''derived_table'', Dict [(''sql'', Str
               (derived_table_sql dsd cols bfields source_sql join_sql))]),
            (''dimensions'', List dims'),
            (''dimension_groups'', List groups'),
            (''measures'', List ms),
            (''sets'', List sets),
            (''parameters'', List get_parameters)]])]"
    by blast
  let ?ignore = "ignore_base_fields nsd ?dsn"
  from base_view_Cons[OF bv assms(3)] obtain base_table lkml bd where
    tbl: "map_of t ''table'' = Some base_table"
    and tv: "table_view_to_lookml ext (namespace self) ''base_view''
         [[(''table'', base_table), (''channel'', ''release'')]] bq_client None = Inr lkml"
    and bd: "views0_item lkml ''dimensions'' = Inr bd"
    and bf: "base_view_fields_of ?ignore bd = Inr bfields"
    and lk: "base_lkml = Some lkml"
    and js: "join_sql = join_base_view_sql base_table dsd"
    by blast
  from base_view_fields_names[OF bf] obtain base_names where
    bn: "map (\<lambda>d. get_str d ''name'') (filter (not_ignored ?ignore) (iter bd))
           = map Inr base_names"
    and bfn: "bfields = map (\<lambda>n. n @ '',\<newline>'') base_names"
    by blast
  from merge_base_view_groups_eq[OF merge[unfolded lk] bd] obtain bg where
    bg: "views0_item lkml ''dimension_groups'' = Inr bg"
    and g': "groups' = get_dimension_groups
               @ map with_group_label (filter (not_ignored ?ignore) (iter bg))"
    by blast
  from merge_base_view_eq[OF merge[unfolded lk] bd]
  have d': "dims' = dims @ map with_group_label (filter (not_ignored ?ignore) (iter bd))" .
  obtain pre mid where sql: "derived_table_sql dsd cols bfields source_sql join_sql
     = pre @ ''INNER JOIN '' @ base_table @ '' base\<newline>'' @ mid
       @ ''GROUP BY\<newline>                '' @ concat (map (\<lambda>n. n @ '',\<newline>'') base_names)
       @ ''\<newline>                client_id,\<newline>                analysis_basis\<newline>            ''"
    unfolding js bfn using derived_table_sql_base by blast
  have o1: "views0_item out ''derived_table'' = Inr (Dict [(''sql'', Str
         (pre @ ''INNER JOIN '' @ base_table @ '' base\<newline>'' @ mid
          @ ''GROUP BY\<newline>                '' @ concat (map (\<lambda>n. n @ '',\<newline>'') base_names)
          @ ''\<newline>                client_id,\<newline>                analysis_basis\<newline>            ''))])"
    unfolding out views0_item_views using sql by simp
  have o2: "\<exists>metric_dims. get_dimensions cfg ext self = Inr metric_dims
          \<and> views0_item out ''dimensions'' = Inr (List (metric_dims @
               map with_group_label (filter (not_ignored ?ignore) (iter bd))))"
    unfolding out views0_item_views using dims d' by simp
  have o3: "views0_item out ''dimension_groups'' = Inr (List (get_dimension_groups @
         map with_group_label (filter (not_ignored ?ignore) (iter bg))))"
    unfolding out views0_item_views using g' by simp
  show ?thesis
    by (intro exI[of _ nsd] exI[of _ base_table] exI[of _ lkml] exI[of _ bd] exI[of _ bg]
        exI[of _ base_names] exI[of _ pre] exI[of _ mid] conjI nsd tbl tv bd bg bn o1 o2 o3)
qed

subsection \<open>The objects of the base view\<close>

lemma append_base_fields_st_result:
  "append_base_fields_st ignore acc ds = (r, ds') \<Longrightarrow> r = append_base_fields ignore acc ds"
proof (induction ds arbitrary: acc r ds')
  case Nil
  then show ?case by simp
next
  case (Cons d ds)
  show ?case
  proof (cases "getitem d ''name''")
    case (Inl e)
    with Cons.prems show ?thesis by (auto simp: bind_def)
  next
    case (Inr v)
    show ?thesis
    proof (cases "v \<in> set (map Str ignore)")
      case True
      with Inr Cons.prems obtain rest' where "append_base_fields_st ignore acc ds = (r, rest')"
        by (auto split: prod.splits)
      from Cons.IH[OF this] Inr True show ?thesis by (simp add: bind_def)
    next
      case False
      show ?thesis
      proof (cases "setitem d ''group_label'' (Str ''Base Fields'')")
        case (Inl e)
        with Inr False Cons.prems show ?thesis by (auto simp: bind_def)
      next
        case d': (Inr d')
        with Inr False Cons.prems obtain rest' where
          "append_base_fields_st ignore (acc @ [d']) ds = (r, rest')"
          by (auto split: prod.splits)
        from Cons.IH[OF this] Inr False d' show ?thesis by (simp add: bind_def)
      qed
    qed
  qed
qed

lemma append_base_fields_st_fst:
  "fst (append_base_fields_st ignore acc ds) = append_base_fields ignore acc ds"
  using append_base_fields_st_result[of ignore acc ds] by (cases "append_base_fields_st ignore acc ds") simp

lemma setitem_getitem_other:
  "setitem d k v = Inr d' \<Longrightarrow> k' \<noteq> k \<Longrightarrow> getitem d' k' = getitem d k'"
  by (cases d) (auto simp: update_conv')

lemma setitem_again: "setitem d k v = Inr d' \<Longrightarrow> setitem d' k v = Inr d'"
  by (cases d) auto

lemma append_base_fields_st_again:
  "append_base_fields_st ignore acc ds = (r, ds') \<Longrightarrow>
   append_base_fields_st ignore acc ds' = (r, ds')"
proof (induction ds arbitrary: acc r ds')
  case Nil
  then show ?case by simp
next
  case (Cons d ds)
  show ?case
  proof (cases "getitem d ''name''")
    case (Inl e)
    with Cons.prems show ?thesis by auto
  next
    case (Inr v)
    show ?thesis
    proof (cases "v \<in> set (map Str ignore)")
      case True
      with Inr Cons.prems obtain rest' where
        st: "append_base_fields_st ignore acc ds = (r, rest')" and ds': "ds' = d # rest'"
        by (auto split: prod.splits)
      from Cons.IH[OF st] Inr True show ?thesis unfolding ds' by simp
    next
      case False
      show ?thesis
      proof (cases "setitem d ''group_label'' (Str ''Base Fields'')")
        case (Inl e)
        with Inr False Cons.prems show ?thesis by auto
      next
        case d': (Inr d')
        with Inr False Cons.prems obtain rest' where
          st: "append_base_fields_st ignore (acc @ [d']) ds = (r, rest')"
          and ds': "ds' = d' # rest'"
          by (auto split: prod.splits)
        from setitem_getitem_other[OF d', of "''name''"] Inr
        have n: "getitem d' ''name'' = Inr v" by simp
        from Cons.IH[OF st] n False setitem_again[OF d'] show ?thesis
          unfolding ds' by simp
      qed
    qed
  qed
qed

lemma append_base_fields_st_names:
  "append_base_fields_st ignore acc ds = (r, ds') \<Longrightarrow>
   map (\<lambda>d. getitem d ''name'') ds' = map (\<lambda>d. getitem d ''name'') ds"
proof (induction ds arbitrary: acc r ds')
  case Nil
  then show ?case by simp
next
  case (Cons d ds)
  show ?case
  proof (cases "getitem d ''name''")
    case (Inl e)
    with Cons.prems show ?thesis by auto
  next
    case (Inr v)
    show ?thesis
    proof (cases "v \<in> set (map Str ignore)")
      case True
      with Inr Cons.prems obtain rest' where
        st: "append_base_fields_st ignore acc ds = (r, rest')" and ds': "ds' = d # rest'"
        by (auto split: prod.splits)
      from Cons.IH[OF st] show ?thesis unfolding ds' by simp
    next
      case False
      show ?thesis
      proof (cases "setitem d ''group_label'' (Str ''Base Fields'')")
        case (Inl e)
        with Inr False Cons.prems show ?thesis by auto
      next
        case d': (Inr d')
        with Inr False Cons.prems obtain rest' where
          st: "append_base_fields_st ignore (acc @ [d']) ds = (r, rest')"
          and ds': "ds' = d' # rest'"
          by (auto split: prod.splits)
        from setitem_getitem_other[OF d', of "''name''"]
        have n: "getitem d' ''name'' = getitem d ''name''" by simp
        from Cons.IH[OF st] n show ?thesis unfolding ds' by simp
      qed
    qed
  qed
qed

text \<open>Iterating over the keys of a dict or the characters of a string changes nothing.\<close>

lemma append_base_fields_st_strs:
  "\<forall>d \<in> set ds. \<exists>s. d = Str s \<Longrightarrow> append_base_fields_st ignore acc ds = (r, ds') \<Longrightarrow> ds' = ds"
  by (cases ds) auto

lemma iter_with_items:
  assumes "append_base_fields_st ignore acc (iter v) = (r, ds')"
  shows "iter (with_items v ds') = ds'"
proof (cases v)
  case (List xs)
  then show ?thesis by (simp add: with_items_def)
next
  case (Str s)
  with append_base_fields_st_strs[OF _ assms] show ?thesis
    by (auto simp: with_items_def)
next
  case (Dict kvs)
  with append_base_fields_st_strs[OF _ assms] show ?thesis
    by (auto simp: with_items_def)
qed

lemma with_items_again: "with_items (with_items v xs) xs = with_items v xs"
  by (cases v) (simp_all add: with_items_def)

lemma views0_item_shape:
  assumes "views0_item lkml key = Inr old"
  shows "\<exists>kvs kvs0 vs. lkml = Dict kvs \<and> map_of kvs ''views'' = Some (List (Dict kvs0 # vs))
     \<and> map_of kvs0 key = Some old"
proof -
  from assms obtain views v0 where
    a: "getitem lkml ''views'' = Inr views" "index0 views = Inr v0" "getitem v0 key = Inr old"
    by (auto simp: views0_item_def bind_Inr_iff)
  from a(1) obtain kvs where k: "lkml = Dict kvs" "map_of kvs ''views'' = Some views"
    by (auto dest: getitem_Inr_Dict)
  from a(3) obtain kvs0 where k0: "v0 = Dict kvs0" "map_of kvs0 key = Some old"
    by (auto dest: getitem_Inr_Dict)
  from a(2) k0(1) obtain vs where "views = List (Dict kvs0 # vs)"
    by (cases views rule: index0.cases) auto
  with k k0 show ?thesis by blast
qed

lemma views0_item_put:
  assumes "views0_item lkml key = Inr old"
  shows "views0_item (put_views0_item lkml key v) key = Inr v"
proof -
  from views0_item_shape[OF assms] obtain kvs kvs0 vs where
    "lkml = Dict kvs" "map_of kvs ''views'' = Some (List (Dict kvs0 # vs))"
    by blast
  then show ?thesis
    by (simp add: put_views0_item_def views0_item_def bind_def update_conv')
qed

lemma views0_item_put_other:
  assumes "key' \<noteq> key"
  shows "views0_item (put_views0_item lkml key v) key' = views0_item lkml key'"
proof (cases "\<exists>kvs kvs0 vs. lkml = Dict kvs \<and> map_of kvs ''views'' = Some (List (Dict kvs0 # vs))")
  case True
  then obtain kvs kvs0 vs where
    "lkml = Dict kvs" "map_of kvs ''views'' = Some (List (Dict kvs0 # vs))"
    by blast
  with assms show ?thesis
    by (simp add: put_views0_item_def views0_item_def bind_def update_conv')
next
  case False
  then have "put_views0_item lkml key v = lkml"
    by (auto simp: put_views0_item_def split: lkml.splits option.splits list.splits)
  then show ?thesis by simp
qed

lemma put_views0_item_same:
  assumes "views0_item lkml key = Inr old"
  shows "put_views0_item lkml key old = lkml"
proof -
  from views0_item_shape[OF assms] obtain kvs kvs0 vs where
    "lkml = Dict kvs" "map_of kvs ''views'' = Some (List (Dict kvs0 # vs))"
    "map_of kvs0 key = Some old"
    by blast
  then show ?thesis
    by (simp add: put_views0_item_def update_triv)
qed

lemma truthy_put_views0_item: "truthy (put_views0_item lkml key v) = truthy lkml"
proof (cases "\<exists>kvs kvs0 vs. lkml = Dict kvs \<and> map_of kvs ''views'' = Some (List (Dict kvs0 # vs))")
  case True
  then obtain kvs kvs0 vs where
    k: "lkml = Dict kvs" "map_of kvs ''views'' = Some (List (Dict kvs0 # vs))"
    by blast
  then have "kvs \<noteq> []" by auto
  moreover have "AList.update ''views'' (List (Dict (AList.update key v kvs0) # vs)) kvs \<noteq> []"
    by (cases kvs) auto
  ultimately show ?thesis using k by (simp add: put_views0_item_def)
next
  case False
  then have "put_views0_item lkml key v = lkml"
    by (auto simp: put_views0_item_def split: lkml.splits option.splits list.splits)
  then show ?thesis by simp
qed

lemma merge_base_view_st_fst:
  "fst (merge_base_view_st ignore b dims groups) = merge_base_view ignore b dims groups"
proof (cases b)
  case None
  then show ?thesis by (simp add: merge_base_view_st_def merge_base_view_def)
next
  case (Some lkml)
  show ?thesis
  proof (cases "truthy lkml")
    case False
    with Some show ?thesis by (simp add: merge_base_view_st_def merge_base_view_def)
  next
    case True
    show ?thesis
    proof (cases "views0_item lkml ''dimensions''")
      case (Inl e)
      with Some True show ?thesis
        by (simp add: merge_base_view_st_def merge_base_view_def bind_def)
    next
      case d: (Inr d)
      obtain r1 ds' where st1: "append_base_fields_st ignore dims (iter d) = (r1, ds')"
        by (cases "append_base_fields_st ignore dims (iter d)")
      note r1 = append_base_fields_st_result[OF st1, symmetric]
      have vg: "views0_item (put_views0_item lkml ''dimensions'' (with_items d ds'))
                  ''dimension_groups'' = views0_item lkml ''dimension_groups''"
        by (rule views0_item_put_other) simp
      show ?thesis
      proof (cases r1)
        case (Inl e)
        show ?thesis
          unfolding merge_base_view_st_def merge_base_view_def Some
          by (simp add: True d st1 r1 Inl bind_def Let_def)
      next
        case dimensions': (Inr dimensions')
        show ?thesis
        proof (cases "views0_item lkml ''dimension_groups''")
          case (Inl e)
          show ?thesis
            unfolding merge_base_view_st_def merge_base_view_def Some
            by (simp add: True d st1 r1 dimensions' vg Inl bind_def Let_def)
        next
          case g: (Inr g)
          obtain r2 gs' where st2: "append_base_fields_st ignore groups (iter g) = (r2, gs')"
            by (cases "append_base_fields_st ignore groups (iter g)")
          note r2 = append_base_fields_st_result[OF st2, symmetric]
          show ?thesis
            unfolding merge_base_view_st_def merge_base_view_def Some
            by (simp add: True d st1 r1 dimensions' vg g st2 r2 bind_def Let_def)
        qed
      qed
    qed
  qed
qed

lemma merge_base_view_st_again:
  assumes "merge_base_view_st ignore (Some lkml) dims groups = (m, obj)"
  shows "\<exists>lkml'. obj = Some lkml'
     \<and> merge_base_view_st ignore (Some lkml') dims groups = (m, Some lkml')
     \<and> (\<forall>d. views0_item lkml ''dimensions'' = Inr d \<longrightarrow>
           (\<exists>d'. views0_item lkml' ''dimensions'' = Inr d'
              \<and> map (\<lambda>x. getitem x ''name'') (iter d')
                  = map (\<lambda>x. getitem x ''name'') (iter d)))"
proof (cases "truthy lkml")
  case False
  with assms have "obj = Some lkml" "m = Inr (dims, groups)"
    by (auto simp: merge_base_view_st_def)
  with False show ?thesis by (simp add: merge_base_view_st_def)
next
  case True
  show ?thesis
  proof (cases "views0_item lkml ''dimensions''")
    case (Inl e)
    with assms True have "obj = Some lkml" "m = Inl e"
      by (auto simp: merge_base_view_st_def)
    with True Inl show ?thesis by (simp add: merge_base_view_st_def)
  next
    case d: (Inr d)
    obtain r1 ds' where st1: "append_base_fields_st ignore dims (iter d) = (r1, ds')"
      by (cases "append_base_fields_st ignore dims (iter d)")
    define D' where "D' = with_items d ds'"
    define lkml1 where "lkml1 = put_views0_item lkml ''dimensions'' D'"
    have v1: "views0_item lkml1 ''dimensions'' = Inr D'"
      unfolding lkml1_def using d by (rule views0_item_put)
    have it1: "iter D' = ds'"
      unfolding D'_def using st1 by (rule iter_with_items)
    have ag1: "append_base_fields_st ignore dims ds' = (r1, ds')"
      using st1 by (rule append_base_fields_st_again)
    have wi1: "with_items D' ds' = D'"
      unfolding D'_def by (rule with_items_again)
    have same1: "put_views0_item lkml1 ''dimensions'' D' = lkml1"
      using v1 by (rule put_views0_item_same)
    have t1: "truthy lkml1"
      unfolding lkml1_def using True by (simp add: truthy_put_views0_item)
    have vg: "views0_item lkml1 ''dimension_groups'' = views0_item lkml ''dimension_groups''"
      unfolding lkml1_def by (rule views0_item_put_other) simp
    have names: "map (\<lambda>x. getitem x ''name'') (iter D') = map (\<lambda>x. getitem x ''name'') (iter d)"
      unfolding it1 using st1 by (rule append_base_fields_st_names)
    have first: "merge_base_view_st ignore (Some lkml) dims groups
      = (case r1 of
           Inl e \<Rightarrow> (Inl e, Some lkml1)
         | Inr dimensions' \<Rightarrow>
             (case views0_item lkml1 ''dimension_groups'' of
                Inl e \<Rightarrow> (Inl e, Some lkml1)
              | Inr groups' \<Rightarrow>
                  (case append_base_fields_st ignore groups (iter groups') of
                     (r2, groups_after) \<Rightarrow>
                       (bind r2 (\<lambda>dimension_groups'. Inr (dimensions', dimension_groups')),
                        Some (put_views0_item lkml1 ''dimension_groups''
                                (with_items groups' groups_after))))))"
      unfolding merge_base_view_st_def lkml1_def D'_def
      by (simp add: True d st1 Let_def)
    have again1: "merge_base_view_st ignore (Some lkml1) dims groups
      = (case r1 of
           Inl e \<Rightarrow> (Inl e, Some lkml1)
         | Inr dimensions' \<Rightarrow>
             (case views0_item lkml1 ''dimension_groups'' of
                Inl e \<Rightarrow> (Inl e, Some lkml1)
              | Inr groups' \<Rightarrow>
                  (case append_base_fields_st ignore groups (iter groups') of
                     (r2, groups_after) \<Rightarrow>
                       (bind r2 (\<lambda>dimension_groups'. Inr (dimensions', dimension_groups')),
                        Some (put_views0_item lkml1 ''dimension_groups''
                                (with_items groups' groups_after))))))"
      unfolding merge_base_view_st_def Let_def
      by (simp add: t1 v1 it1 ag1) (unfold wi1 same1, rule refl)
    show ?thesis
    proof (cases r1)
      case (Inl e)
      with first assms have "obj = Some lkml1" "m = Inl e" by simp_all
      moreover from again1 Inl
      have "merge_base_view_st ignore (Some lkml1) dims groups = (Inl e, Some lkml1)" by simp
      ultimately show ?thesis using v1 names d by simp
    next
      case dimensions': (Inr dimensions')
      show ?thesis
      proof (cases "views0_item lkml1 ''dimension_groups''")
        case (Inl e)
        with first assms dimensions' have "obj = Some lkml1" "m = Inl e" by simp_all
        moreover from again1 Inl dimensions'
        have "merge_base_view_st ignore (Some lkml1) dims groups = (Inl e, Some lkml1)" by simp
        ultimately show ?thesis using v1 names d by simp
      next
        case g: (Inr g)
        obtain r2 gs' where st2: "append_base_fields_st ignore groups (iter g) = (r2, gs')"
          by (cases "append_base_fields_st ignore groups (iter g)")
        define G' where "G' = with_items g gs'"
        define lkml2 where "lkml2 = put_views0_item lkml1 ''dimension_groups'' G'"
        from first assms dimensions' g st2
        have res: "obj = Some lkml2"
          "m = bind r2 (\<lambda>dimension_groups'. Inr (dimensions', dimension_groups'))"
          by (simp_all add: lkml2_def G'_def)
        have v2: "views0_item lkml2 ''dimension_groups'' = Inr G'"
          unfolding lkml2_def using g by (rule views0_item_put)
        have v2d: "views0_item lkml2 ''dimensions'' = Inr D'"
          unfolding lkml2_def using v1 by (simp add: views0_item_put_other)
        have it2: "iter G' = gs'"
          unfolding G'_def using st2 by (rule iter_with_items)
        have ag2: "append_base_fields_st ignore groups gs' = (r2, gs')"
          using st2 by (rule append_base_fields_st_again)
        have wi2: "with_items G' gs' = G'"
          unfolding G'_def by (rule with_items_again)
        have same2d: "put_views0_item lkml2 ''dimensions'' D' = lkml2"
          using v2d by (rule put_views0_item_same)
        have same2: "put_views0_item lkml2 ''dimension_groups'' G' = lkml2"
          using v2 by (rule put_views0_item_same)
        have t2: "truthy lkml2"
          unfolding lkml2_def using t1 by (simp add: truthy_put_views0_item)
        have "merge_base_view_st ignore (Some lkml2) dims groups
           = (bind r2 (\<lambda>dimension_groups'. Inr (dimensions', dimension_groups')), Some lkml2)"
          unfolding merge_base_view_st_def
          by (simp add: t2 v2d it1 ag1 wi1 same2d dimensions' v2 it2 ag2 wi2 same2 Let_def)
        with res v2d names d show ?thesis by simp
      qed
    qed
  qed
qed

lemma traverse_map: "traverse (\<lambda>x. F (g x)) xs = traverse F (map g xs)"
  by (induction xs) simp_all

lemma base_view_fields_of_names:
  assumes "map (\<lambda>x. getitem x ''name'') (iter d') = map (\<lambda>x. getitem x ''name'') (iter d)"
  shows "base_view_fields_of ignore d' = base_view_fields_of ignore d"
proof -
  let ?F = "\<lambda>r. bind r (\<lambda>v.
        if v \<notin> set (map Str ignore)
        then bind (bind r (\<lambda>v. case v of Str s \<Rightarrow> Inr s | _ \<Rightarrow> Inl TypeError))
               (\<lambda>n. Inr [n @ '',\<newline>''])
        else Inr [])"
  have "base_view_fields_of ignore x
      = bind (traverse ?F (map (\<lambda>x. getitem x ''name'') (iter x))) (\<lambda>xss. Inr (concat xss))"
    for x
    unfolding base_view_fields_of_def get_str_def
    by (subst traverse_map[symmetric]) (rule refl)
  with assms show ?thesis by simp
qed

lemma to_lookml_st_v1_name:
  "to_lookml_st cfg ext self bq_client v1_name = to_lookml_st cfg ext self bq_client v1_name'"
  by (simp add: to_lookml_st_def)

lemma to_lookml_st_fst:
  "fst (to_lookml_st cfg ext self bq_client v1_name) = to_lookml cfg ext self bq_client v1_name'"
  unfolding to_lookml_st_def to_lookml_def Let_def
  by (auto simp: bind_def merge_base_view_st_fst[symmetric]
      split: option.splits sum.splits prod.splits)

lemma resolver_after_None: "resolver_after ext self bq_client None = table_view_to_lookml ext"
  by (simp add: resolver_after_def)

lemma merge_base_view_st_None:
  "merge_base_view_st ignore None dims groups = (Inr (dims, groups), None)"
  by (simp add: merge_base_view_st_def)

lemma to_lookml_st_cases:
  "snd (to_lookml_st cfg ext self bq_client v1_name) = table_view_to_lookml ext
   \<or> (\<exists>nsd dsd cols bfields lkml join_sql source_sql dims m obj.
        get_platform_definitions cfg (namespace self) = Some nsd
      \<and> get_data_source_definition cfg (data_source_name_of (name self)) (namespace self)
          = Some dsd
      \<and> metric_definitions cfg nsd (data_source_name_of (name self)) = Inr cols
      \<and> cols \<noteq> []
      \<and> base_view ext self bq_client dsd
            (ignore_base_fields nsd (data_source_name_of (name self)))
          = Inr (bfields, Some lkml, join_sql)
      \<and> format_dataset ext
            (get_data_source_sql cfg (data_source_name_of (name self)) (namespace self))
            (namespace self) = Inr source_sql
      \<and> get_dimensions cfg ext self = Inr dims
      \<and> merge_base_view_st (ignore_base_fields nsd (data_source_name_of (name self)))
            (Some lkml) dims get_dimension_groups = (m, obj))"
  unfolding to_lookml_st_def Let_def
  by (auto simp: resolver_after_None merge_base_view_st_None
      split: option.splits sum.splits prod.splits)

lemma to_lookml_st_again:
  "to_lookml_st cfg
     (ext\<lparr>table_view_to_lookml := snd (to_lookml_st cfg ext self bq_client v1_name)\<rparr>)
     self bq_client v1_name'
   = to_lookml_st cfg ext self bq_client v1_name"
proof -
  let ?dsn = "data_source_name_of (name self)"
  from to_lookml_st_cases[of cfg ext self bq_client v1_name]
  consider (same) "snd (to_lookml_st cfg ext self bq_client v1_name) = table_view_to_lookml ext"
    | (merged) nsd dsd cols bfields lkml join_sql source_sql dims m obj where
        "get_platform_definitions cfg (namespace self) = Some nsd"
        "get_data_source_definition cfg ?dsn (namespace self) = Some dsd"
        "metric_definitions cfg nsd ?dsn = Inr cols" "cols \<noteq> []"
        "base_view ext self bq_client dsd (ignore_base_fields nsd ?dsn)
          = Inr (bfields, Some lkml, join_sql)"
        "format_dataset ext (get_data_source_sql cfg ?dsn (namespace self)) (namespace self)
          = Inr source_sql"
        "get_dimensions cfg ext self = Inr dims"
        "merge_base_view_st (ignore_base_fields nsd ?dsn) (Some lkml) dims
           get_dimension_groups = (m, obj)"
    by blast
  then show ?thesis
  proof cases
    case same
    then show ?thesis by (simp add: to_lookml_st_v1_name[of cfg ext self bq_client v1_name'])
  next
    case merged
    let ?ignore = "ignore_base_fields nsd ?dsn"
    obtain t ts where tables: "tables self = t # ts"
      using merged(5) by (cases "tables self") (auto simp: base_view_def)
    from base_view_Cons[OF merged(5) tables] obtain base_table bd where
      tbl: "map_of t ''table'' = Some base_table"
      and tv: "table_view_to_lookml ext (namespace self) ''base_view''
         [[(''table'', base_table), (''channel'', ''release'')]] bq_client None = Inr lkml"
      and bd: "views0_item lkml ''dimensions'' = Inr bd"
      and bf: "base_view_fields_of ?ignore bd = Inr bfields"
      and js: "join_sql = join_base_view_sql base_table dsd"
      by auto
    from merge_base_view_st_again[OF merged(8)] bd obtain lkml' d' where
      obj: "obj = Some lkml'"
      and again: "merge_base_view_st ?ignore (Some lkml') dims get_dimension_groups
                    = (m, Some lkml')"
      and d': "views0_item lkml' ''dimensions'' = Inr d'"
      and names: "map (\<lambda>x. getitem x ''name'') (iter d') = map (\<lambda>x. getitem x ''name'') (iter bd)"
      by blast
    define \<sigma> where "\<sigma> = resolver_after ext self bq_client (Some lkml')"
    define ext' where "ext' = ext\<lparr>table_view_to_lookml := \<sigma>\<rparr>"
    have first: "to_lookml_st cfg ext self bq_client v1_name =
      (bind m (\<lambda>(dimensions', dimension_groups').
      bind (get_measures cfg self dimensions') (\<lambda>measures.
      bind (get_sets cfg ext self) (\<lambda>sets.
      Inr (Dict [(''views'', List [Dict
        [(''name'', Str (name self)),
         (''derived_table'', Dict [(''sql'', Str
            (derived_table_sql dsd cols bfields source_sql join_sql))]),
         (''dimensions'', List dimensions'),
         (''dimension_groups'', List dimension_groups'),
         (''measures'', List measures),
         (''sets'', List sets),
         (''parameters'', List get_parameters)]])])))), \<sigma>)"
      unfolding to_lookml_st_def Let_def \<sigma>_def
      by (simp add: merged obj)
    have \<sigma>_at: "\<sigma> (namespace self) ''base_view''
         [[(''table'', base_table), (''channel'', ''release'')]] bq_client None = Inr lkml'"
      by (simp add: \<sigma>_def resolver_after_def tables tbl)
    have bf': "base_view_fields_of ?ignore d' = Inr bfields"
      using base_view_fields_of_names[OF names] bf by simp
    have bv': "base_view ext' self bq_client dsd ?ignore = Inr (bfields, Some lkml', join_sql)"
      unfolding base_view_def
      by (simp add: tables tbl ext'_def \<sigma>_at d' bf' js bind_def)
    have gd': "get_dimensions cfg ext' self = Inr dims"
      using get_dimensions_frame[of cfg self cfg self ext' ext] merged(7)
      by (simp add: ext'_def)
    have gs': "get_sets cfg ext' self = get_sets cfg ext self"
      by (rule get_sets_frame) (simp_all add: ext'_def)
    have fmt': "format_dataset ext' (get_data_source_sql cfg ?dsn (namespace self))
                  (namespace self) = Inr source_sql"
      using merged(6) by (simp add: ext'_def)
    have \<sigma>': "resolver_after ext' self bq_client (Some lkml') = \<sigma>"
      by (auto simp: resolver_after_def tables tbl ext'_def \<sigma>_at fun_eq_iff)
    have second: "to_lookml_st cfg ext' self bq_client v1_name' =
      (bind m (\<lambda>(dimensions', dimension_groups').
      bind (get_measures cfg self dimensions') (\<lambda>measures.
      bind (get_sets cfg ext self) (\<lambda>sets.
      Inr (Dict [(''views'', List [Dict
        [(''name'', Str (name self)),
         (''derived_table'', Dict [(''sql'', Str
            (derived_table_sql dsd cols bfields source_sql join_sql))]),
         (''dimensions'', List dimensions'),
         (''dimension_groups'', List dimension_groups'),
         (''measures'', List measures),
         (''sets'', List sets),
         (''parameters'', List get_parameters)]])])))), \<sigma>)"
      unfolding to_lookml_st_def Let_def
      by (simp add: merged(1-4) bv' fmt' gd' again gs' \<sigma>')
    from first have "snd (to_lookml_st cfg ext self bq_client v1_name) = \<sigma>" by simp
    with first second show ?thesis by (simp add: ext'_def)
  qed
qed

subsection \<open>The select list\<close>

lemma derived_table_sql_select:
  "\<exists>rest. derived_table_sql dsd cols bfields source_sql join_sql
     = ''\<newline>            SELECT\<newline>                '' @ concat cols
       @ ''\<newline>                '' @ join ''base.'' bfields
       @ ''\<newline>                m.'' @ or_default (client_id_column dsd) ''client_id''
       @ '' AS client_id,\<newline>                ''
       @ analysis_basis_sql (or_default (submission_date_column dsd) ''submission_date'')
       @ ''\<newline>            FROM\<newline>'' @ rest"
  unfolding derived_table_sql_def by simp

lemma get_str_with_group_label:
  "getitem d ''name'' = Inr v \<Longrightarrow> get_str (with_group_label d) ''name'' = get_str d ''name''"
  by (simp add: get_str_def getitem_with_group_label_name)

lemma names_with_group_label:
  "map (\<lambda>d. get_str d ''name'') (map with_group_label (filter (not_ignored ignore) xs))
     = map (\<lambda>d. get_str d ''name'') (filter (not_ignored ignore) xs)"
  by (induction xs)
     (auto simp: not_ignored_def get_str_with_group_label split: sum.splits)

lemma to_lookml_base_names:
  assumes bv: "base_view ext self bq_client dsd ignore = Inr (bfields, base_lkml, join_sql)"
    and merge: "merge_base_view ignore base_lkml dims groups = Inr (dims', groups')"
  shows "\<exists>base_dims base_names. dims' = dims @ base_dims
     \<and> map (\<lambda>d. get_str d ''name'') base_dims = map Inr base_names
     \<and> bfields = map (\<lambda>n. n @ '',\<newline>'') base_names
     \<and> (tables self = [] \<longrightarrow> base_dims = [])
     \<and> (\<forall>d \<in> set base_dims. \<exists>v. getitem d ''name'' = Inr v \<and> v \<notin> set (map Str ignore))"
proof (cases "tables self")
  case Nil
  with bv have "bfields = []" "base_lkml = None" by (simp_all add: base_view_Nil)
  with merge have "dims' = dims @ []" "bfields = map (\<lambda>n. n @ '',\<newline>'') []"
    by (simp_all add: merge_base_view_None)
  then show ?thesis by (intro exI[of _ "[]"] conjI) simp_all
next
  case (Cons t ts)
  from base_view_Cons[OF bv Cons] obtain lkml bd where
    bd: "views0_item lkml ''dimensions'' = Inr bd"
    and bf: "base_view_fields_of ignore bd = Inr bfields"
    and lk: "base_lkml = Some lkml"
    by blast
  let ?kept = "filter (not_ignored ignore) (iter bd)"
  from base_view_fields_names[OF bf] obtain base_names where
    bn: "map (\<lambda>d. get_str d ''name'') ?kept = map Inr base_names"
      "bfields = map (\<lambda>n. n @ '',\<newline>'') base_names"
    by blast
  from merge_base_view_eq[OF merge[unfolded lk] bd]
  have d': "dims' = dims @ map with_group_label ?kept" .
  have n: "map (\<lambda>d. get_str d ''name'') (map with_group_label ?kept) = map Inr base_names"
    unfolding names_with_group_label by (rule bn(1))
  have k: "\<forall>d \<in> set (map with_group_label ?kept).
             \<exists>v. getitem d ''name'' = Inr v \<and> v \<notin> set (map Str ignore)"
    by (auto simp: not_ignored_def getitem_with_group_label_name split: sum.splits)
  from d' n bn(2) k Cons show ?thesis
    by (intro exI[of _ "map with_group_label ?kept"] exI[of _ base_names] conjI) simp_all
qed

section \<open>The generator on the samples\<close>

lemma ex_data_source_name: "data_source_name_of ''metric_definitions_ds1'' = ''ds1''"
  by (simp add: data_source_name_of_def)

lemma ex_filtered_metrics:
  "filtered_metrics \<lparr>metrics_definitions = ex_metrics\<rparr> ''ds1'' = [(''hours'', ex_hours), (''days'', ex_days)]"
  by (simp add: filtered_metrics_def applicable_def ex_metrics_def ex_hours_def ex_days_def
      ex_histogram_def ex_other_def)

lemma ex_metric_definitions:
  "metric_definitions ex_cfg \<lparr>metrics_definitions = ex_metrics\<rparr> ''ds1''
     = Inr [''SUM(hours) AS hours,\<newline>'', ''COUNT(*) AS days,\<newline>'']"
  unfolding metric_definitions_def source_filter_eq ex_filtered_metrics
  by (simp add: ex_cfg_def ex_hours_def ex_days_def)

lemma ex_get_dimensions:
  "get_dimensions ex_cfg ex_ext ex_view =
     Inr [ex_client_id_dimension, ex_hours_dimension, ex_days_dimension]"
  unfolding get_dimensions_def Let_def source_filter_eq
  by (simp add: ex_cfg_def ex_view_def ex_data_source_name ex_filtered_metrics ex_ext_def
      ex_hours_def ex_days_def or_default_def ex_client_id_dimension_def
      ex_hours_dimension_def ex_days_dimension_def)

lemma ex_get_dimensions_base:
  "get_dimensions ex_cfg ex_ext ex_view_base = get_dimensions ex_cfg ex_ext ex_view"
  by (simp add: get_dimensions_def ex_view_def ex_view_base_def ex_cfg_def)

lemma ex_measures_days:
  "statistic_measures
     (Dict [(''name'', Str ''days''), (''group_label'', Str ''Metrics''),
            (''label'', Str ''Days''), (''description'', Str ''Days of use''),
            (''type'', Str ''number''), (''sql'', Str ''${TABLE}.days'')])
     [''sum'', ''median'', ''client_count''] =
   Inr [Dict [(''name'', Str ''days_sum''), (''type'', Str ''sum''),
              (''sql'', Str ''${TABLE}.days''), (''label'', Str ''Days Sum''),
              (''group_label'', Str ''Statistics''),
              (''description'', Str ''Sum of Days'')],
        Dict [(''name'', Str ''days_client_count''), (''type'', Str ''count_distinct''),
              (''label'', Str ''Days Client Count''), (''group_label'', Str ''Statistics''),
              (''sql'', Str ''IF(SAFE_CAST(${TABLE}.days AS BOOL), ${TABLE}.client_id, SAFE_CAST(NULL AS STRING))''),
              (''description'', Str ''Number of clients with Days'')]]"
  by (simp add: get_str_def)

lemma ex_get_measures:
  "get_measures ex_cfg ex_view [ex_client_id_dimension, ex_hours_dimension, ex_days_dimension]
     = Inr ex_days_measures"
  by (simp add: get_measures_def ex_client_id_dimension_def ex_hours_dimension_def
      ex_days_dimension_def ex_days_measures_def get_str_def ex_cfg_def ex_view_def
      ex_metrics_def ex_hours_def ex_days_def)

lemma ex_get_sets: "get_sets ex_cfg ex_ext ex_view = Inr ex_sets"
  unfolding get_sets_def
  by (simp add: ex_get_dimensions ex_get_measures)
     (simp add: ex_client_id_dimension_def ex_hours_dimension_def
      ex_days_dimension_def ex_days_measures_def ex_sets_def)

lemma ex_to_lookml:
  "to_lookml ex_cfg ex_ext ex_view () None =
     Inr (Dict [(''views'', List [Dict
       [(''name'', Str ''metric_definitions_ds1''),
        (''derived_table'', Dict [(''sql'', Str
           (derived_table_sql ex_dsd
              [''SUM(hours) AS hours,\<newline>'', ''COUNT(*) AS days,\<newline>''] []
              ''mozdata.{dataset}.ds1'' []))]),
        (''dimensions'', List [ex_client_id_dimension, ex_hours_dimension, ex_days_dimension]),
        (''dimension_groups'', List get_dimension_groups),
        (''measures'', List ex_days_measures),
        (''sets'', List ex_sets),
        (''parameters'', List get_parameters)]])])"
proof -
  have ns: "namespace ex_view = ''ns''" and nm: "name ex_view = ''metric_definitions_ds1''"
    and tb: "tables ex_view = []"
    by (simp_all add: ex_view_def)
  have gpd: "get_platform_definitions ex_cfg ''ns'' = Some \<lparr>metrics_definitions = ex_metrics\<rparr>"
    and gdsd: "get_data_source_definition ex_cfg ''ds1'' ''ns'' = Some ex_dsd"
    and fmt: "format_dataset ex_ext (get_data_source_sql ex_cfg ''ds1'' ''ns'') ''ns''
                = Inr ''mozdata.{dataset}.ds1''"
    by (simp_all add: ex_cfg_def ex_ext_def)
  show ?thesis
    unfolding to_lookml_def Let_def
    by (simp add: ns nm ex_data_source_name gpd gdsd ex_metric_definitions
      ex_get_sets ex_get_dimensions fmt base_view_Nil tb merge_base_view_None ex_get_measures)
qed

lemma ex_ignore_base_fields:
  "ignore_base_fields \<lparr>metrics_definitions = ex_metrics\<rparr> ''ds1'' =
     [''client_id'', ''submission_date'', ''submission'', ''first_run'', ''hours'', ''days'']"
  by (simp add: ignore_base_fields_eq filtered_slugs_def ex_filtered_metrics)

lemma ex_views0_dimensions:
  "views0_item ex_base_lkml ''dimensions'' = Inr (List
         [Dict [(''name'', Str ''country''), (''label'', Str ''Country'')],
          Dict [(''name'', Str ''client_id''), (''label'', Str ''Client'')],
          Dict [(''name'', Str ''days''), (''label'', Str ''Days'')],
          Dict [(''name'', Str ''os''), (''label'', Str ''OS''), (''group_label'', Str ''System'')]])"
  by (simp add: views0_item_def ex_base_lkml_def)

lemma ex_views0_dimension_groups:
  "views0_item ex_base_lkml ''dimension_groups'' = Inr (List
         [Dict [(''name'', Str ''submission''), (''type'', Str ''time'')],
          Dict [(''name'', Str ''first_seen''), (''type'', Str ''time'')]])"
  by (simp add: views0_item_def ex_base_lkml_def)

lemma ex_base_view:
  "base_view ex_ext ex_view_base () ex_dsd
     [''client_id'', ''submission_date'', ''submission'', ''first_run'', ''hours'', ''days'']
   = Inr ([''country,\<newline>'', ''os,\<newline>''], Some ex_base_lkml,
          join_base_view_sql ''mozdata.base.clients'' ex_dsd)"
  unfolding base_view_def
  by (simp add: ex_view_base_def ex_ext_def ex_views0_dimensions base_view_fields_of_def
      get_str_def)

lemma ex_merge_base_view:
  "merge_base_view
     [''client_id'', ''submission_date'', ''submission'', ''first_run'', ''hours'', ''days'']
     (Some ex_base_lkml) [ex_client_id_dimension, ex_hours_dimension, ex_days_dimension]
     get_dimension_groups
   = Inr ([ex_client_id_dimension, ex_hours_dimension, ex_days_dimension,
           ex_country_dimension, ex_os_dimension],
          get_dimension_groups @ [ex_first_seen_group])"
  unfolding merge_base_view_def
  by (simp add: ex_views0_dimensions ex_views0_dimension_groups)
     (simp add: ex_base_lkml_def ex_country_dimension_def ex_os_dimension_def
        ex_first_seen_group_def)

lemma ex_get_measures_base:
  "get_measures ex_cfg ex_view_base
     [ex_client_id_dimension, ex_hours_dimension, ex_days_dimension,
      ex_country_dimension, ex_os_dimension]
     = Inr (ex_days_measures @ [ex_os_measure])"
  by (simp add: get_measures_def ex_client_id_dimension_def ex_hours_dimension_def
      ex_days_dimension_def ex_days_measures_def get_str_def ex_cfg_def ex_view_base_def
      ex_metrics_def ex_hours_def ex_days_def ex_other_def ex_country_dimension_def
      ex_os_dimension_def ex_os_measure_def)

lemma ex_get_sets_base: "get_sets ex_cfg ex_ext ex_view_base = Inr ex_sets"
proof -
  have "get_measures ex_cfg ex_view_base = get_measures ex_cfg ex_view"
    by (simp add: get_measures_def ex_view_def ex_view_base_def fun_eq_iff)
  then have "get_sets ex_cfg ex_ext ex_view_base = get_sets ex_cfg ex_ext ex_view"
    by (simp add: get_sets_def ex_get_dimensions_base)
  then show ?thesis by (simp add: ex_get_sets)
qed

lemma ex_to_lookml_base:
  "to_lookml ex_cfg ex_ext ex_view_base () None =
     Inr (Dict [(''views'', List [Dict
       [(''name'', Str ''metric_definitions_ds1''),
        (''derived_table'', Dict [(''sql'', Str
           (derived_table_sql ex_dsd
              [''SUM(hours) AS hours,\<newline>'', ''COUNT(*) AS days,\<newline>'']
              [''country,\<newline>'', ''os,\<newline>'']
              ''mozdata.{dataset}.ds1''
              (join_base_view_sql ''mozdata.base.clients'' ex_dsd)))]),
        (''dimensions'', List [ex_client_id_dimension, ex_hours_dimension, ex_days_dimension,
                               ex_country_dimension, ex_os_dimension]),
        (''dimension_groups'', List (get_dimension_groups @ [ex_first_seen_group])),
        (''measures'', List (ex_days_measures @ [ex_os_measure])),
        (''sets'', List ex_sets),
        (''parameters'', List get_parameters)]])])"
proof -
  have ns: "namespace ex_view_base = ''ns''"
    and nm: "name ex_view_base = ''metric_definitions_ds1''"
    by (simp_all add: ex_view_base_def)
  have gpd: "get_platform_definitions ex_cfg ''ns'' = Some \<lparr>metrics_definitions = ex_metrics\<rparr>"
    and gdsd: "get_data_source_definition ex_cfg ''ds1'' ''ns'' = Some ex_dsd"
    and fmt: "format_dataset ex_ext (get_data_source_sql ex_cfg ''ds1'' ''ns'') ''ns''
                = Inr ''mozdata.{dataset}.ds1''"
    by (simp_all add: ex_cfg_def ex_ext_def)
  show ?thesis
    unfolding to_lookml_def Let_def
    by (simp add: ns nm ex_data_source_name gpd gdsd ex_metric_definitions
      ex_get_sets_base ex_get_dimensions_base ex_get_dimensions fmt ex_ignore_base_fields
      ex_base_view ex_merge_base_view ex_get_measures_base)
qed

lemma ex_derived_table_sql:
  "derived_table_sql ex_dsd [''SUM(hours) AS hours,\<newline>'', ''COUNT(*) AS days,\<newline>''] []
     ''mozdata.{dataset}.ds1'' [] =
           ''\<newline>'' @
           ''            SELECT\<newline>'' @
           ''                SUM(hours) AS hours,\<newline>'' @
           ''COUNT(*) AS days,\<newline>'' @
           ''\<newline>'' @
           ''                \<newline>'' @
           ''                m.client_id AS client_id,\<newline>'' @
           ''                {% if aggregate_metrics_by._parameter_value == 'day' %}\<newline>'' @
           ''                m.activity_date AS analysis_basis\<newline>'' @
           ''                {% elsif aggregate_metrics_by._parameter_value == 'week'  %}\<newline>'' @
           ''                (FORMAT_DATE(\<newline>'' @
           ''                    '%F',\<newline>'' @
           ''                    DATE_TRUNC(m.activity_date,\<newline>'' @
           ''                    WEEK(MONDAY)))\<newline>'' @
           ''                ) AS analysis_basis\<newline>'' @
           ''                {% elsif aggregate_metrics_by._parameter_value == 'month'  %}\<newline>'' @
           ''                (FORMAT_DATE(\<newline>'' @
           ''                    '%Y-%m',\<newline>'' @
           ''                    m.activity_date)\<newline>'' @
           ''                ) AS analysis_basis\<newline>'' @
           ''                {% elsif aggregate_metrics_by._parameter_value == 'quarter'  %}\<newline>'' @
           ''                (FORMAT_DATE(\<newline>'' @
           ''                    '%Y-%m',\<newline>'' @
           ''                    DATE_TRUNC(m.activity_date,\<newline>'' @
           ''                    QUARTER))\<newline>'' @
           ''                ) AS analysis_basis\<newline>'' @
           ''                {% elsif aggregate_metrics_by._parameter_value == 'year'  %}\<newline>'' @
           ''                (EXTRACT(\<newline>'' @
           ''                    YEAR FROM m.activity_date)\<newline>'' @
           ''                ) AS analysis_basis\<newline>'' @
           ''                {% else %}\<newline>'' @
           ''                NULL as analysis_basis\<newline>'' @
           ''                {% endif %}\<newline>'' @
           ''            FROM\<newline>'' @
           ''                mozdata.{dataset}.ds1\<newline>'' @
           ''            AS m\<newline>'' @
           ''            \<newline>'' @
           ''            WHERE m.submission_date BETWEEN\<newline>'' @
           ''                SAFE_CAST(\<newline>'' @
           ''                    {% date_start activity_date %} AS DATE\<newline>'' @
           ''                ) AND\<newline>'' @
           ''                SAFE_CAST(\<newline>'' @
           ''                    {% date_end activity_date %} AS DATE\<newline>'' @
           ''                )\<newline>'' @
           ''            GROUP BY\<newline>'' @
           ''                \<newline>'' @
           ''                client_id,\<newline>'' @
           ''                analysis_basis\<newline>'' @
           ''            ''"
  by (simp add: derived_table_sql_def analysis_basis_sql_def date_filter_sql_def or_default_def
      ex_dsd_def)

lemma ex_dup_get_sets:
  "get_sets ex_dup_cfg ex_ext ex_view =
     Inr [Dict [(''name'', Str ''metrics''),
                (''fields'', List [Str ''total'', Str ''total_sum'', Str ''total_sum''])]]"
  by (simp add: get_sets_def get_dimensions_def get_measures_def ex_dup_cfg_def ex_cfg_def
      ex_view_def ex_ext_def data_source_name_of_def ex_total_def ex_total_sum_def
      or_default_def get_str_def)

lemma ex_dup_to_lookml_sets:
  "view_list (to_lookml ex_dup_cfg ex_ext ex_view () None) ''sets''
     = [Dict [(''name'', Str ''metrics''),
              (''fields'', List [Str ''total'', Str ''total_sum'', Str ''total_sum''])]]"
proof -
  have ns: "namespace ex_view = ''ns''" and nm: "name ex_view = ''metric_definitions_ds1''"
    and tb: "tables ex_view = []"
    by (simp_all add: ex_view_def)
  have gpd: "get_platform_definitions ex_dup_cfg ''ns''
      = Some \<lparr>metrics_definitions = [(''total'', ex_total), (''total_sum'', ex_total_sum)]\<rparr>"
    and gdsd: "get_data_source_definition ex_dup_cfg ''ds1'' ''ns'' = Some ex_dsd"
    and fmt: "format_dataset ex_ext (get_data_source_sql ex_dup_cfg ''ds1'' ''ns'') ''ns''
                = Inr ''mozdata.{dataset}.ds1''"
    by (simp_all add: ex_dup_cfg_def ex_cfg_def ex_ext_def)
  have md: "metric_definitions ex_dup_cfg
       \<lparr>metrics_definitions = [(''total'', ex_total), (''total_sum'', ex_total_sum)]\<rparr> ''ds1''
     = Inr [''SUM(x) AS total,\<newline>'', ''SUM(y) AS total_sum,\<newline>'']"
    by (simp add: metric_definitions_def ex_dup_cfg_def ex_cfg_def ex_total_def
        ex_total_sum_def)
  obtain dims where gd: "get_dimensions ex_dup_cfg ex_ext ex_view = Inr dims"
    by (simp add: get_dimensions_def ex_dup_cfg_def ex_cfg_def ex_view_def)
  from ex_dup_get_sets gd obtain ms where gm: "get_measures ex_dup_cfg ex_view dims = Inr ms"
    by (auto simp: get_sets_def bind_Inr_iff)
  have "to_lookml ex_dup_cfg ex_ext ex_view () None =
     Inr (Dict [(''views'', List [Dict
       [(''name'', Str ''metric_definitions_ds1''),
        (''derived_table'', Dict [(''sql'', Str
           (derived_table_sql ex_dsd
              [''SUM(x) AS total,\<newline>'', ''SUM(y) AS total_sum,\<newline>''] []
              ''mozdata.{dataset}.ds1'' []))]),
        (''dimensions'', List dims),
        (''dimension_groups'', List get_dimension_groups),
        (''measures'', List ms),
        (''sets'', List [Dict [(''name'', Str ''metrics''),
              (''fields'', List [Str ''total'', Str ''total_sum'', Str ''total_sum''])]]),
        (''parameters'', List get_parameters)]])])"
    unfolding to_lookml_def Let_def
    by (simp add: ns nm ex_data_source_name gpd gdsd md ex_dup_get_sets gd fmt base_view_Nil tb
        merge_base_view_None gm)
  then show ?thesis by (simp add: view_list_def views0_item_views)
qed

lemma ex_merge_base_view_st:
  "snd (merge_base_view_st
     [''client_id'', ''submission_date'', ''submission'', ''first_run'', ''hours'', ''days'']
     (Some ex_base_lkml) [ex_client_id_dimension, ex_hours_dimension, ex_days_dimension]
     get_dimension_groups)
   = Some ex_base_lkml_after"
  unfolding merge_base_view_st_def Let_def
  by (simp add: ex_base_lkml_def ex_base_lkml_after_def views0_item_def put_views0_item_def
      with_items_def bind_def split: prod.splits)

lemma ex_to_lookml_st_base:
  "snd (to_lookml_st ex_cfg ex_ext ex_view_base () None)
     = resolver_after ex_ext ex_view_base () (Some ex_base_lkml_after)"
proof -
  have ns: "namespace ex_view_base = ''ns''"
    and nm: "name ex_view_base = ''metric_definitions_ds1''"
    by (simp_all add: ex_view_base_def)
  have gpd: "get_platform_definitions ex_cfg ''ns'' = Some \<lparr>metrics_definitions = ex_metrics\<rparr>"
    and gdsd: "get_data_source_definition ex_cfg ''ds1'' ''ns'' = Some ex_dsd"
    and fmt: "format_dataset ex_ext (get_data_source_sql ex_cfg ''ds1'' ''ns'') ''ns''
                = Inr ''mozdata.{dataset}.ds1''"
    by (simp_all add: ex_cfg_def ex_ext_def)
  obtain m where m: "merge_base_view_st
     [''client_id'', ''submission_date'', ''submission'', ''first_run'', ''hours'', ''days'']
     (Some ex_base_lkml) [ex_client_id_dimension, ex_hours_dimension, ex_days_dimension]
     get_dimension_groups = (m, Some ex_base_lkml_after)"
    using ex_merge_base_view_st
    by (cases "merge_base_view_st
     [''client_id'', ''submission_date'', ''submission'', ''first_run'', ''hours'', ''days'']
     (Some ex_base_lkml) [ex_client_id_dimension, ex_hours_dimension, ex_days_dimension]
     get_dimension_groups") simp
  show ?thesis
    unfolding to_lookml_st_def Let_def
    by (simp add: ns nm ex_data_source_name gpd gdsd ex_metric_definitions
      ex_get_dimensions_base ex_get_dimensions fmt ex_ignore_base_fields
      ex_base_view m)
qed

lemma ex_resolver_after:
  "resolver_after ex_ext ex_view_base () (Some ex_base_lkml_after) ''ns'' ''base_view''
     [[(''table'', ''mozdata.base.clients''), (''channel'', ''release'')]] () None
   = Inr ex_base_lkml_after"
  by (simp add: resolver_after_def ex_view_base_def)

section \<open>The claims\<close>

text \<open>
  Claim C1. In a generated view the metric slugs of the SQL columns, of the metric
  dimensions (those after \<^verbatim>\<open>client_id\<close> and before the base fields) and of the
  exclusion list for base fields are the same list: the slugs of the metrics whose select
  expression is non-empty, whose data source is the one derived from the view name and
  whose type is not \<^verbatim>\<open>histogram\<close>. The select list of the SQL text is one column
  \<^verbatim>\<open><rendered select expression> AS <slug>,\<close> for each of these slugs, in this order, then
  the names of the base fields of the view, the client id and the analysis basis.
\<close>

theorem filter_sites_agree:
  assumes "to_lookml cfg ext self bq_client v1_name = Inr out" and "out \<noteq> Dict []"
  shows "\<exists>nsd dsd rendered base_names rest cid metric_dims base_dims.
      get_platform_definitions cfg (namespace self) = Some nsd
    \<and> get_data_source_definition cfg (data_source_name_of (name self)) (namespace self)
        = Some dsd
    \<and> length rendered = length (filtered_slugs nsd (data_source_name_of (name self)))
    \<and> map (\<lambda>(slug, m). case select_expression m of
                             None \<Rightarrow> Inl TypeError
                           | Some e \<Rightarrow> render cfg e)
          (filtered_metrics nsd (data_source_name_of (name self)))
        = map Inr rendered
    \<and> views0_item out ''derived_table'' = Inr (Dict [(''sql'', Str
         (''\<newline>            SELECT\<newline>                ''
          @ concat (map2 (\<lambda>r s. r @ '' AS '' @ s @ '',\<newline>'') rendered
                      (filtered_slugs nsd (data_source_name_of (name self))))
          @ ''\<newline>                '' @ join ''base.'' (map (\<lambda>n. n @ '',\<newline>'') base_names)
          @ ''\<newline>                m.'' @ or_default (client_id_column dsd) ''client_id''
          @ '' AS client_id,\<newline>                ''
          @ analysis_basis_sql (or_default (submission_date_column dsd) ''submission_date'')
          @ ''\<newline>            FROM\<newline>'' @ rest))])
    \<and> views0_item out ''dimensions'' = Inr (List (cid # metric_dims @ base_dims))
    \<and> getitem cid ''name'' = Inr (Str ''client_id'')
    \<and> map (\<lambda>d. getitem d ''name'') metric_dims
        = map (\<lambda>s. Inr (Str s)) (filtered_slugs nsd (data_source_name_of (name self)))
    \<and> map (\<lambda>d. get_str d ''name'') base_dims = map Inr base_names
    \<and> (tables self = [] \<longrightarrow> base_dims = [])
    \<and> (\<forall>d \<in> set base_dims. \<exists>v. getitem d ''name'' = Inr v
          \<and> v \<notin> set (map Str (ignore_base_fields nsd (data_source_name_of (name self)))))
    \<and> ignore_base_fields nsd (data_source_name_of (name self))
        = [''client_id'', ''submission_date'', ''submission'', ''first_run'']
          @ filtered_slugs nsd (data_source_name_of (name self))"
proof -
  let ?dsn = "data_source_name_of (name self)"
  from to_lookml_cases[OF assms(1)] assms(2)
  obtain nsd dsd cols bfields base_lkml join_sql source_sql dims dims' groups' ms sets
    where nsd: "get_platform_definitions cfg (namespace self) = Some nsd"
      and dsd: "get_data_source_definition cfg ?dsn (namespace self) = Some dsd"
      and cols: "metric_definitions cfg nsd ?dsn = Inr cols"
      and bv: "base_view ext self bq_client dsd (ignore_base_fields nsd ?dsn)
                 = Inr (bfields, base_lkml, join_sql)"
      and dims: "get_dimensions cfg ext self = Inr dims"
      and merge: "merge_base_view (ignore_base_fields nsd ?dsn) base_lkml dims
                    get_dimension_groups = Inr (dims', groups')"
      and out: "out = Dict [(''views'', List [Dict
           [(''name'', Str (name self)),
            (''derived_table'', Dict [(''sql'', Str
               (derived_table_sql dsd cols bfields source_sql join_sql))]),
            (''dimensions'', List dims'),
            (''dimension_groups'', List groups'),
            (''measures'', List ms),
            (''sets'', List sets),
            (''parameters'', List get_parameters)]])]"
    by blast
  from metric_definitions_eq[OF cols] obtain rendered where
    rendered: "length rendered = length (filtered_slugs nsd ?dsn)"
      "map (\<lambda>(slug, m). case select_expression m of
                             None \<Rightarrow> Inl TypeError
                           | Some e \<Rightarrow> render cfg e) (filtered_metrics nsd ?dsn)
        = map Inr rendered"
      "cols = map2 (\<lambda>r s. r @ '' AS '' @ s @ '',\<newline>'') rendered (filtered_slugs nsd ?dsn)"
    by blast
  from get_dimensions_eq[OF nsd, of ext] dims obtain cid mdims where
    mdims: "dims = cid # mdims" "getitem cid ''name'' = Inr (Str ''client_id'')"
      "map (\<lambda>d. getitem d ''name'') mdims = map (\<lambda>s. Inr (Str s)) (filtered_slugs nsd ?dsn)"
    by auto
  from to_lookml_base_names[OF bv merge] obtain base_dims base_names where
    base: "dims' = dims @ base_dims"
      "map (\<lambda>d. get_str d ''name'') base_dims = map Inr base_names"
      "bfields = map (\<lambda>n. n @ '',\<newline>'') base_names"
      "tables self = [] \<longrightarrow> base_dims = []"
      "\<forall>d \<in> set base_dims. \<exists>v. getitem d ''name'' = Inr v
          \<and> v \<notin> set (map Str (ignore_base_fields nsd ?dsn))"
    by blast
  from derived_table_sql_select[of dsd cols bfields source_sql join_sql] obtain rest where
    rest: "derived_table_sql dsd cols bfields source_sql join_sql
             = ''\<newline>            SELECT\<newline>                '' @ concat cols
          @ ''\<newline>                '' @ join ''base.'' bfields
          @ ''\<newline>                m.'' @ or_default (client_id_column dsd) ''client_id''
          @ '' AS client_id,\<newline>                ''
          @ analysis_basis_sql (or_default (submission_date_column dsd) ''submission_date'')
          @ ''\<newline>            FROM\<newline>'' @ rest"
    by blast
  have sql: "views0_item out ''derived_table'' = Inr (Dict [(''sql'', Str
         (''\<newline>            SELECT\<newline>                ''
          @ concat (map2 (\<lambda>r s. r @ '' AS '' @ s @ '',\<newline>'') rendered
                      (filtered_slugs nsd ?dsn))
          @ ''\<newline>                '' @ join ''base.'' (map (\<lambda>n. n @ '',\<newline>'') base_names)
          @ ''\<newline>                m.'' @ or_default (client_id_column dsd) ''client_id''
          @ '' AS client_id,\<newline>                ''
          @ analysis_basis_sql (or_default (submission_date_column dsd) ''submission_date'')
          @ ''\<newline>            FROM\<newline>'' @ rest))])"
  proof -
    have "views0_item out ''derived_table'' = Inr (Dict [(''sql'', Str
            (derived_table_sql dsd cols bfields source_sql join_sql))])"
      unfolding out views0_item_views by simp
    then show ?thesis unfolding rest unfolding rendered(3) base(3) .
  qed
  have dm: "views0_item out ''dimensions'' = Inr (List (cid # mdims @ base_dims))"
    unfolding out views0_item_views using base(1) mdims(1) by simp
  show ?thesis
    by (intro exI[of _ nsd] exI[of _ dsd] exI[of _ rendered] exI[of _ base_names]
        exI[of _ rest] exI[of _ cid] exI[of _ mdims] exI[of _ base_dims] conjI nsd dsd
        rendered(1,2) sql dm mdims(2,3) base(2,4,5) ignore_base_fields_eq)
qed

theorem filter_sites_agree_witness:
  "\<exists>out. to_lookml ex_cfg ex_ext ex_view_base () None = Inr out \<and> out \<noteq> Dict []
   \<and> filtered_slugs \<lparr>metrics_definitions = ex_metrics\<rparr>
        (data_source_name_of (name ex_view_base)) = [''hours'', ''days'']
   \<and> (\<exists>nsd dsd rendered base_names rest cid metric_dims base_dims.
      get_platform_definitions ex_cfg (namespace ex_view_base) = Some nsd
    \<and> get_data_source_definition ex_cfg (data_source_name_of (name ex_view_base))
          (namespace ex_view_base)
        = Some dsd
    \<and> length rendered = length (filtered_slugs nsd (data_source_name_of (name ex_view_base)))
    \<and> map (\<lambda>(slug, m). case select_expression m of
                             None \<Rightarrow> Inl TypeError
                           | Some e \<Rightarrow> render ex_cfg e)
          (filtered_metrics nsd (data_source_name_of (name ex_view_base)))
        = map Inr rendered
    \<and> views0_item out ''derived_table'' = Inr (Dict [(''sql'', Str
         (''\<newline>            SELECT\<newline>                ''
          @ concat (map2 (\<lambda>r s. r @ '' AS '' @ s @ '',\<newline>'') rendered
                      (filtered_slugs nsd (data_source_name_of (name ex_view_base))))
          @ ''\<newline>                '' @ join ''base.'' (map (\<lambda>n. n @ '',\<newline>'') base_names)
          @ ''\<newline>                m.'' @ or_default (client_id_column dsd) ''client_id''
          @ '' AS client_id,\<newline>                ''
          @ analysis_basis_sql (or_default (submission_date_column dsd) ''submission_date'')
          @ ''\<newline>            FROM\<newline>'' @ rest))])
    \<and> views0_item out ''dimensions'' = Inr (List (cid # metric_dims @ base_dims))
    \<and> getitem cid ''name'' = Inr (Str ''client_id'')
    \<and> map (\<lambda>d. getitem d ''name'') metric_dims
        = map (\<lambda>s. Inr (Str s)) (filtered_slugs nsd (data_source_name_of (name ex_view_base)))
    \<and> map (\<lambda>d. get_str d ''name'') base_dims = map Inr base_names
    \<and> (tables ex_view_base = [] \<longrightarrow> base_dims = [])
    \<and> (\<forall>d \<in> set base_dims. \<exists>v. getitem d ''name'' = Inr v
          \<and> v \<notin> set (map Str (ignore_base_fields nsd (data_source_name_of (name ex_view_base)))))
    \<and> ignore_base_fields nsd (data_source_name_of (name ex_view_base))
        = [''client_id'', ''submission_date'', ''submission'', ''first_run'']
          @ filtered_slugs nsd (data_source_name_of (name ex_view_base)))"
proof -
  obtain out where o: "to_lookml ex_cfg ex_ext ex_view_base () None = Inr out" "out \<noteq> Dict []"
    using ex_to_lookml_base by simp
  have s: "filtered_slugs \<lparr>metrics_definitions = ex_metrics\<rparr>
        (data_source_name_of (name ex_view_base)) = [''hours'', ''days'']"
    by (simp add: filtered_slugs_def ex_view_base_def ex_data_source_name ex_filtered_metrics)
  show ?thesis
    by (rule exI[of _ out]) (intro conjI o s filter_sites_agree[OF o])
qed

text \<open>
  Claim C2. When the registry has no platform definitions for the namespace, or no
  data-source definition for the identifier derived from the view name, or no metric passes
  the filter, \<^verbatim>\<open>to_lookml\<close> returns the empty record \<^verbatim>\<open>{}\<close> and does not raise.
\<close>

theorem to_lookml_empty_result:
  assumes "get_platform_definitions cfg (namespace self) = None
     \<or> get_data_source_definition cfg (data_source_name_of (name self)) (namespace self) = None
     \<or> (\<exists>nsd. get_platform_definitions cfg (namespace self) = Some nsd
            \<and> filtered_slugs nsd (data_source_name_of (name self)) = [])"
  shows "to_lookml cfg ext self bq_client v1_name = Inr (Dict [])"
proof (cases "get_platform_definitions cfg (namespace self)")
  case None
  then show ?thesis by (simp add: to_lookml_def)
next
  case (Some nsd)
  show ?thesis
  proof (cases "get_data_source_definition cfg (data_source_name_of (name self)) (namespace self)")
    case None
    with Some show ?thesis by (simp add: to_lookml_def)
  next
    case (Some dsd)
    with \<open>get_platform_definitions cfg (namespace self) = Some nsd\<close> assms
    have "filtered_slugs nsd (data_source_name_of (name self)) = []" by auto
    then have "metric_definitions cfg nsd (data_source_name_of (name self)) = Inr []"
      by (rule metric_definitions_empty)
    with Some \<open>get_platform_definitions cfg (namespace self) = Some nsd\<close>
    show ?thesis by (simp add: to_lookml_def)
  qed
qed

theorem to_lookml_empty_result_witness:
  "to_lookml ex_cfg ex_ext \<lparr>namespace = ''other'', name = ''metric_definitions_ds1'', tables = []\<rparr>
     () None = Inr (Dict [])
   \<and> to_lookml ex_cfg ex_ext \<lparr>namespace = ''ns'', name = ''metric_definitions_ds2'', tables = []\<rparr>
     () None = Inr (Dict [])
   \<and> to_lookml ex_cfg ex_ext \<lparr>namespace = ''ns'', name = ''metric_definitions_ds3'', tables = []\<rparr>
     () None = Inr (Dict [])"
proof -
  have a: "get_platform_definitions ex_cfg ''other'' = None"
    by (simp add: ex_cfg_def)
  have b: "get_data_source_definition ex_cfg (data_source_name_of ''metric_definitions_ds2'') ''ns''
             = None"
    by (simp add: ex_cfg_def data_source_name_of_def)
  have c: "get_platform_definitions ex_cfg ''ns'' = Some \<lparr>metrics_definitions = ex_metrics\<rparr>
           \<and> filtered_slugs \<lparr>metrics_definitions = ex_metrics\<rparr>
                (data_source_name_of ''metric_definitions_ds3'') = []"
    by (simp add: ex_cfg_def data_source_name_of_def filtered_slugs_def filtered_metrics_def
        applicable_def ex_metrics_def ex_hours_def ex_days_def ex_histogram_def ex_other_def)
  show ?thesis
    using to_lookml_empty_result[of ex_cfg
            "\<lparr>namespace = ''other'', name = ''metric_definitions_ds1'', tables = []\<rparr>"
            ex_ext "()" None]
          to_lookml_empty_result[of ex_cfg
            "\<lparr>namespace = ''ns'', name = ''metric_definitions_ds2'', tables = []\<rparr>"
            ex_ext "()" None]
          to_lookml_empty_result[of ex_cfg
            "\<lparr>namespace = ''ns'', name = ''metric_definitions_ds3'', tables = []\<rparr>"
            ex_ext "()" None]
          a b c
    by simp
qed

text \<open>
  Claim C3, evaluated on the sample view with an empty table list and a data source whose
  \<^verbatim>\<open>submission_date_column\<close> is \<^verbatim>\<open>activity_date\<close>. The date filter is introduced with
  \<^verbatim>\<open>WHERE\<close>, and it bounds \<^verbatim>\<open>m.submission_date\<close>: line 164 of the source writes that column
  name as fixed text, while every other reference to the date column of \<^verbatim>\<open>m\<close>
  (\<^verbatim>\<open>m.activity_date\<close> below) and the two placeholders of the filter itself use the
  override.
\<close>

theorem date_filter_ignores_override:
  "get_data_source_definition ex_cfg ''ds1'' ''ns''
     = Some \<lparr>submission_date_column = Some ''activity_date'', client_id_column = None\<rparr>
   \<and> tables ex_view = []
   \<and> to_lookml ex_cfg ex_ext ex_view () None =
     Inr (Dict [(''views'', List [Dict
       [(''name'', Str ''metric_definitions_ds1''),
        (''derived_table'', Dict [(''sql'', Str (
           ''\<newline>'' @
           ''            SELECT\<newline>'' @
           ''                SUM(hours) AS hours,\<newline>'' @
           ''COUNT(*) AS days,\<newline>'' @
           ''\<newline>'' @
           ''                \<newline>'' @
           ''                m.client_id AS client_id,\<newline>'' @
           ''                {% if aggregate_metrics_by._parameter_value == 'day' %}\<newline>'' @
           ''                m.activity_date AS analysis_basis\<newline>'' @
           ''                {% elsif aggregate_metrics_by._parameter_value == 'week'  %}\<newline>'' @
           ''                (FORMAT_DATE(\<newline>'' @
           ''                    '%F',\<newline>'' @
           ''                    DATE_TRUNC(m.activity_date,\<newline>'' @
           ''                    WEEK(MONDAY)))\<newline>'' @
           ''                ) AS analysis_basis\<newline>'' @
           ''                {% elsif aggregate_metrics_by._parameter_value == 'month'  %}\<newline>'' @
           ''                (FORMAT_DATE(\<newline>'' @
           ''                    '%Y-%m',\<newline>'' @
           ''                    m.activity_date)\<newline>'' @
           ''                ) AS analysis_basis\<newline>'' @
           ''                {% elsif aggregate_metrics_by._parameter_value == 'quarter'  %}\<newline>'' @
           ''                (FORMAT_DATE(\<newline>'' @
           ''                    '%Y-%m',\<newline>'' @
           ''                    DATE_TRUNC(m.activity_date,\<newline>'' @
           ''                    QUARTER))\<newline>'' @
           ''                ) AS analysis_basis\<newline>'' @
           ''                {% elsif aggregate_metrics_by._parameter_value == 'year'  %}\<newline>'' @
           ''                (EXTRACT(\<newline>'' @
           ''                    YEAR FROM m.activity_date)\<newline>'' @
           ''                ) AS analysis_basis\<newline>'' @
           ''                {% else %}\<newline>'' @
           ''                NULL as analysis_basis\<newline>'' @
           ''                {% endif %}\<newline>'' @
           ''            FROM\<newline>'' @
           ''                mozdata.{dataset}.ds1\<newline>'' @
           ''            AS m\<newline>'' @
           ''            \<newline>'' @
           ''            WHERE m.submission_date BETWEEN\<newline>'' @
           ''                SAFE_CAST(\<newline>'' @
           ''                    {% date_start activity_date %} AS DATE\<newline>'' @
           ''                ) AND\<newline>'' @
           ''                SAFE_CAST(\<newline>'' @
           ''                    {% date_end activity_date %} AS DATE\<newline>'' @
           ''                )\<newline>'' @
           ''            GROUP BY\<newline>'' @
           ''                \<newline>'' @
           ''                client_id,\<newline>'' @
           ''                analysis_basis\<newline>'' @
           ''            ''))]),
        (''dimensions'', List [ex_client_id_dimension, ex_hours_dimension, ex_days_dimension]),
        (''dimension_groups'', List get_dimension_groups),
        (''measures'', List ex_days_measures),
        (''sets'', List ex_sets),
        (''parameters'', List get_parameters)]])])"
  unfolding ex_to_lookml ex_derived_table_sql
  by (simp add: ex_cfg_def ex_dsd_def ex_view_def)

text \<open>
  Claim C4. With a base table, the output dimensions are the metric-derived dimensions
  followed by the base view's dimensions whose name is not \<^verbatim>\<open>client_id\<close>,
  \<^verbatim>\<open>submission_date\<close>, \<^verbatim>\<open>submission\<close>, \<^verbatim>\<open>first_run\<close> or a filtered metric slug, in the base
  view's order, each with \<^verbatim>\<open>group_label\<close> set to \<^verbatim>\<open>Base Fields\<close>; the excluded ones are
  not appended.
\<close>

theorem base_fields_appended:
  assumes "to_lookml cfg ext self bq_client v1_name = Inr out" and "out \<noteq> Dict []"
    and "tables self = t # ts"
  shows "\<exists>nsd base_table base_lkml base_dims metric_dims.
      get_platform_definitions cfg (namespace self) = Some nsd
    \<and> map_of t ''table'' = Some base_table
    \<and> table_view_to_lookml ext (namespace self) ''base_view''
         [[(''table'', base_table), (''channel'', ''release'')]] bq_client None = Inr base_lkml
    \<and> views0_item base_lkml ''dimensions'' = Inr base_dims
    \<and> get_dimensions cfg ext self = Inr metric_dims
    \<and> views0_item out ''dimensions'' = Inr (List (metric_dims @
         map with_group_label
           (filter (\<lambda>d. \<not> excluded_base_field nsd (data_source_name_of (name self)) d)
              (iter base_dims))))
    \<and> (\<forall>d \<in> set (iter base_dims). \<exists>v. getitem d ''name'' = Inr v
          \<and> getitem (with_group_label d) ''name'' = Inr v
          \<and> getitem (with_group_label d) ''group_label'' = Inr (Str ''Base Fields''))"
proof -
  let ?dsn = "data_source_name_of (name self)"
  let ?ignore = "ignore_base_fields"
  from to_lookml_cases[OF assms(1)] assms(2)
  obtain nsd dsd cols bfields base_lkml join_sql source_sql dims dims' groups' measures sets
    where nsd: "get_platform_definitions cfg (namespace self) = Some nsd"
      and bv: "base_view ext self bq_client dsd (ignore_base_fields nsd ?dsn)
                 = Inr (bfields, base_lkml, join_sql)"
      and dims: "get_dimensions cfg ext self = Inr dims"
      and merge: "merge_base_view (ignore_base_fields nsd ?dsn) base_lkml dims
                    get_dimension_groups = Inr (dims', groups')"
      and out: "out = Dict [(''views'', List [Dict
           [(''name'', Str (name self)),
            (''derived_table'', Dict [(''sql'', Str
               (derived_table_sql dsd cols bfields source_sql join_sql))]),
            (''dimensions'', List dims'),
            (''dimension_groups'', List groups'),
            (''measures'', List measures),
            (''sets'', List sets),
            (''parameters'', List get_parameters)]])]"
    by blast
  from base_view_Cons[OF bv assms(3)] obtain base_table lkml bd where
    tbl: "map_of t ''table'' = Some base_table"
    and tv: "table_view_to_lookml ext (namespace self) ''base_view''
         [[(''table'', base_table), (''channel'', ''release'')]] bq_client None = Inr lkml"
    and bd: "views0_item lkml ''dimensions'' = Inr bd"
    and bf: "base_view_fields_of (ignore_base_fields nsd ?dsn) bd = Inr bfields"
    and lk: "base_lkml = Some lkml"
    by blast
  have named: "\<exists>v. getitem d ''name'' = Inr v" if "d \<in> set (iter bd)" for d
    using base_view_fields_named[OF bf that] .
  have "filter (not_ignored (ignore_base_fields nsd ?dsn)) (iter bd)
        = filter (\<lambda>d. \<not> excluded_base_field nsd ?dsn d) (iter bd)"
    by (rule filter_cong) (auto dest!: named simp: not_ignored_iff)
  with merge_base_view_eq[OF merge[unfolded lk] bd]
  have "dims' = dims @ map with_group_label
           (filter (\<lambda>d. \<not> excluded_base_field nsd ?dsn d) (iter bd))"
    by simp
  then have dm: "views0_item out ''dimensions'' = Inr (List (dims @ map with_group_label
           (filter (\<lambda>d. \<not> excluded_base_field nsd ?dsn d) (iter bd))))"
    unfolding out views0_item_views by simp
  have "\<forall>d \<in> set (iter bd). \<exists>v. getitem d ''name'' = Inr v
          \<and> getitem (with_group_label d) ''name'' = Inr v
          \<and> getitem (with_group_label d) ''group_label'' = Inr (Str ''Base Fields'')"
    using named getitem_with_group_label_name getitem_with_group_label by blast
  with nsd tbl tv bd dims dm show ?thesis by blast
qed

theorem base_fields_appended_witness:
  "\<exists>out t ts. to_lookml ex_cfg ex_ext ex_view_base () None = Inr out \<and> out \<noteq> Dict []
     \<and> tables ex_view_base = t # ts
     \<and> (\<exists>nsd base_table base_lkml base_dims metric_dims.
      get_platform_definitions ex_cfg (namespace ex_view_base) = Some nsd
    \<and> map_of t ''table'' = Some base_table
    \<and> table_view_to_lookml ex_ext (namespace ex_view_base) ''base_view''
         [[(''table'', base_table), (''channel'', ''release'')]] () None = Inr base_lkml
    \<and> views0_item base_lkml ''dimensions'' = Inr base_dims
    \<and> get_dimensions ex_cfg ex_ext ex_view_base = Inr metric_dims
    \<and> views0_item out ''dimensions'' = Inr (List (metric_dims @
         map with_group_label
           (filter (\<lambda>d. \<not> excluded_base_field nsd (data_source_name_of (name ex_view_base)) d)
              (iter base_dims))))
    \<and> (\<forall>d \<in> set (iter base_dims). \<exists>v. getitem d ''name'' = Inr v
          \<and> getitem (with_group_label d) ''name'' = Inr v
          \<and> getitem (with_group_label d) ''group_label'' = Inr (Str ''Base Fields'')))"
proof -
  have t: "tables ex_view_base = [(''table'', ''mozdata.base.clients''), (''channel'', ''beta'')]
             # [[(''table'', ''mozdata.base.other''), (''channel'', ''nightly'')]]"
    by (simp add: ex_view_base_def)
  show ?thesis
    using base_fields_appended[OF ex_to_lookml_base _ t] ex_to_lookml_base t by blast
qed

text \<open>
  Claim C5 as stated fails. The metric \<^verbatim>\<open>days\<close> declares the statistics \<^verbatim>\<open>sum\<close>,
  \<^verbatim>\<open>median\<close> and \<^verbatim>\<open>client_count\<close>; for a dimension named \<^verbatim>\<open>days\<close> that has no label,
  \<^verbatim>\<open>get_measures\<close> emits no measure: it raises KeyError, since the label of a measure is
  built from \<^verbatim>\<open>dimension['label']\<close>.
\<close>

theorem get_measures_label_counterexample:
  "declared_statistics ex_cfg (namespace ex_view) ''days'' = [''sum'', ''median'', ''client_count'']
   \<and> get_measures ex_cfg ex_view [Dict [(''name'', Str ''days'')]] = Inl (KeyError ''label'')"
  by (simp add: declared_statistics_def get_measures_def get_str_def ex_cfg_def ex_view_def
      ex_metrics_def ex_hours_def ex_days_def)

text \<open>
  Claim C5, amended. For dimensions that have a name, and a label wherever the metric of
  that name declares a \<^verbatim>\<open>sum\<close> or \<^verbatim>\<open>client_count\<close> statistic, \<^verbatim>\<open>get_measures\<close> returns, in
  the order of the dimensions, one measure for each statistic of the dimension's metric
  whose slug is \<^verbatim>\<open>sum\<close> (named \<^verbatim>\<open><slug>_sum\<close>, of type \<^verbatim>\<open>sum\<close>) or \<^verbatim>\<open>client_count\<close>
  (named \<^verbatim>\<open><slug>_client_count\<close>, of type \<^verbatim>\<open>count_distinct\<close>); any other statistic gives
  no measure and no error.
\<close>

theorem get_measures_per_statistic:
  assumes "map (\<lambda>d. get_str d ''name'') dimensions = map Inr names"
    and "\<forall>d \<in> set dimensions. labelled_where_needed cfg (namespace self) d"
  shows "\<exists>measures. get_measures cfg self dimensions = Inr measures
     \<and> map name_and_type measures
         = map (\<lambda>(n, t). (Inr n, Inr t))
             (concat (map (expected_measures cfg (namespace self)) names))"
  using assms by (rule get_measures_eq)

theorem get_measures_per_statistic_witness:
  "map (\<lambda>d. get_str d ''name'')
       [ex_client_id_dimension, ex_days_dimension, Dict [(''name'', Str ''p50'')]]
     = map Inr [''client_id'', ''days'', ''p50'']
   \<and> declared_statistics ex_p50_cfg (namespace ex_view) ''days''
       = [''sum'', ''median'', ''client_count'']
   \<and> declared_statistics ex_p50_cfg (namespace ex_view) ''p50'' = [''median'']
   \<and> get_str (Dict [(''name'', Str ''p50'')]) ''label'' = Inl (KeyError ''label'')
   \<and> (\<exists>measures.
        get_measures ex_p50_cfg ex_view
          [ex_client_id_dimension, ex_days_dimension, Dict [(''name'', Str ''p50'')]]
          = Inr measures
      \<and> map name_and_type measures
          = [(Inr ''days_sum'', Inr ''sum''), (Inr ''days_client_count'', Inr ''count_distinct'')])"
proof -
  let ?dims = "[ex_client_id_dimension, ex_days_dimension, Dict [(''name'', Str ''p50'')]]"
  have names: "map (\<lambda>d. get_str d ''name'') ?dims = map Inr [''client_id'', ''days'', ''p50'']"
    by (simp add: get_str_def ex_client_id_dimension_def ex_days_dimension_def)
  have d1: "declared_statistics ex_p50_cfg (namespace ex_view) ''days''
       = [''sum'', ''median'', ''client_count'']"
    and d2: "declared_statistics ex_p50_cfg (namespace ex_view) ''p50'' = [''median'']"
    and d3: "declared_statistics ex_p50_cfg (namespace ex_view) ''client_id'' = []"
    by (simp_all add: declared_statistics_def ex_p50_cfg_def ex_cfg_def ex_view_def
        ex_metrics_def ex_hours_def ex_days_def ex_p50_def)
  have e: "expected_measures ex_p50_cfg (namespace ex_view) ''client_id'' = []"
    and e2: "expected_measures ex_p50_cfg (namespace ex_view) ''p50'' = []"
    and e3: "expected_measures ex_p50_cfg (namespace ex_view) ''days''
       = [(''days_sum'', ''sum''), (''days_client_count'', ''count_distinct'')]"
    by (simp_all add: expected_measures_def d1 d2 d3 recognized_statistic_def measure_type_def)
  have nolabel: "get_str (Dict [(''name'', Str ''p50'')]) ''label'' = Inl (KeyError ''label'')"
    by (simp add: get_str_def)
  have labels: "\<forall>d \<in> set ?dims. labelled_where_needed ex_p50_cfg (namespace ex_view) d"
    by (simp add: labelled_where_needed_def e e2 e3 get_str_def ex_client_id_dimension_def
        ex_days_dimension_def)
  from get_measures_per_statistic[OF names labels]
  have "\<exists>measures. get_measures ex_p50_cfg ex_view ?dims = Inr measures
      \<and> map name_and_type measures
          = [(Inr ''days_sum'', Inr ''sum''), (Inr ''days_client_count'', Inr ''count_distinct'')]"
    by (simp add: e e2 e3)
  with names d1 d2 nolabel show ?thesis by (intro conjI)
qed

text \<open>
  Claim C6 as stated fails. On the sample view with a base table the set lists the
  metric dimensions and their measures only, not the base fields \<^verbatim>\<open>country\<close> and \<^verbatim>\<open>os\<close>
  nor the measure \<^verbatim>\<open>os_sum\<close> of the view. And with the metrics \<^verbatim>\<open>total\<close> (statistic
  \<^verbatim>\<open>sum\<close>) and \<^verbatim>\<open>total_sum\<close> the list names \<^verbatim>\<open>total_sum\<close> twice.
\<close>

theorem metrics_set_counterexample:
  "view_list (to_lookml ex_cfg ex_ext ex_view_base () None) ''sets''
     \<noteq> [Dict [(''name'', Str ''metrics''),
              (''fields'', List (metrics_set_fields
                 (view_list (to_lookml ex_cfg ex_ext ex_view_base () None) ''dimensions'')
                 (view_list (to_lookml ex_cfg ex_ext ex_view_base () None) ''measures'')))]]
   \<and> view_list (to_lookml ex_cfg ex_ext ex_view_base () None) ''sets''
     = [Dict [(''name'', Str ''metrics''),
              (''fields'', List [Str ''hours'', Str ''days'', Str ''days_sum'',
                                 Str ''days_client_count''])]]
   \<and> metrics_set_fields
         (view_list (to_lookml ex_cfg ex_ext ex_view_base () None) ''dimensions'')
         (view_list (to_lookml ex_cfg ex_ext ex_view_base () None) ''measures'')
     = [Str ''hours'', Str ''days'', Str ''country'', Str ''os'', Str ''days_sum'',
        Str ''days_client_count'', Str ''os_sum'']
   \<and> view_list (to_lookml ex_dup_cfg ex_ext ex_view () None) ''sets''
     = [Dict [(''name'', Str ''metrics''),
              (''fields'', List [Str ''total'', Str ''total_sum'', Str ''total_sum''])]]
   \<and> \<not> distinct [Str ''total'', Str ''total_sum'', Str ''total_sum'']"
proof -
  have a: "view_list (to_lookml ex_cfg ex_ext ex_view_base () None) ''sets''
     = [Dict [(''name'', Str ''metrics''),
              (''fields'', List [Str ''hours'', Str ''days'', Str ''days_sum'',
                                 Str ''days_client_count''])]]"
    by (simp add: ex_to_lookml_base view_list_def views0_item_views ex_sets_def)
  have d: "view_list (to_lookml ex_cfg ex_ext ex_view_base () None) ''dimensions''
     = [ex_client_id_dimension, ex_hours_dimension, ex_days_dimension,
        ex_country_dimension, ex_os_dimension]"
    by (simp add: ex_to_lookml_base view_list_def views0_item_views)
  have m: "view_list (to_lookml ex_cfg ex_ext ex_view_base () None) ''measures''
     = ex_days_measures @ [ex_os_measure]"
    by (simp add: ex_to_lookml_base view_list_def views0_item_views)
  have b: "metrics_set_fields
         (view_list (to_lookml ex_cfg ex_ext ex_view_base () None) ''dimensions'')
         (view_list (to_lookml ex_cfg ex_ext ex_view_base () None) ''measures'')
     = [Str ''hours'', Str ''days'', Str ''country'', Str ''os'', Str ''days_sum'',
        Str ''days_client_count'', Str ''os_sum'']"
    unfolding d m
    by (simp add: metrics_set_fields_def field_names_def ex_client_id_dimension_def
        ex_hours_dimension_def ex_days_dimension_def ex_country_dimension_def
        ex_os_dimension_def ex_days_measures_def ex_os_measure_def)
  have c: "view_list (to_lookml ex_cfg ex_ext ex_view_base () None) ''sets''
     \<noteq> [Dict [(''name'', Str ''metrics''),
              (''fields'', List (metrics_set_fields
                 (view_list (to_lookml ex_cfg ex_ext ex_view_base () None) ''dimensions'')
                 (view_list (to_lookml ex_cfg ex_ext ex_view_base () None) ''measures'')))]]"
    unfolding a b by simp
  have e: "\<not> distinct [Str ''total'', Str ''total_sum'', Str ''total_sum'']"
    by simp
  from c a b ex_dup_to_lookml_sets e show ?thesis by (intro conjI)
qed

text \<open>
  Claim C6, amended. A generated view has exactly one set, \<^verbatim>\<open>metrics\<close>; its fields are the
  names of the dimensions that \<^verbatim>\<open>get_dimensions\<close> returns except \<^verbatim>\<open>client_id\<close>, followed by
  the names of the measures that \<^verbatim>\<open>get_measures\<close> returns for those dimensions: the
  filtered metric slugs other than \<^verbatim>\<open>client_id\<close>, then \<^verbatim>\<open><slug>_<statistic>\<close> for each
  \<^verbatim>\<open>sum\<close> or \<^verbatim>\<open>client_count\<close> statistic declared for \<^verbatim>\<open>client_id\<close> or a filtered slug.
  With an empty table list these dimensions and measures are the dimensions and the
  measures of the view. The list has no duplicates when the registry's slugs are distinct,
  \<^verbatim>\<open>client_id\<close> is not a metric slug, no metric declares a statistic twice and no metric
  slug is the name of a measure.
\<close>

theorem metrics_set_of_metric_dimensions:
  assumes "to_lookml cfg ext self bq_client v1_name = Inr out" and "out \<noteq> Dict []"
  shows "\<exists>nsd metric_dims metric_measures.
      get_platform_definitions cfg (namespace self) = Some nsd
    \<and> get_dimensions cfg ext self = Inr metric_dims
    \<and> get_measures cfg self metric_dims = Inr metric_measures
    \<and> views0_item out ''sets'' = Inr (List
         [Dict [(''name'', Str ''metrics''),
                (''fields'', List (metrics_set_fields metric_dims metric_measures))]])
    \<and> (tables self = [] \<longrightarrow>
          views0_item out ''dimensions'' = Inr (List metric_dims)
        \<and> views0_item out ''measures'' = Inr (List metric_measures))
    \<and> metrics_set_fields metric_dims metric_measures
        = map Str (filter (\<lambda>s. s \<noteq> ''client_id'')
                     (filtered_slugs nsd (data_source_name_of (name self))))
          @ map Str (map fst (concat (map (expected_measures cfg (namespace self))
              (''client_id'' # filtered_slugs nsd (data_source_name_of (name self))))))
    \<and> (distinct (map fst (metrics_definitions nsd))
        \<and> no_name_clash cfg (namespace self)
             (filtered_slugs nsd (data_source_name_of (name self)))
        \<longrightarrow> distinct (metrics_set_fields metric_dims metric_measures))"
proof -
  from to_lookml_sets[OF assms] obtain nsd metric_dims metric_measures where
    f: "get_platform_definitions cfg (namespace self) = Some nsd"
       "get_dimensions cfg ext self = Inr metric_dims"
       "get_measures cfg self metric_dims = Inr metric_measures"
       "views0_item out ''sets'' = Inr (List
         [Dict [(''name'', Str ''metrics''),
                (''fields'', List (metrics_set_fields metric_dims metric_measures))]])"
       "tables self = [] \<longrightarrow>
          views0_item out ''dimensions'' = Inr (List metric_dims)
        \<and> views0_item out ''measures'' = Inr (List metric_measures)"
    by blast
  have "distinct (map fst (metrics_definitions nsd))
        \<and> no_name_clash cfg (namespace self)
             (filtered_slugs nsd (data_source_name_of (name self)))
        \<longrightarrow> distinct (metrics_set_fields metric_dims metric_measures)"
    using metrics_set_fields_distinct[OF f(1,2,3)] by blast
  with f metrics_set_fields_eq[OF f(1,2,3)] show ?thesis
    by (intro exI[of _ nsd] exI[of _ metric_dims] exI[of _ metric_measures] conjI)
qed

theorem metrics_set_of_metric_dimensions_witness:
  "\<exists>out. to_lookml ex_cfg ex_ext ex_view () None = Inr out \<and> out \<noteq> Dict []
   \<and> tables ex_view = []
   \<and> distinct (map fst ex_metrics)
   \<and> no_name_clash ex_cfg ''ns'' [''hours'', ''days'']
   \<and> views0_item out ''sets'' = Inr (List
         [Dict [(''name'', Str ''metrics''),
                (''fields'', List (metrics_set_fields
                   [ex_client_id_dimension, ex_hours_dimension, ex_days_dimension]
                   ex_days_measures))]])
   \<and> views0_item out ''dimensions''
       = Inr (List [ex_client_id_dimension, ex_hours_dimension, ex_days_dimension])
   \<and> views0_item out ''measures'' = Inr (List ex_days_measures)
   \<and> metrics_set_fields [ex_client_id_dimension, ex_hours_dimension, ex_days_dimension]
        ex_days_measures
       = [Str ''hours'', Str ''days'', Str ''days_sum'', Str ''days_client_count'']
   \<and> distinct (metrics_set_fields
        [ex_client_id_dimension, ex_hours_dimension, ex_days_dimension] ex_days_measures)"
proof -
  obtain out where o: "to_lookml ex_cfg ex_ext ex_view () None = Inr out" "out \<noteq> Dict []"
    using ex_to_lookml by simp
  have t: "tables ex_view = []" by (simp add: ex_view_def)
  have k: "distinct (map fst ex_metrics)" by (simp add: ex_metrics_def)
  have gpd: "get_platform_definitions ex_cfg (namespace ex_view)
               = Some \<lparr>metrics_definitions = ex_metrics\<rparr>"
    by (simp add: ex_cfg_def ex_view_def)
  have sl: "filtered_slugs \<lparr>metrics_definitions = ex_metrics\<rparr>
              (data_source_name_of (name ex_view)) = [''hours'', ''days'']"
    by (simp add: filtered_slugs_def ex_view_def ex_data_source_name ex_filtered_metrics)
  have c: "no_name_clash ex_cfg ''ns'' [''hours'', ''days'']"
    by (simp add: no_name_clash_def declared_statistics_def recognized_statistic_def
        ex_cfg_def ex_metrics_def ex_hours_def ex_days_def)
  have ns: "namespace ex_view = ''ns''" by (simp add: ex_view_def)
  have em: "map Str (filter (\<lambda>s. s \<noteq> ''client_id'') [''hours'', ''days''])
          @ map Str (map fst (concat (map (expected_measures ex_cfg ''ns'')
                 [''client_id'', ''hours'', ''days''])))
        = [Str ''hours'', Str ''days'', Str ''days_sum'', Str ''days_client_count'']"
    by (simp add: expected_measures_def declared_statistics_def recognized_statistic_def
        ex_cfg_def ex_metrics_def ex_hours_def ex_days_def)
  from metrics_set_of_metric_dimensions[OF o]
  obtain nsd metric_dims metric_measures where
    f: "get_platform_definitions ex_cfg (namespace ex_view) = Some nsd"
       "get_dimensions ex_cfg ex_ext ex_view = Inr metric_dims"
       "get_measures ex_cfg ex_view metric_dims = Inr metric_measures"
       "views0_item out ''sets'' = Inr (List
         [Dict [(''name'', Str ''metrics''),
                (''fields'', List (metrics_set_fields metric_dims metric_measures))]])"
       "tables ex_view = [] \<longrightarrow>
          views0_item out ''dimensions'' = Inr (List metric_dims)
        \<and> views0_item out ''measures'' = Inr (List metric_measures)"
       "metrics_set_fields metric_dims metric_measures
        = map Str (filter (\<lambda>s. s \<noteq> ''client_id'')
                     (filtered_slugs nsd (data_source_name_of (name ex_view))))
          @ map Str (map fst (concat (map (expected_measures ex_cfg (namespace ex_view))
              (''client_id'' # filtered_slugs nsd (data_source_name_of (name ex_view))))))"
       "distinct (map fst (metrics_definitions nsd))
        \<and> no_name_clash ex_cfg (namespace ex_view)
             (filtered_slugs nsd (data_source_name_of (name ex_view)))
        \<longrightarrow> distinct (metrics_set_fields metric_dims metric_measures)"
    by blast
  from f(1) gpd have nsd: "nsd = \<lparr>metrics_definitions = ex_metrics\<rparr>" by simp
  from f(2) ex_get_dimensions
  have md: "metric_dims = [ex_client_id_dimension, ex_hours_dimension, ex_days_dimension]"
    by simp
  from f(3) ex_get_measures have mm: "metric_measures = ex_days_measures"
    unfolding md by simp
  note g = f(4-7)[unfolded nsd md mm sl ns]
  from g(3) have fl: "metrics_set_fields
        [ex_client_id_dimension, ex_hours_dimension, ex_days_dimension] ex_days_measures
       = [Str ''hours'', Str ''days'', Str ''days_sum'', Str ''days_client_count'']"
    unfolding em .
  from g(2) t have dm: "views0_item out ''dimensions''
       = Inr (List [ex_client_id_dimension, ex_hours_dimension, ex_days_dimension])"
    "views0_item out ''measures'' = Inr (List ex_days_measures)"
    by simp_all
  from g(4) k c have di: "distinct (metrics_set_fields
        [ex_client_id_dimension, ex_hours_dimension, ex_days_dimension] ex_days_measures)"
    by simp
  show ?thesis
    by (rule exI[of _ out]) (intro conjI o t k c g(1) dm fl di)
qed

text \<open>
  Claim C7. A generated view has exactly one parameter, \<^verbatim>\<open>aggregate_metrics_by\<close>, of type
  \<^verbatim>\<open>unquoted\<close>, with default \<^verbatim>\<open>day\<close> and the allowed values day, week, month, quarter,
  year and overall. The SQL contains the conditional on that parameter with the branches
  day, week, month, quarter and year only, so that the value \<^verbatim>\<open>overall\<close> selects the else
  branch, \<^verbatim>\<open>NULL as analysis_basis\<close>.
\<close>

theorem aggregate_metrics_by_parameter:
  assumes "to_lookml cfg ext self bq_client v1_name = Inr out" and "out \<noteq> Dict []"
  shows "\<exists>allowed dsd pre post.
      views0_item out ''parameters'' = Inr (List
        [Dict [(''name'', Str ''aggregate_metrics_by''),
               (''label'', Str ''Aggregate Client Metrics Per''),
               (''type'', Str ''unquoted''),
               (''default_value'', Str ''day''),
               (''allowed_values'', List allowed)]])
    \<and> map (\<lambda>a. getitem a ''value'') allowed
        = map (\<lambda>v. Inr (Str v)) [''day'', ''week'', ''month'', ''quarter'', ''year'', ''overall'']
    \<and> get_data_source_definition cfg (data_source_name_of (name self)) (namespace self)
        = Some dsd
    \<and> views0_item out ''derived_table'' = Inr (Dict [(''sql'', Str
         (pre @ liquid_chain ''if'' ''aggregate_metrics_by._parameter_value''
                  (analysis_basis_branches
                     (or_default (submission_date_column dsd) ''submission_date''))
                  analysis_basis_else
          @ post))])
    \<and> map fst (analysis_basis_branches
                  (or_default (submission_date_column dsd) ''submission_date''))
        = [''day'', ''week'', ''month'', ''quarter'', ''year'']
    \<and> liquid_select
          (analysis_basis_branches (or_default (submission_date_column dsd) ''submission_date''))
          analysis_basis_else ''overall''
        = ''\<newline>                NULL as analysis_basis\<newline>                ''"
proof -
  from to_lookml_cases[OF assms(1)] assms(2)
  obtain nsd dsd cols bfields base_lkml join_sql source_sql dims dims' groups' measures sets
    where dsd: "get_data_source_definition cfg (data_source_name_of (name self))
                  (namespace self) = Some dsd"
      and out: "out = Dict [(''views'', List [Dict
           [(''name'', Str (name self)),
            (''derived_table'', Dict [(''sql'', Str
               (derived_table_sql dsd cols bfields source_sql join_sql))]),
            (''dimensions'', List dims'),
            (''dimension_groups'', List groups'),
            (''measures'', List measures),
            (''sets'', List sets),
            (''parameters'', List get_parameters)]])]"
    by blast
  let ?col = "or_default (submission_date_column dsd) ''submission_date''"
  from get_parameters_values obtain allowed where
    allowed: "get_parameters =
      [Dict [(''name'', Str ''aggregate_metrics_by''),
             (''label'', Str ''Aggregate Client Metrics Per''),
             (''type'', Str ''unquoted''),
             (''default_value'', Str ''day''),
             (''allowed_values'', List allowed)]]"
      "map (\<lambda>a. getitem a ''value'') allowed
        = map (\<lambda>v. Inr (Str v)) [''day'', ''week'', ''month'', ''quarter'', ''year'', ''overall'']"
    by blast
  from derived_table_sql_analysis_basis[of dsd cols bfields source_sql join_sql]
  obtain pre post where
    sql: "derived_table_sql dsd cols bfields source_sql join_sql
            = pre @ liquid_chain ''if'' ''aggregate_metrics_by._parameter_value''
                  (analysis_basis_branches ?col) analysis_basis_else @ post"
    unfolding analysis_basis_sql_chain by blast
  have p: "views0_item out ''parameters'' = Inr (List
        [Dict [(''name'', Str ''aggregate_metrics_by''),
               (''label'', Str ''Aggregate Client Metrics Per''),
               (''type'', Str ''unquoted''),
               (''default_value'', Str ''day''),
               (''allowed_values'', List allowed)]])"
    unfolding out views0_item_views allowed(1)[symmetric] by simp
  have d: "views0_item out ''derived_table'' = Inr (Dict [(''sql'', Str
         (pre @ liquid_chain ''if'' ''aggregate_metrics_by._parameter_value''
                  (analysis_basis_branches ?col) analysis_basis_else @ post))])"
    unfolding out views0_item_views sql[symmetric] by simp
  have b: "map fst (analysis_basis_branches ?col)
        = [''day'', ''week'', ''month'', ''quarter'', ''year'']"
    by (simp add: analysis_basis_branches_def)
  have e: "liquid_select (analysis_basis_branches ?col) analysis_basis_else ''overall''
        = ''\<newline>                NULL as analysis_basis\<newline>                ''"
    by (simp add: analysis_basis_branches_def analysis_basis_else_def)
  show ?thesis
    by (intro exI[of _ allowed] exI[of _ dsd] exI[of _ pre] exI[of _ post] conjI
        p allowed(2) dsd d b e)
qed

theorem aggregate_metrics_by_parameter_witness:
  "\<exists>out. to_lookml ex_cfg ex_ext ex_view () None = Inr out \<and> out \<noteq> Dict []
   \<and> (\<exists>allowed dsd pre post.
      views0_item out ''parameters'' = Inr (List
        [Dict [(''name'', Str ''aggregate_metrics_by''),
               (''label'', Str ''Aggregate Client Metrics Per''),
               (''type'', Str ''unquoted''),
               (''default_value'', Str ''day''),
               (''allowed_values'', List allowed)]])
    \<and> map (\<lambda>a. getitem a ''value'') allowed
        = map (\<lambda>v. Inr (Str v)) [''day'', ''week'', ''month'', ''quarter'', ''year'', ''overall'']
    \<and> get_data_source_definition ex_cfg (data_source_name_of (name ex_view)) (namespace ex_view)
        = Some dsd
    \<and> views0_item out ''derived_table'' = Inr (Dict [(''sql'', Str
         (pre @ liquid_chain ''if'' ''aggregate_metrics_by._parameter_value''
                  (analysis_basis_branches
                     (or_default (submission_date_column dsd) ''submission_date''))
                  analysis_basis_else
          @ post))])
    \<and> map fst (analysis_basis_branches
                  (or_default (submission_date_column dsd) ''submission_date''))
        = [''day'', ''week'', ''month'', ''quarter'', ''year'']
    \<and> liquid_select
          (analysis_basis_branches (or_default (submission_date_column dsd) ''submission_date''))
          analysis_basis_else ''overall''
        = ''\<newline>                NULL as analysis_basis\<newline>                '')"
proof -
  obtain out where o: "to_lookml ex_cfg ex_ext ex_view () None = Inr out" "out \<noteq> Dict []"
    using ex_to_lookml by simp
  show ?thesis
    by (rule exI[of _ out]) (intro conjI o aggregate_metrics_by_parameter[OF o])
qed

text \<open>
  Claim C8 as stated fails: the generation is not free of side effects. On the sample view
  with a base table the call changes the LookML that the resolver handed out: after the
  call the descriptors \<^verbatim>\<open>country\<close>, \<^verbatim>\<open>os\<close> and \<^verbatim>\<open>first_seen\<close> of the base view carry the
  \<^verbatim>\<open>group_label\<close> \<^verbatim>\<open>Base Fields\<close>.
\<close>

theorem to_lookml_side_effect_counterexample:
  "table_view_to_lookml ex_ext ''ns'' ''base_view''
     [[(''table'', ''mozdata.base.clients''), (''channel'', ''release'')]] () None
     = Inr ex_base_lkml
   \<and> snd (to_lookml_st ex_cfg ex_ext ex_view_base () None) ''ns'' ''base_view''
       [[(''table'', ''mozdata.base.clients''), (''channel'', ''release'')]] () None
     = Inr ex_base_lkml_after
   \<and> ex_base_lkml_after \<noteq> ex_base_lkml
   \<and> to_lookml ex_cfg ex_ext ex_view_base () None \<noteq> Inr (Dict [])"
proof -
  have "ex_base_lkml_after \<noteq> ex_base_lkml"
    by (simp add: ex_base_lkml_after_def ex_base_lkml_def)
  moreover have "table_view_to_lookml ex_ext ''ns'' ''base_view''
     [[(''table'', ''mozdata.base.clients''), (''channel'', ''release'')]] () None
     = Inr ex_base_lkml"
    by (simp add: ex_ext_def)
  moreover have "to_lookml ex_cfg ex_ext ex_view_base () None \<noteq> Inr (Dict [])"
    by (simp add: ex_to_lookml_base)
  ultimately show ?thesis
    unfolding ex_to_lookml_st_base ex_resolver_after by (intro conjI refl)
qed

text \<open>
  Claim C8, amended. The record that \<^verbatim>\<open>to_lookml\<close> returns is a function of the registry,
  the collaborators, the view and \<^verbatim>\<open>bq_client\<close>, whatever \<^verbatim>\<open>v1_name\<close> is. A second
  invocation to which the resolver hands out the very objects that the first invocation
  received and changed in place returns the same record, and leaves the resolver's objects
  as the first invocation left them.
\<close>

theorem to_lookml_repeatable:
  "fst (to_lookml_st cfg ext self bq_client v1_name) = to_lookml cfg ext self bq_client v1_name'
   \<and> to_lookml_st cfg
       (ext\<lparr>table_view_to_lookml := snd (to_lookml_st cfg ext self bq_client v1_name)\<rparr>)
       self bq_client v1_name'
     = to_lookml_st cfg ext self bq_client v1_name"
  by (intro conjI to_lookml_st_fst to_lookml_st_again)

theorem to_lookml_repeatable_witness:
  "snd (to_lookml_st ex_cfg ex_ext ex_view_base () None) \<noteq> table_view_to_lookml ex_ext
   \<and> fst (to_lookml_st ex_cfg ex_ext ex_view_base () None)
       = to_lookml ex_cfg ex_ext ex_view_base () (Some ''v1'')
   \<and> to_lookml ex_cfg ex_ext ex_view_base () (Some ''v1'') \<noteq> Inr (Dict [])
   \<and> to_lookml_st ex_cfg
       (ex_ext\<lparr>table_view_to_lookml := snd (to_lookml_st ex_cfg ex_ext ex_view_base () None)\<rparr>)
       ex_view_base () (Some ''v1'')
     = to_lookml_st ex_cfg ex_ext ex_view_base () None"
proof -
  note inst = to_lookml_repeatable[of ex_cfg ex_ext ex_view_base "()" None "Some ''v1''"]
  have "snd (to_lookml_st ex_cfg ex_ext ex_view_base () None) ''ns'' ''base_view''
       [[(''table'', ''mozdata.base.clients''), (''channel'', ''release'')]] () None
     \<noteq> table_view_to_lookml ex_ext ''ns'' ''base_view''
       [[(''table'', ''mozdata.base.clients''), (''channel'', ''release'')]] () None"
    unfolding ex_to_lookml_st_base ex_resolver_after
    by (simp add: ex_ext_def ex_base_lkml_after_def ex_base_lkml_def)
  then have changed: "snd (to_lookml_st ex_cfg ex_ext ex_view_base () None)
      \<noteq> table_view_to_lookml ex_ext"
    by auto
  have "to_lookml ex_cfg ex_ext ex_view_base () (Some ''v1'')
      = to_lookml ex_cfg ex_ext ex_view_base () None"
    by (simp add: to_lookml_def)
  then have nonempty: "to_lookml ex_cfg ex_ext ex_view_base () (Some ''v1'') \<noteq> Inr (Dict [])"
    unfolding ex_to_lookml_base by simp
  from changed inst nonempty show ?thesis by (intro conjI) simp_all
qed

text \<open>
  Claim C9. With a non-empty table list the result depends on the list only through the
  \<^verbatim>\<open>table\<close> entry of its first element, and on the base-table resolver only through its
  answer for the view \<^verbatim>\<open>base_view\<close> on the one table reference made of that table and the
  channel \<^verbatim>\<open>release\<close>: later elements and the channel given in the list are ignored. In a
  generated view that answer is used: the SQL joins the first element's table and groups
  by the names of the base view's dimensions that are not excluded, and these dimensions
  and the base view's dimension groups that are not excluded are appended to the
  dimensions and dimension groups of the view.
\<close>

theorem base_view_from_first_table:
  assumes "tables self = t # ts"
  shows "(\<forall>base_table (ext' :: 'bq externals) self' v1_name'.
            map_of t ''table'' = Some base_table
          \<and> (\<exists>t' ts'. tables self' = t' # ts' \<and> map_of t' ''table'' = Some base_table)
          \<and> namespace self' = namespace self \<and> name self' = name self
          \<and> table_view_to_lookml ext' (namespace self) ''base_view''
               [[(''table'', base_table), (''channel'', ''release'')]] bq_client None
              = table_view_to_lookml ext (namespace self) ''base_view''
               [[(''table'', base_table), (''channel'', ''release'')]] bq_client None
          \<and> slug_to_title ext' = slug_to_title ext
          \<and> format_dataset ext' = format_dataset ext
          \<longrightarrow> to_lookml cfg ext' self' bq_client v1_name'
                = to_lookml cfg ext self bq_client v1_name)
    \<and> (\<forall>out. to_lookml cfg ext self bq_client v1_name = Inr out \<and> out \<noteq> Dict [] \<longrightarrow>
         (\<exists>nsd base_table base_lkml base_dims base_groups base_names pre mid.
            get_platform_definitions cfg (namespace self) = Some nsd
          \<and> map_of t ''table'' = Some base_table
          \<and> table_view_to_lookml ext (namespace self) ''base_view''
               [[(''table'', base_table), (''channel'', ''release'')]] bq_client None
              = Inr base_lkml
          \<and> views0_item base_lkml ''dimensions'' = Inr base_dims
          \<and> views0_item base_lkml ''dimension_groups'' = Inr base_groups
          \<and> map (\<lambda>d. get_str d ''name'')
                (filter (not_ignored (ignore_base_fields nsd (data_source_name_of (name self))))
                   (iter base_dims))
              = map Inr base_names
          \<and> views0_item out ''derived_table'' = Inr (Dict [(''sql'', Str
               (pre @ ''INNER JOIN '' @ base_table @ '' base\<newline>'' @ mid
                @ ''GROUP BY\<newline>                ''
                @ concat (map (\<lambda>n. n @ '',\<newline>'') base_names)
                @ ''\<newline>                client_id,\<newline>                analysis_basis\<newline>            ''))])
          \<and> (\<exists>metric_dims. get_dimensions cfg ext self = Inr metric_dims
                \<and> views0_item out ''dimensions'' = Inr (List (metric_dims @
                     map with_group_label
                       (filter (not_ignored
                                  (ignore_base_fields nsd (data_source_name_of (name self))))
                          (iter base_dims)))))
          \<and> views0_item out ''dimension_groups'' = Inr (List (get_dimension_groups @
               map with_group_label
                 (filter (not_ignored (ignore_base_fields nsd (data_source_name_of (name self))))
                    (iter base_groups))))))"
proof (intro conjI allI impI; (elim conjE exE)?)
  fix base_table and ext' :: "'bq externals" and self' :: view and v1_name' t' ts'
  assume a: "map_of t ''table'' = Some base_table"
    "tables self' = t' # ts'" "map_of t' ''table'' = Some base_table"
    "namespace self' = namespace self" "name self' = name self"
    "table_view_to_lookml ext' (namespace self) ''base_view''
               [[(''table'', base_table), (''channel'', ''release'')]] bq_client None
      = table_view_to_lookml ext (namespace self) ''base_view''
               [[(''table'', base_table), (''channel'', ''release'')]] bq_client None"
    "slug_to_title ext' = slug_to_title ext" "format_dataset ext' = format_dataset ext"
  have "to_lookml cfg ext self bq_client v1_name = to_lookml cfg ext' self' bq_client v1_name'"
    by (rule to_lookml_first_table_only[OF _ _ assms a(2) a(1) a(3)]) (simp_all add: a)
  then show "to_lookml cfg ext' self' bq_client v1_name'
                = to_lookml cfg ext self bq_client v1_name"
    by simp
next
  fix out
  assume "to_lookml cfg ext self bq_client v1_name = Inr out" and "out \<noteq> Dict []"
  then show "\<exists>nsd base_table base_lkml base_dims base_groups base_names pre mid.
            get_platform_definitions cfg (namespace self) = Some nsd
          \<and> map_of t ''table'' = Some base_table
          \<and> table_view_to_lookml ext (namespace self) ''base_view''
               [[(''table'', base_table), (''channel'', ''release'')]] bq_client None
              = Inr base_lkml
          \<and> views0_item base_lkml ''dimensions'' = Inr base_dims
          \<and> views0_item base_lkml ''dimension_groups'' = Inr base_groups
          \<and> map (\<lambda>d. get_str d ''name'')
                (filter (not_ignored (ignore_base_fields nsd (data_source_name_of (name self))))
                   (iter base_dims))
              = map Inr base_names
          \<and> views0_item out ''derived_table'' = Inr (Dict [(''sql'', Str
               (pre @ ''INNER JOIN '' @ base_table @ '' base\<newline>'' @ mid
                @ ''GROUP BY\<newline>                ''
                @ concat (map (\<lambda>n. n @ '',\<newline>'') base_names)
                @ ''\<newline>                client_id,\<newline>                analysis_basis\<newline>            ''))])
          \<and> (\<exists>metric_dims. get_dimensions cfg ext self = Inr metric_dims
                \<and> views0_item out ''dimensions'' = Inr (List (metric_dims @
                     map with_group_label
                       (filter (not_ignored
                                  (ignore_base_fields nsd (data_source_name_of (name self))))
                          (iter base_dims)))))
          \<and> views0_item out ''dimension_groups'' = Inr (List (get_dimension_groups @
               map with_group_label
                 (filter (not_ignored (ignore_base_fields nsd (data_source_name_of (name self))))
                    (iter base_groups))))"
    using assms by (rule to_lookml_base_view)
qed

theorem base_view_from_first_table_witness:
  "tables ex_view_base
     = [(''table'', ''mozdata.base.clients''), (''channel'', ''beta'')]
       # [[(''table'', ''mozdata.base.other''), (''channel'', ''nightly'')]]
   \<and> table_view_to_lookml ex_ext ''ns'' ''base_view''
       [[(''table'', ''mozdata.base.clients''), (''channel'', ''beta'')]] () None
     \<noteq> table_view_to_lookml ex_ext2 ''ns'' ''base_view''
       [[(''table'', ''mozdata.base.clients''), (''channel'', ''beta'')]] () None
   \<and> to_lookml ex_cfg ex_ext2
       \<lparr>namespace = ''ns'', name = ''metric_definitions_ds1'',
        tables = [[(''table'', ''mozdata.base.clients'')]]\<rparr> () (Some ''v1'')
     = to_lookml ex_cfg ex_ext ex_view_base () None
   \<and> (\<exists>out pre mid. to_lookml ex_cfg ex_ext ex_view_base () None = Inr out \<and> out \<noteq> Dict []
        \<and> views0_item out ''derived_table'' = Inr (Dict [(''sql'', Str
               (pre @ ''INNER JOIN mozdata.base.clients base\<newline>'' @ mid
                @ ''GROUP BY\<newline>                country,\<newline>os,\<newline>''
                @ ''\<newline>                client_id,\<newline>                analysis_basis\<newline>            ''))])
        \<and> views0_item out ''dimensions''
            = Inr (List [ex_client_id_dimension, ex_hours_dimension, ex_days_dimension,
                         ex_country_dimension, ex_os_dimension])
        \<and> views0_item out ''dimension_groups''
            = Inr (List (get_dimension_groups @ [ex_first_seen_group])))"
proof -
  let ?t = "[(''table'', ''mozdata.base.clients''), (''channel'', ''beta'')]"
  let ?ts = "[[(''table'', ''mozdata.base.other''), (''channel'', ''nightly'')]]"
  let ?self' = "\<lparr>namespace = ''ns'', name = ''metric_definitions_ds1'',
        tables = [[(''table'', ''mozdata.base.clients'')]]\<rparr>"
  have t: "tables ex_view_base = ?t # ?ts"
    by (simp add: ex_view_base_def)
  note inst = base_view_from_first_table[OF t, where ext = ex_ext and cfg = ex_cfg
      and bq_client = "()" and ?v1_name = None]
  have differ: "table_view_to_lookml ex_ext ''ns'' ''base_view''
       [[(''table'', ''mozdata.base.clients''), (''channel'', ''beta'')]] () None
     \<noteq> table_view_to_lookml ex_ext2 ''ns'' ''base_view''
       [[(''table'', ''mozdata.base.clients''), (''channel'', ''beta'')]] () None"
    by (simp add: ex_ext_def ex_ext2_def)
  have same: "to_lookml ex_cfg ex_ext2 ?self' () (Some ''v1'')
     = to_lookml ex_cfg ex_ext ex_view_base () None"
    by (rule inst[THEN conjunct1, rule_format, of "''mozdata.base.clients''" ?self'])
       (simp add: ex_view_base_def ex_ext_def ex_ext2_def)
  obtain out where o: "to_lookml ex_cfg ex_ext ex_view_base () None = Inr out" "out \<noteq> Dict []"
    using ex_to_lookml_base by simp
  from inst[THEN conjunct2, rule_format, of out] o
  obtain nsd base_table base_lkml base_dims base_groups base_names pre mid where
    f: "get_platform_definitions ex_cfg (namespace ex_view_base) = Some nsd"
       "map_of ?t ''table'' = Some base_table"
       "table_view_to_lookml ex_ext (namespace ex_view_base) ''base_view''
               [[(''table'', base_table), (''channel'', ''release'')]] () None
              = Inr base_lkml"
       "views0_item base_lkml ''dimensions'' = Inr base_dims"
       "views0_item base_lkml ''dimension_groups'' = Inr base_groups"
       "map (\<lambda>d. get_str d ''name'')
                (filter (not_ignored (ignore_base_fields nsd
                           (data_source_name_of (name ex_view_base))))
                   (iter base_dims))
              = map Inr base_names"
       "views0_item out ''derived_table'' = Inr (Dict [(''sql'', Str
               (pre @ ''INNER JOIN '' @ base_table @ '' base\<newline>'' @ mid
                @ ''GROUP BY\<newline>                ''
                @ concat (map (\<lambda>n. n @ '',\<newline>'') base_names)
                @ ''\<newline>                client_id,\<newline>                analysis_basis\<newline>            ''))])"
       "\<exists>metric_dims. get_dimensions ex_cfg ex_ext ex_view_base = Inr metric_dims
                \<and> views0_item out ''dimensions'' = Inr (List (metric_dims @
                     map with_group_label
                       (filter (not_ignored
                                  (ignore_base_fields nsd
                                     (data_source_name_of (name ex_view_base))))
                          (iter base_dims))))"
       "views0_item out ''dimension_groups'' = Inr (List (get_dimension_groups @
               map with_group_label
                 (filter (not_ignored (ignore_base_fields nsd
                            (data_source_name_of (name ex_view_base))))
                    (iter base_groups))))"
    by blast
  have nm: "data_source_name_of (name ex_view_base) = ''ds1''"
    by (simp add: ex_view_base_def ex_data_source_name)
  from f(1) have nsd: "nsd = \<lparr>metrics_definitions = ex_metrics\<rparr>"
    by (simp add: ex_cfg_def ex_view_base_def)
  from f(2) have bt: "base_table = ''mozdata.base.clients''" by simp
  from f(3) have bl: "base_lkml = ex_base_lkml"
    by (simp add: bt ex_ext_def)
  from f(4) have bd: "base_dims = List
         [Dict [(''name'', Str ''country''), (''label'', Str ''Country'')],
          Dict [(''name'', Str ''client_id''), (''label'', Str ''Client'')],
          Dict [(''name'', Str ''days''), (''label'', Str ''Days'')],
          Dict [(''name'', Str ''os''), (''label'', Str ''OS''), (''group_label'', Str ''System'')]]"
    unfolding bl ex_views0_dimensions by simp
  from f(5) have bg: "base_groups = List
         [Dict [(''name'', Str ''submission''), (''type'', Str ''time'')],
          Dict [(''name'', Str ''first_seen''), (''type'', Str ''time'')]]"
    unfolding bl ex_views0_dimension_groups by simp
  have kept: "filter (not_ignored (ignore_base_fields nsd ''ds1'')) (iter base_dims)
     = [Dict [(''name'', Str ''country''), (''label'', Str ''Country'')],
        Dict [(''name'', Str ''os''), (''label'', Str ''OS''), (''group_label'', Str ''System'')]]"
    unfolding nsd ex_ignore_base_fields bd by (simp add: not_ignored_def)
  have keptg: "filter (not_ignored (ignore_base_fields nsd ''ds1'')) (iter base_groups)
     = [Dict [(''name'', Str ''first_seen''), (''type'', Str ''time'')]]"
    unfolding nsd ex_ignore_base_fields bg by (simp add: not_ignored_def)
  from f(6) have "map Inr base_names = [Inr ''country'', Inr ''os'' :: error + string]"
    unfolding nm kept by (simp add: get_str_def)
  then have bn: "base_names = [''country'', ''os'']"
    by (cases base_names; cases "tl base_names") auto
  from f(7) have sql: "views0_item out ''derived_table'' = Inr (Dict [(''sql'', Str
               (pre @ ''INNER JOIN mozdata.base.clients base\<newline>'' @ mid
                @ ''GROUP BY\<newline>                country,\<newline>os,\<newline>''
                @ ''\<newline>                client_id,\<newline>                analysis_basis\<newline>            ''))])"
    unfolding bt bn by simp
  from f(8) have dims: "views0_item out ''dimensions''
            = Inr (List [ex_client_id_dimension, ex_hours_dimension, ex_days_dimension,
                         ex_country_dimension, ex_os_dimension])"
    unfolding nm kept ex_get_dimensions_base ex_get_dimensions
    by (simp add: ex_country_dimension_def ex_os_dimension_def)
  from f(9) have groups: "views0_item out ''dimension_groups''
            = Inr (List (get_dimension_groups @ [ex_first_seen_group]))"
    unfolding nm keptg by (simp add: ex_first_seen_group_def)
  have "\<exists>out pre mid. to_lookml ex_cfg ex_ext ex_view_base () None = Inr out \<and> out \<noteq> Dict []
        \<and> views0_item out ''derived_table'' = Inr (Dict [(''sql'', Str
               (pre @ ''INNER JOIN mozdata.base.clients base\<newline>'' @ mid
                @ ''GROUP BY\<newline>                country,\<newline>os,\<newline>''
                @ ''\<newline>                client_id,\<newline>                analysis_basis\<newline>            ''))])
        \<and> views0_item out ''dimensions''
            = Inr (List [ex_client_id_dimension, ex_hours_dimension, ex_days_dimension,
                         ex_country_dimension, ex_os_dimension])
        \<and> views0_item out ''dimension_groups''
            = Inr (List (get_dimension_groups @ [ex_first_seen_group]))"
    by (intro exI[of _ out] exI[of _ pre] exI[of _ mid] conjI o sql dims groups)
  with t differ same show ?thesis by (intro conjI)
qed

text \<open>
  Claim C10. When \<^verbatim>\<open>get_platform_definitions\<close> returns None for the namespace,
  \<^verbatim>\<open>get_dimensions\<close>, and with it \<^verbatim>\<open>_get_sets\<close>, fails with an attribute-access error
  when called directly; only \<^verbatim>\<open>to_lookml\<close> guards the case, with the empty result.
\<close>

theorem get_dimensions_unguarded:
  assumes "get_platform_definitions cfg (namespace self) = None"
  shows "get_dimensions cfg ext self = Inl AttributeError
       \<and> get_sets cfg ext self = Inl AttributeError
       \<and> to_lookml cfg ext self bq_client v1_name = Inr (Dict [])"
  using assms by (simp add: get_dimensions_def get_sets_def to_lookml_def)

theorem get_dimensions_unguarded_witness:
  "get_platform_definitions ex_cfg ''other'' = None
   \<and> get_dimensions ex_cfg ex_ext
        \<lparr>namespace = ''other'', name = ''metric_definitions_ds1'', tables = []\<rparr>
       = Inl AttributeError
   \<and> get_sets ex_cfg ex_ext
        \<lparr>namespace = ''other'', name = ''metric_definitions_ds1'', tables = []\<rparr>
       = Inl AttributeError
   \<and> to_lookml ex_cfg ex_ext
        \<lparr>namespace = ''other'', name = ''metric_definitions_ds1'', tables = []\<rparr> () None
       = Inr (Dict [])"
proof -
  have a: "get_platform_definitions ex_cfg ''other'' = None"
    by (simp add: ex_cfg_def)
  show ?thesis
    using get_dimensions_unguarded[of ex_cfg
            "\<lparr>namespace = ''other'', name = ''metric_definitions_ds1'', tables = []\<rparr>"
            ex_ext "()" None] a
    by simp
qed

end
